theory Spec2Isabelle
  imports Complex_Main "HOL-Library.Word"
begin

section \<open>Error classes (utils/errors.ts)\<close>

text \<open>
  A JavaScript number: a finite value, written as the rational it denotes (every finite
  double is one), the negative zero, or one of the three values that are not finite.
\<close>

datatype js_number = Number rat | NegZero | NaN | Infinity | NegInfinity

text \<open>
  The class hierarchy \<open>SlackApiError\<close> / \<open>RateLimitError\<close> / \<open>AuthenticationError\<close> /
  \<open>NotFoundError\<close> / \<open>PermissionError\<close> carries a tag (the \<open>name\<close> each constructor
  sets) and the fields below; \<open>retryAfterSeconds\<close> exists on \<open>RateLimitError\<close> only and
  is \<open>None\<close> on the other classes.
\<close>

record SlackApiError =
  name :: string
  message :: string
  code :: string
  statusCode :: "int option"
  retryable :: bool
  retryAfterSeconds :: "js_number option"

text \<open>\<open>a || b\<close> on an optional string: the empty string and \<open>undefined\<close> are falsy.\<close>

definition or_else :: "string option \<Rightarrow> string \<Rightarrow> string" where
  "or_else a b = (case a of None \<Rightarrow> b | Some s \<Rightarrow> if s = [] then b else s)"

definition new_SlackApiError ::
  "string \<Rightarrow> string option \<Rightarrow> int option \<Rightarrow> bool \<Rightarrow> SlackApiError" where
  "new_SlackApiError msg c sc r =
     \<lparr> name = ''SlackApiError'', message = msg, code = or_else c ''SLACK_ERROR'',
       statusCode = sc, retryable = r, retryAfterSeconds = None \<rparr>"

definition new_RateLimitError :: "string \<Rightarrow> js_number \<Rightarrow> SlackApiError" where
  "new_RateLimitError msg secs =
     (new_SlackApiError msg (Some ''RATE_LIMITED'') (Some 429) True)
       \<lparr> name := ''RateLimitError'', retryAfterSeconds := Some secs \<rparr>"

definition new_AuthenticationError :: "string \<Rightarrow> SlackApiError" where
  "new_AuthenticationError msg =
     (new_SlackApiError msg (Some ''AUTHENTICATION_FAILED'') (Some 401) False)
       \<lparr> name := ''AuthenticationError'' \<rparr>"

definition new_NotFoundError :: "string \<Rightarrow> string \<Rightarrow> SlackApiError" where
  "new_NotFoundError entityType ident =
     (new_SlackApiError (entityType @ '' with ID '' @ [CHR 0x27] @ ident @ [CHR 0x27] @ '' not found'')
        (Some ''NOT_FOUND'') (Some 404) False)
       \<lparr> name := ''NotFoundError'' \<rparr>"

definition new_PermissionError :: "string \<Rightarrow> SlackApiError" where
  "new_PermissionError msg =
     (new_SlackApiError msg (Some ''MISSING_SCOPE'') (Some 403) False)
       \<lparr> name := ''PermissionError'' \<rparr>"

definition auth_codes :: "string list" where
  "auth_codes =
     [''invalid_auth'', ''not_authed'', ''account_inactive'', ''token_revoked'', ''token_expired'']"

definition permission_codes :: "string list" where
  "permission_codes =
     [''missing_scope'', ''not_allowed_token_type'', ''ekm_access_denied'', ''restricted_action'']"

definition not_found_codes :: "string list" where
  "not_found_codes =
     [''channel_not_found'', ''user_not_found'', ''file_not_found'', ''message_not_found'']"

text \<open>
  \<open>mapSlackError(errorCode, message?)\<close>: the \<open>switch\<close> compares the code with each
  label in turn; the labels are pairwise different, so the order of the groups does
  not matter.
\<close>

definition mapSlackError :: "string \<Rightarrow> string option \<Rightarrow> SlackApiError" where
  "mapSlackError errorCode msg =
     (let errorMessage = or_else msg (''Slack API error: '' @ errorCode) in
      if errorCode \<in> set auth_codes then new_AuthenticationError errorMessage
      else if errorCode \<in> set permission_codes then new_PermissionError errorMessage
      else if errorCode \<in> set not_found_codes then new_NotFoundError ''resource'' errorCode
      else if errorCode = ''ratelimited'' then new_RateLimitError errorMessage (Number 60)
      else new_SlackApiError errorMessage (Some errorCode) None False)"

section \<open>JSON values and \<open>JSON.stringify\<close>\<close>

text \<open>
  A JSON document as it travels on the wire, and a JavaScript value as the client
  holds it before serialization. Only the latter has \<open>undefined\<close>. Objects keep their
  properties in insertion order. The remote entities (conversations, messages, users,
  files, ...) are decoded JSON documents that the client passes through unchanged.
\<close>

datatype json =
  JNull | JBool bool | JNum rat | JStr string | JArr "json list" | JObj "(string \<times> json) list"

datatype jsval =
  VUndefined | VNull | VBool bool | VNum js_number | VStr string | VArr "jsval list"
  | VObj "(string \<times> jsval) list"

text \<open>
  \<open>JSON.stringify\<close>, up to the rendering of the document as text: \<open>undefined\<close> alone
  gives no document, an \<open>undefined\<close> array element becomes \<open>null\<close>, and a property
  whose value is \<open>undefined\<close> is left out of its object. A finite number is written as
  a number (the negative zero as \<open>0\<close>); \<open>NaN\<close> and the two infinities are written as
  \<open>null\<close>. Every other value, the empty string included, is kept.
\<close>

fun JSON_stringify :: "jsval \<Rightarrow> json option" where
  "JSON_stringify VUndefined = None"
| "JSON_stringify VNull = Some JNull"
| "JSON_stringify (VBool b) = Some (JBool b)"
| "JSON_stringify (VNum (Number q)) = Some (JNum q)"
| "JSON_stringify (VNum NegZero) = Some (JNum 0)"
| "JSON_stringify (VNum NaN) = Some JNull"
| "JSON_stringify (VNum Infinity) = Some JNull"
| "JSON_stringify (VNum NegInfinity) = Some JNull"
| "JSON_stringify (VStr s) = Some (JStr s)"
| "JSON_stringify (VArr xs) =
     Some (JArr (map (\<lambda>x. case JSON_stringify x of None \<Rightarrow> JNull | Some j \<Rightarrow> j) xs))"
| "JSON_stringify (VObj kvs) =
     Some (JObj (concat (map (\<lambda>kv. case JSON_stringify (snd kv) of
                                      None \<Rightarrow> [] | Some j \<Rightarrow> [(fst kv, j)]) kvs)))"

definition opt_str :: "string option \<Rightarrow> jsval" where
  "opt_str v = (case v of None \<Rightarrow> VUndefined | Some s \<Rightarrow> VStr s)"

definition opt_num :: "js_number option \<Rightarrow> jsval" where
  "opt_num v = (case v of None \<Rightarrow> VUndefined | Some n \<Rightarrow> VNum n)"

definition opt_bool :: "bool option \<Rightarrow> jsval" where
  "opt_bool v = (case v of None \<Rightarrow> VUndefined | Some b \<Rightarrow> VBool b)"

definition opt_val :: "jsval option \<Rightarrow> jsval" where
  "opt_val v = (case v of None \<Rightarrow> VUndefined | Some x \<Rightarrow> x)"

section \<open>Credentials and the HTTP layer (types/env.ts, client)\<close>

record TenantCredentials =
  botToken :: "string option"
  userToken :: "string option"

text \<open>
  What a JavaScript \<open>throw\<close> can carry here: one of the client's own error objects,
  another \<open>Error\<close> (name and message: the \<open>TypeError\<close> of a failed \<open>fetch\<close>, the
  \<open>SyntaxError\<close> of an undecodable body), or a value that is not an \<open>Error\<close>.
\<close>

datatype thrown = SlackErr SlackApiError | JsError string string | NonError jsval

text \<open>The body handed to \<open>fetch\<close>: the stringified parameters, or the raw upload text
  (UTF-16 code units).\<close>

datatype body = JsonBody json | TextBody "16 word list" | NoBody

record http_request =
  url :: string
  http_method :: string
  headers :: "(string \<times> string) list"
  body :: body

text \<open>
  A response as the dispatcher reads it: \<open>status\<close>, \<open>headers.get\<close>, and the outcome
  of \<open>response.json()\<close> cast to the response type \<open>'d\<close> of the call.
\<close>

record 'd http_response =
  status :: int
  headers_get :: "string \<Rightarrow> string option"
  json_body :: "thrown + 'd"

text \<open>
  An asynchronous computation, run to its end: the HTTP requests it issued, in order,
  and either the value thrown or the value returned.
\<close>

type_synonym 'a async = "http_request list \<times> (thrown + 'a)"

definition resolve :: "'a \<Rightarrow> 'a async" where
  "resolve x = ([], Inr x)"

definition reject :: "thrown \<Rightarrow> 'a async" where
  "reject e = ([], Inl e)"

text \<open>\<open>const x = await m; k x\<close>: a rejection of \<open>m\<close> leaves the function at once.\<close>

definition await :: "'a async \<Rightarrow> ('a \<Rightarrow> 'b async) \<Rightarrow> 'b async" where
  "await m k =
     (case m of
        (tr, Inl e) \<Rightarrow> (tr, Inl e)
      | (tr, Inr x) \<Rightarrow> (case k x of (tr', r) \<Rightarrow> (tr @ tr', r)))"

text \<open>\<open>try { m } catch (error) { h error }\<close>.\<close>

definition try_catch :: "'a async \<Rightarrow> (thrown \<Rightarrow> 'a async) \<Rightarrow> 'a async" where
  "try_catch m h =
     (case m of
        (tr, Inl e) \<Rightarrow> (case h e of (tr', r) \<Rightarrow> (tr @ tr', r))
      | (tr, Inr x) \<Rightarrow> (tr, Inr x))"

text \<open>The network answers each request with a response or a rejection.\<close>

type_synonym 'd network = "http_request \<Rightarrow> thrown + 'd http_response"

definition fetch :: "'d network \<Rightarrow> http_request \<Rightarrow> ('d http_response) async" where
  "fetch net req = ([req], net req)"

definition SLACK_API_BASE_URL :: string where
  "SLACK_API_BASE_URL = ''https://slack.com/api''"

text \<open>Truthiness of an optional string, and \<open>a || b\<close> where \<open>b\<close> may itself be absent.\<close>

definition truthy_str :: "string option \<Rightarrow> bool" where
  "truthy_str v = (case v of None \<Rightarrow> False | Some s \<Rightarrow> s \<noteq> [])"

definition or_opt :: "string option \<Rightarrow> string option \<Rightarrow> string option" where
  "or_opt a b = (if truthy_str a then a else b)"

definition getAuthHeaders :: "TenantCredentials \<Rightarrow> thrown + (string \<times> string) list" where
  "getAuthHeaders credentials =
     (let token = or_opt (botToken credentials) (userToken credentials)
      in case token of
           Some t \<Rightarrow>
             if t \<noteq> [] then
               Inr [(''Authorization'', ''Bearer '' @ t),
                    (''Content-Type'', ''application/json; charset=utf-8'')]
             else Inl (SlackErr (new_AuthenticationError
               ''No credentials provided. Include X-Slack-Bot-Token or X-Slack-User-Token header.''))
         | None \<Rightarrow> Inl (SlackErr (new_AuthenticationError
               ''No credentials provided. Include X-Slack-Bot-Token or X-Slack-User-Token header.'')))"

text \<open>
  The number of binary digits of a natural number, and the double nearest to a natural
  number (ties go to the even significand of 53 bits); from \<open>2 ^ 1024\<close> on the nearest
  double is \<open>Infinity\<close>. Up to \<open>2 ^ 53\<close> every natural number is a double.
\<close>

fun bit_length :: "nat \<Rightarrow> nat" where
  "bit_length n = (if n = 0 then 0 else Suc (bit_length (n div 2)))"

declare bit_length.simps [simp del]

definition round_to_double :: "nat \<Rightarrow> js_number" where
  "round_to_double n =
     (if n \<le> 2 ^ 53 then Number (of_nat n)
      else
        (let e = bit_length n - 53;
             q = n div 2 ^ e;
             r = n mod 2 ^ e;
             q' = (if 2 ^ e < 2 * r \<or> (2 * r = 2 ^ e \<and> odd q) then q + 1 else q)
         in if 2 ^ 1024 \<le> q' * 2 ^ e then Infinity else Number (of_nat (q' * 2 ^ e))))"

text \<open>Unary minus on numbers: \<open>-0\<close> is the negative zero.\<close>

definition negate :: "js_number \<Rightarrow> js_number" where
  "negate x =
     (case x of
        Number q \<Rightarrow> if q = 0 then NegZero else Number (- q)
      | NegZero \<Rightarrow> Number 0
      | NaN \<Rightarrow> NaN
      | Infinity \<Rightarrow> NegInfinity
      | NegInfinity \<Rightarrow> Infinity)"

text \<open>
  \<open>parseInt(s, 10)\<close>: leading white space is skipped, one sign is read, then the
  longest run of decimal digits; no digit at all gives \<open>NaN\<close>. The integer the digits
  denote is returned as a number, that is, rounded to the nearest double (with more than
  twenty digits ECMAScript lets an engine approximate; V8, which runs this code, rounds
  the exact integer). A header value is a byte string, so the white space that can
  occur is TAB, LF, VT, FF, CR, SP and NBSP.
\<close>

definition is_js_whitespace :: "char \<Rightarrow> bool" where
  "is_js_whitespace c = (c \<in> set [CHR 0x09, CHR 0x0A, CHR 0x0B, CHR 0x0C, CHR 0x0D, CHR 0x20, CHR 0xA0])"

definition is_digit :: "char \<Rightarrow> bool" where
  "is_digit c = (c \<in> set ''0123456789'')"

definition digits_value :: "string \<Rightarrow> nat" where
  "digits_value z = foldl (\<lambda>acc c. 10 * acc + (of_char c - 48)) 0 z"

definition parseInt10 :: "string \<Rightarrow> js_number" where
  "parseInt10 s =
     (let t = dropWhile is_js_whitespace s;
          negative = (case t of c # _ \<Rightarrow> c = CHR ''-'' | [] \<Rightarrow> False);
          u = (case t of c # r \<Rightarrow> if c = CHR ''+'' \<or> c = CHR ''-'' then r else t | [] \<Rightarrow> t);
          z = takeWhile is_digit u
      in if z = [] then NaN
         else if negative then negate (round_to_double (digits_value z))
         else round_to_double (digits_value z))"

record ResponseMetadata =
  next_cursor :: "string option"
  messages :: "string list option"
  warnings :: "string list option"

record SlackApiResponse =
  ok :: bool
  error :: "string option"
  warning :: "string option"
  response_metadata :: "ResponseMetadata option"

text \<open>
  \<open>request<T extends SlackApiResponse>(method, params = {})\<close>. The headers are computed
  before \<open>fetch\<close> is called, so missing credentials issue no request at all. A 429 is
  decided on the status and the \<open>Retry-After\<close> header alone; otherwise the body is
  decoded and its \<open>ok\<close> flag decides.
\<close>

definition request ::
  "TenantCredentials \<Rightarrow> ('a SlackApiResponse_scheme) network \<Rightarrow> string \<Rightarrow> (string \<times> jsval) list
     \<Rightarrow> ('a SlackApiResponse_scheme) async" where
  "request credentials net method params =
     (case getAuthHeaders credentials of
        Inl e \<Rightarrow> reject e
      | Inr hs \<Rightarrow>
          await (fetch net
                   \<lparr> url = SLACK_API_BASE_URL @ ''/'' @ method,
                     http_method = ''POST'',
                     headers = hs,
                     body = (case JSON_stringify (VObj params) of
                               None \<Rightarrow> NoBody | Some j \<Rightarrow> JsonBody j) \<rparr>)
            (\<lambda>response.
               if status response = 429 then
                 reject (SlackErr (new_RateLimitError ''Rate limit exceeded''
                   (case headers_get response ''Retry-After'' of
                      None \<Rightarrow> Number 60
                    | Some retryAfter \<Rightarrow>
                        if retryAfter \<noteq> [] then parseInt10 retryAfter else Number 60)))
               else
                 await ([], json_body response)
                   (\<lambda>data.
                      if \<not> ok data then
                        reject (SlackErr (mapSlackError (or_else (error data) ''unknown_error'')
                                                        (error data)))
                      else resolve data)))"

section \<open>Pagination (utils/pagination.ts, types/entities.ts)\<close>

record PaginationParams =
  limit :: "js_number option"
  cursor :: "string option"

record 'a PaginatedResponse =
  items :: "'a list"
  count :: nat
  hasMore :: bool
  nextCursor :: "string option"

text \<open>
  \<open>createPaginatedResponse(items, options = {})\<close>; the two optional members of
  \<open>options\<close> are passed as two optional arguments. \<open>nextCursor\<close> is copied as it is.
\<close>

definition createPaginatedResponse ::
  "'a list \<Rightarrow> bool option \<Rightarrow> string option \<Rightarrow> 'a PaginatedResponse" where
  "createPaginatedResponse its opt_hasMore opt_nextCursor =
     \<lparr> items = its,
       count = length its,
       hasMore = (case opt_hasMore of None \<Rightarrow> False | Some b \<Rightarrow> b),
       nextCursor = opt_nextCursor \<rparr>"

definition emptyPaginatedResponse :: "'a PaginatedResponse" where
  "emptyPaginatedResponse = \<lparr> items = [], count = 0, hasMore = False, nextCursor = None \<rparr>"

text \<open>
  \<open>params?.limit || d\<close>: an absent limit and the falsy numbers (\<open>0\<close>, \<open>-0\<close> and
  \<open>NaN\<close>) give the default; an infinite limit is kept.
\<close>

definition limit_or :: "js_number option \<Rightarrow> js_number \<Rightarrow> js_number" where
  "limit_or l d =
     (case l of
        None \<Rightarrow> d
      | Some (Number q) \<Rightarrow> if q = 0 then d else Number q
      | Some NegZero \<Rightarrow> d
      | Some NaN \<Rightarrow> d
      | Some Infinity \<Rightarrow> Infinity
      | Some NegInfinity \<Rightarrow> NegInfinity)"

section \<open>Operations of the client that are not paginated\<close>

text \<open>
  Every operation below awaits one call of the dispatcher and projects the envelope.
  An operation declared \<open>Promise<void>\<close> returns nothing (\<open>()\<close>). Where the source
  gives a parameter a default value (\<open>isPrivate = false\<close>), the parameter is optional
  here and the default is written out. Names that are constants or keywords here carry
  a prime (\<open>name'\<close>, \<open>ts'\<close>, \<open>text'\<close>, \<open>id'\<close>, \<open>file'\<close>); the argument \<open>text\<close> of
  \<open>addReminder\<close> is \<open>text0\<close>.
\<close>

text \<open>\<open>xs.join(sep)\<close> on an array of strings.\<close>

fun join :: "string \<Rightarrow> string list \<Rightarrow> string" where
  "join sep [] = []"
| "join sep [x] = x"
| "join sep (x # y # ys) = x @ sep @ join sep (y # ys)"

text \<open>\<open>b ?? d\<close> and a default parameter value on an optional boolean.\<close>

definition bool_or :: "bool option \<Rightarrow> bool \<Rightarrow> bool" where
  "bool_or b d = (case b of None \<Rightarrow> d | Some v \<Rightarrow> v)"

subsection \<open>Conversations\<close>

record ChannelResponse = SlackApiResponse +
  channel :: json

definition getConversationInfo ::
  "TenantCredentials \<Rightarrow> ChannelResponse network \<Rightarrow> string \<Rightarrow> json async" where
  "getConversationInfo credentials net channelId =
     await (request credentials net ''conversations.info''
              [(''channel'', VStr channelId),
               (''include_num_members'', VBool True)])
       (\<lambda>result. resolve (ChannelResponse.channel result))"

definition createConversation ::
  "TenantCredentials \<Rightarrow> ChannelResponse network \<Rightarrow> string \<Rightarrow> bool option \<Rightarrow> json async" where
  "createConversation credentials net name' isPrivate =
     await (request credentials net ''conversations.create''
              [(''name'', VStr name'),
               (''is_private'', VBool (bool_or isPrivate False))])
       (\<lambda>result. resolve (ChannelResponse.channel result))"

definition archiveConversation ::
  "TenantCredentials \<Rightarrow> SlackApiResponse network \<Rightarrow> string \<Rightarrow> unit async" where
  "archiveConversation credentials net channelId =
     await (request credentials net ''conversations.archive'' [(''channel'', VStr channelId)])
       (\<lambda>_. resolve ())"

definition unarchiveConversation ::
  "TenantCredentials \<Rightarrow> SlackApiResponse network \<Rightarrow> string \<Rightarrow> unit async" where
  "unarchiveConversation credentials net channelId =
     await (request credentials net ''conversations.unarchive'' [(''channel'', VStr channelId)])
       (\<lambda>_. resolve ())"

definition renameConversation ::
  "TenantCredentials \<Rightarrow> ChannelResponse network \<Rightarrow> string \<Rightarrow> string \<Rightarrow> json async" where
  "renameConversation credentials net channelId name' =
     await (request credentials net ''conversations.rename''
              [(''channel'', VStr channelId),
               (''name'', VStr name')])
       (\<lambda>result. resolve (ChannelResponse.channel result))"

definition setConversationTopic ::
  "TenantCredentials \<Rightarrow> ChannelResponse network \<Rightarrow> string \<Rightarrow> string \<Rightarrow> json async" where
  "setConversationTopic credentials net channelId topic =
     await (request credentials net ''conversations.setTopic''
              [(''channel'', VStr channelId),
               (''topic'', VStr topic)])
       (\<lambda>result. resolve (ChannelResponse.channel result))"

definition setConversationPurpose ::
  "TenantCredentials \<Rightarrow> ChannelResponse network \<Rightarrow> string \<Rightarrow> string \<Rightarrow> json async" where
  "setConversationPurpose credentials net channelId purpose =
     await (request credentials net ''conversations.setPurpose''
              [(''channel'', VStr channelId),
               (''purpose'', VStr purpose)])
       (\<lambda>result. resolve (ChannelResponse.channel result))"

definition inviteToConversation ::
  "TenantCredentials \<Rightarrow> ChannelResponse network \<Rightarrow> string \<Rightarrow> string list \<Rightarrow> json async" where
  "inviteToConversation credentials net channelId userIds =
     await (request credentials net ''conversations.invite''
              [(''channel'', VStr channelId),
               (''users'', VStr (join '','' userIds))])
       (\<lambda>result. resolve (ChannelResponse.channel result))"

definition kickFromConversation ::
  "TenantCredentials \<Rightarrow> SlackApiResponse network \<Rightarrow> string \<Rightarrow> string \<Rightarrow> unit async" where
  "kickFromConversation credentials net channelId userId =
     await (request credentials net ''conversations.kick''
              [(''channel'', VStr channelId),
               (''user'', VStr userId)])
       (\<lambda>_. resolve ())"

definition joinConversation ::
  "TenantCredentials \<Rightarrow> ChannelResponse network \<Rightarrow> string \<Rightarrow> json async" where
  "joinConversation credentials net channelId =
     await (request credentials net ''conversations.join'' [(''channel'', VStr channelId)])
       (\<lambda>result. resolve (ChannelResponse.channel result))"

definition leaveConversation ::
  "TenantCredentials \<Rightarrow> SlackApiResponse network \<Rightarrow> string \<Rightarrow> unit async" where
  "leaveConversation credentials net channelId =
     await (request credentials net ''conversations.leave'' [(''channel'', VStr channelId)])
       (\<lambda>_. resolve ())"

subsection \<open>Chat\<close>

record PostMessageParams =
  channel :: string
  text' :: "string option"
  blocks :: "jsval option"
  attachments :: "jsval option"
  thread_ts :: "string option"
  reply_broadcast :: "bool option"
  unfurl_links :: "bool option"
  unfurl_media :: "bool option"
  mrkdwn :: "bool option"
  metadata :: "jsval option"

record PostMessageResponse = SlackApiResponse +
  channel :: string
  ts :: string
  message :: json

definition postMessage ::
  "TenantCredentials \<Rightarrow> PostMessageResponse network \<Rightarrow> PostMessageParams \<Rightarrow> json async" where
  "postMessage credentials net params =
     await (request credentials net ''chat.postMessage''
              [(''channel'', VStr (PostMessageParams.channel params)),
               (''text'', opt_str (PostMessageParams.text' params)),
               (''blocks'', opt_val (PostMessageParams.blocks params)),
               (''attachments'', opt_val (PostMessageParams.attachments params)),
               (''thread_ts'', opt_str (PostMessageParams.thread_ts params)),
               (''reply_broadcast'', opt_bool (PostMessageParams.reply_broadcast params)),
               (''unfurl_links'', opt_bool (PostMessageParams.unfurl_links params)),
               (''unfurl_media'', opt_bool (PostMessageParams.unfurl_media params)),
               (''mrkdwn'', opt_bool (PostMessageParams.mrkdwn params)),
               (''metadata'', opt_val (PostMessageParams.metadata params))])
       (\<lambda>result. resolve (PostMessageResponse.message result))"

record UpdateMessageParams =
  channel :: string
  ts :: string
  text' :: "string option"
  blocks :: "jsval option"
  attachments :: "jsval option"
  as_user :: "bool option"
  metadata :: "jsval option"

record UpdateMessageResponse = SlackApiResponse +
  channel :: string
  ts :: string
  text' :: string
  message :: json

definition updateMessage ::
  "TenantCredentials \<Rightarrow> UpdateMessageResponse network \<Rightarrow> UpdateMessageParams \<Rightarrow> json async" where
  "updateMessage credentials net params =
     await (request credentials net ''chat.update''
              [(''channel'', VStr (UpdateMessageParams.channel params)),
               (''ts'', VStr (UpdateMessageParams.ts params)),
               (''text'', opt_str (UpdateMessageParams.text' params)),
               (''blocks'', opt_val (UpdateMessageParams.blocks params)),
               (''attachments'', opt_val (UpdateMessageParams.attachments params)),
               (''as_user'', opt_bool (UpdateMessageParams.as_user params)),
               (''metadata'', opt_val (UpdateMessageParams.metadata params))])
       (\<lambda>result. resolve (UpdateMessageResponse.message result))"

definition deleteMessage ::
  "TenantCredentials \<Rightarrow> SlackApiResponse network \<Rightarrow> string \<Rightarrow> string \<Rightarrow> unit async" where
  "deleteMessage credentials net channelId ts' =
     await (request credentials net ''chat.delete''
              [(''channel'', VStr channelId),
               (''ts'', VStr ts')])
       (\<lambda>_. resolve ())"

record ScheduleMessageParams =
  channel :: string
  post_at :: js_number
  text' :: "string option"
  blocks :: "jsval option"
  attachments :: "jsval option"
  thread_ts :: "string option"
  reply_broadcast :: "bool option"
  unfurl_links :: "bool option"
  unfurl_media :: "bool option"
  metadata :: "jsval option"

record ScheduledText =
  text' :: string

record ScheduleMessageResponse = SlackApiResponse +
  channel :: string
  scheduled_message_id :: string
  post_at :: js_number
  message :: ScheduledText

record ScheduledMessage =
  id' :: string
  channel_id :: string
  post_at :: js_number
  date_created :: js_number
  text' :: "string option"

text \<open>
  \<open>scheduleMessage\<close> reads the clock: \<open>now\<close> is the value of \<open>Date.now()\<close>, in
  milliseconds, and \<open>date_created\<close> is \<open>Math.floor(now / 1000)\<close>.
\<close>

definition scheduleMessage ::
  "TenantCredentials \<Rightarrow> ScheduleMessageResponse network \<Rightarrow> int \<Rightarrow> ScheduleMessageParams
     \<Rightarrow> ScheduledMessage async" where
  "scheduleMessage credentials net now params =
     await (request credentials net ''chat.scheduleMessage''
              [(''channel'', VStr (ScheduleMessageParams.channel params)),
               (''post_at'', VNum (ScheduleMessageParams.post_at params)),
               (''text'', opt_str (ScheduleMessageParams.text' params)),
               (''blocks'', opt_val (ScheduleMessageParams.blocks params)),
               (''attachments'', opt_val (ScheduleMessageParams.attachments params)),
               (''thread_ts'', opt_str (ScheduleMessageParams.thread_ts params)),
               (''reply_broadcast'', opt_bool (ScheduleMessageParams.reply_broadcast params)),
               (''unfurl_links'', opt_bool (ScheduleMessageParams.unfurl_links params)),
               (''unfurl_media'', opt_bool (ScheduleMessageParams.unfurl_media params)),
               (''metadata'', opt_val (ScheduleMessageParams.metadata params))])
       (\<lambda>result. resolve
          \<lparr> id' = scheduled_message_id result,
            channel_id = ScheduleMessageResponse.channel result,
            ScheduledMessage.post_at = ScheduleMessageResponse.post_at result,
            date_created = Number (of_int (now div 1000)),
            ScheduledMessage.text' =
              Some (ScheduledText.text' (ScheduleMessageResponse.message result)) \<rparr>)"

definition deleteScheduledMessage ::
  "TenantCredentials \<Rightarrow> SlackApiResponse network \<Rightarrow> string \<Rightarrow> string \<Rightarrow> unit async" where
  "deleteScheduledMessage credentials net channelId scheduledMessageId =
     await (request credentials net ''chat.deleteScheduledMessage''
              [(''channel'', VStr channelId),
               (''scheduled_message_id'', VStr scheduledMessageId)])
       (\<lambda>_. resolve ())"

record PermalinkResponse = SlackApiResponse +
  channel :: string
  permalink :: string

definition getPermalink ::
  "TenantCredentials \<Rightarrow> PermalinkResponse network \<Rightarrow> string \<Rightarrow> string \<Rightarrow> string async" where
  "getPermalink credentials net channelId messageTs =
     await (request credentials net ''chat.getPermalink''
              [(''channel'', VStr channelId),
               (''message_ts'', VStr messageTs)])
       (\<lambda>result. resolve (permalink result))"

subsection \<open>Users\<close>

record UserResponse = SlackApiResponse +
  user :: json

definition getUserInfo ::
  "TenantCredentials \<Rightarrow> UserResponse network \<Rightarrow> string \<Rightarrow> json async" where
  "getUserInfo credentials net userId =
     await (request credentials net ''users.info'' [(''user'', VStr userId)])
       (\<lambda>result. resolve (UserResponse.user result))"

definition getUserByEmail ::
  "TenantCredentials \<Rightarrow> UserResponse network \<Rightarrow> string \<Rightarrow> json async" where
  "getUserByEmail credentials net email =
     await (request credentials net ''users.lookupByEmail'' [(''email'', VStr email)])
       (\<lambda>result. resolve (UserResponse.user result))"

datatype presence_state = Active | Away

datatype presence_choice = SetAuto | SetAway

record UserPresence =
  presence :: presence_state
  online :: "bool option"
  auto_away :: "bool option"
  manual_away :: "bool option"
  connection_count :: "js_number option"
  last_activity :: "js_number option"

record PresenceResponse = SlackApiResponse +
  presence :: presence_state
  online :: "bool option"
  auto_away :: "bool option"
  manual_away :: "bool option"
  connection_count :: "js_number option"
  last_activity :: "js_number option"

definition getUserPresence ::
  "TenantCredentials \<Rightarrow> PresenceResponse network \<Rightarrow> string \<Rightarrow> UserPresence async" where
  "getUserPresence credentials net userId =
     await (request credentials net ''users.getPresence'' [(''user'', VStr userId)])
       (\<lambda>result. resolve
          \<lparr> UserPresence.presence = PresenceResponse.presence result,
            UserPresence.online = PresenceResponse.online result,
            UserPresence.auto_away = PresenceResponse.auto_away result,
            UserPresence.manual_away = PresenceResponse.manual_away result,
            UserPresence.connection_count = PresenceResponse.connection_count result,
            UserPresence.last_activity = PresenceResponse.last_activity result \<rparr>)"

text \<open>The parameter \<open>presence: 'auto' | 'away'\<close> as the string it is.\<close>

definition presence_string :: "presence_choice \<Rightarrow> string" where
  "presence_string p = (case p of SetAuto \<Rightarrow> ''auto'' | SetAway \<Rightarrow> ''away'')"

definition setUserPresence ::
  "TenantCredentials \<Rightarrow> SlackApiResponse network \<Rightarrow> presence_choice \<Rightarrow> unit async" where
  "setUserPresence credentials net presence' =
     await (request credentials net ''users.setPresence''
              [(''presence'', VStr (presence_string presence'))])
       (\<lambda>_. resolve ())"

subsection \<open>Files\<close>

record FileResponse = SlackApiResponse +
  file' :: json

definition getFileInfo ::
  "TenantCredentials \<Rightarrow> FileResponse network \<Rightarrow> string \<Rightarrow> json async" where
  "getFileInfo credentials net fileId =
     await (request credentials net ''files.info'' [(''file'', VStr fileId)])
       (\<lambda>result. resolve (file' result))"

definition deleteFile ::
  "TenantCredentials \<Rightarrow> SlackApiResponse network \<Rightarrow> string \<Rightarrow> unit async" where
  "deleteFile credentials net fileId =
     await (request credentials net ''files.delete'' [(''file'', VStr fileId)])
       (\<lambda>_. resolve ())"

subsection \<open>Reactions\<close>

definition addReaction ::
  "TenantCredentials \<Rightarrow> SlackApiResponse network \<Rightarrow> string \<Rightarrow> string \<Rightarrow> string \<Rightarrow> unit async" where
  "addReaction credentials net channelId timestamp name' =
     await (request credentials net ''reactions.add''
              [(''channel'', VStr channelId),
               (''timestamp'', VStr timestamp),
               (''name'', VStr name')])
       (\<lambda>_. resolve ())"

definition removeReaction ::
  "TenantCredentials \<Rightarrow> SlackApiResponse network \<Rightarrow> string \<Rightarrow> string \<Rightarrow> string \<Rightarrow> unit async" where
  "removeReaction credentials net channelId timestamp name' =
     await (request credentials net ''reactions.remove''
              [(''channel'', VStr channelId),
               (''timestamp'', VStr timestamp),
               (''name'', VStr name')])
       (\<lambda>_. resolve ())"

text \<open>
  \<open>Message & { reactions?: Reaction[] }\<close>: the decoded message and, read from it, its
  optional \<open>reactions\<close>.
\<close>

record ReactedMessage =
  entity :: json
  reactions :: "json list option"

record ReactionsResponse = SlackApiResponse +
  message :: ReactedMessage

record GetReactionsResult =
  message :: ReactedMessage
  reactions :: "json list"

definition getReactions ::
  "TenantCredentials \<Rightarrow> ReactionsResponse network \<Rightarrow> string \<Rightarrow> string
     \<Rightarrow> GetReactionsResult async" where
  "getReactions credentials net channelId timestamp =
     await (request credentials net ''reactions.get''
              [(''channel'', VStr channelId),
               (''timestamp'', VStr timestamp),
               (''full'', VBool True)])
       (\<lambda>result. resolve
          \<lparr> GetReactionsResult.message = ReactionsResponse.message result,
            GetReactionsResult.reactions =
              (case ReactedMessage.reactions (ReactionsResponse.message result) of
                 None \<Rightarrow> [] | Some rs \<Rightarrow> rs) \<rparr>)"

subsection \<open>Search\<close>

text \<open>
  \<open>sort\<close> and \<open>sort_dir\<close> are unions of string literals in the source; at run time they
  are strings, and \<open>||\<close> takes the default for an absent or empty one.
\<close>

record SearchParams = PaginationParams +
  query :: string
  sort :: "string option"
  sort_dir :: "string option"
  highlight :: "bool option"

record SearchMessagesResponse = SlackApiResponse +
  messages :: json

record SearchFilesResponse = SlackApiResponse +
  files :: json

record SearchAllResponse = SlackApiResponse +
  messages :: json
  files :: json

record SearchAllResult =
  messages :: json
  files :: json

definition searchMessages ::
  "TenantCredentials \<Rightarrow> SearchMessagesResponse network \<Rightarrow> SearchParams \<Rightarrow> json async" where
  "searchMessages credentials net params =
     await (request credentials net ''search.messages''
              [(''query'', VStr (query params)),
               (''sort'', VStr (or_else (sort params) ''timestamp'')),
               (''sort_dir'', VStr (or_else (sort_dir params) ''desc'')),
               (''count'', VNum (limit_or (limit params) (Number 20))),
               (''highlight'', opt_bool (highlight params))])
       (\<lambda>result. resolve (SearchMessagesResponse.messages result))"

definition searchFiles ::
  "TenantCredentials \<Rightarrow> SearchFilesResponse network \<Rightarrow> SearchParams \<Rightarrow> json async" where
  "searchFiles credentials net params =
     await (request credentials net ''search.files''
              [(''query'', VStr (query params)),
               (''sort'', VStr (or_else (sort params) ''timestamp'')),
               (''sort_dir'', VStr (or_else (sort_dir params) ''desc'')),
               (''count'', VNum (limit_or (limit params) (Number 20))),
               (''highlight'', opt_bool (highlight params))])
       (\<lambda>result. resolve (SearchFilesResponse.files result))"

definition searchAll ::
  "TenantCredentials \<Rightarrow> SearchAllResponse network \<Rightarrow> SearchParams \<Rightarrow> SearchAllResult async" where
  "searchAll credentials net params =
     await (request credentials net ''search.all''
              [(''query'', VStr (query params)),
               (''sort'', VStr (or_else (sort params) ''timestamp'')),
               (''sort_dir'', VStr (or_else (sort_dir params) ''desc'')),
               (''count'', VNum (limit_or (limit params) (Number 20))),
               (''highlight'', opt_bool (highlight params))])
       (\<lambda>result. resolve
          \<lparr> SearchAllResult.messages = SearchAllResponse.messages result,
            SearchAllResult.files = SearchAllResponse.files result \<rparr>)"

subsection \<open>Pins and stars\<close>

definition addPin ::
  "TenantCredentials \<Rightarrow> SlackApiResponse network \<Rightarrow> string \<Rightarrow> string \<Rightarrow> unit async" where
  "addPin credentials net channelId timestamp =
     await (request credentials net ''pins.add''
              [(''channel'', VStr channelId),
               (''timestamp'', VStr timestamp)])
       (\<lambda>_. resolve ())"

definition removePin ::
  "TenantCredentials \<Rightarrow> SlackApiResponse network \<Rightarrow> string \<Rightarrow> string \<Rightarrow> unit async" where
  "removePin credentials net channelId timestamp =
     await (request credentials net ''pins.remove''
              [(''channel'', VStr channelId),
               (''timestamp'', VStr timestamp)])
       (\<lambda>_. resolve ())"

record PinsResponse = SlackApiResponse +
  items :: "json list"

definition listPins ::
  "TenantCredentials \<Rightarrow> PinsResponse network \<Rightarrow> string \<Rightarrow> (json list) async" where
  "listPins credentials net channelId =
     await (request credentials net ''pins.list'' [(''channel'', VStr channelId)])
       (\<lambda>result. resolve (PinsResponse.items result))"

definition addStar ::
  "TenantCredentials \<Rightarrow> SlackApiResponse network \<Rightarrow> string \<Rightarrow> string option \<Rightarrow> string option
     \<Rightarrow> unit async" where
  "addStar credentials net channelId timestamp fileId =
     await (request credentials net ''stars.add''
              [(''channel'', VStr channelId),
               (''timestamp'', opt_str timestamp),
               (''file'', opt_str fileId)])
       (\<lambda>_. resolve ())"

definition removeStar ::
  "TenantCredentials \<Rightarrow> SlackApiResponse network \<Rightarrow> string \<Rightarrow> string option \<Rightarrow> string option
     \<Rightarrow> unit async" where
  "removeStar credentials net channelId timestamp fileId =
     await (request credentials net ''stars.remove''
              [(''channel'', VStr channelId),
               (''timestamp'', opt_str timestamp),
               (''file'', opt_str fileId)])
       (\<lambda>_. resolve ())"

subsection \<open>Reminders\<close>

record ReminderResponse = SlackApiResponse +
  reminder :: json

record RemindersResponse = SlackApiResponse +
  reminders :: "json list"

text \<open>\<open>time: string | number\<close> is a sum.\<close>

definition addReminder ::
  "TenantCredentials \<Rightarrow> ReminderResponse network \<Rightarrow> string \<Rightarrow> string + js_number
     \<Rightarrow> string option \<Rightarrow> json async" where
  "addReminder credentials net text0 time userId =
     await (request credentials net ''reminders.add''
              [(''text'', VStr text0),
               (''time'', (case time of Inl s \<Rightarrow> VStr s | Inr n \<Rightarrow> VNum n)),
               (''user'', opt_str userId)])
       (\<lambda>result. resolve (reminder result))"

definition completeReminder ::
  "TenantCredentials \<Rightarrow> SlackApiResponse network \<Rightarrow> string \<Rightarrow> unit async" where
  "completeReminder credentials net reminderId =
     await (request credentials net ''reminders.complete'' [(''reminder'', VStr reminderId)])
       (\<lambda>_. resolve ())"

definition deleteReminder ::
  "TenantCredentials \<Rightarrow> SlackApiResponse network \<Rightarrow> string \<Rightarrow> unit async" where
  "deleteReminder credentials net reminderId =
     await (request credentials net ''reminders.delete'' [(''reminder'', VStr reminderId)])
       (\<lambda>_. resolve ())"

definition getReminder ::
  "TenantCredentials \<Rightarrow> ReminderResponse network \<Rightarrow> string \<Rightarrow> json async" where
  "getReminder credentials net reminderId =
     await (request credentials net ''reminders.info'' [(''reminder'', VStr reminderId)])
       (\<lambda>result. resolve (reminder result))"

definition listReminders ::
  "TenantCredentials \<Rightarrow> RemindersResponse network \<Rightarrow> (json list) async" where
  "listReminders credentials net =
     await (request credentials net ''reminders.list'' [])
       (\<lambda>result. resolve (reminders result))"

subsection \<open>Bookmarks\<close>

record BookmarkResponse = SlackApiResponse +
  bookmark :: json

record BookmarksResponse = SlackApiResponse +
  bookmarks :: "json list"

datatype bookmark_type = LinkBookmark | FolderBookmark

definition bookmark_type_string :: "bookmark_type \<Rightarrow> string" where
  "bookmark_type_string t = (case t of LinkBookmark \<Rightarrow> ''link'' | FolderBookmark \<Rightarrow> ''folder'')"

definition addBookmark ::
  "TenantCredentials \<Rightarrow> BookmarkResponse network \<Rightarrow> string \<Rightarrow> string \<Rightarrow> bookmark_type
     \<Rightarrow> string option \<Rightarrow> string option \<Rightarrow> json async" where
  "addBookmark credentials net channelId title' type' link emoji' =
     await (request credentials net ''bookmarks.add''
              [(''channel_id'', VStr channelId),
               (''title'', VStr title'),
               (''type'', VStr (bookmark_type_string type')),
               (''link'', opt_str link),
               (''emoji'', opt_str emoji')])
       (\<lambda>result. resolve (bookmark result))"

text \<open>
  \<open>editBookmark(channelId, bookmarkId, updates)\<close> spreads \<open>updates\<close> after the two
  identifiers; its three optional members are passed as three optional arguments, in the
  order in which the one caller (tools/bookmarks.ts) writes them.
\<close>

definition editBookmark ::
  "TenantCredentials \<Rightarrow> BookmarkResponse network \<Rightarrow> string \<Rightarrow> string
     \<Rightarrow> string option \<Rightarrow> string option \<Rightarrow> string option \<Rightarrow> json async" where
  "editBookmark credentials net channelId bookmarkId title' link emoji' =
     await (request credentials net ''bookmarks.edit''
              [(''channel_id'', VStr channelId),
               (''bookmark_id'', VStr bookmarkId),
               (''title'', opt_str title'),
               (''link'', opt_str link),
               (''emoji'', opt_str emoji')])
       (\<lambda>result. resolve (bookmark result))"

definition removeBookmark ::
  "TenantCredentials \<Rightarrow> SlackApiResponse network \<Rightarrow> string \<Rightarrow> string \<Rightarrow> unit async" where
  "removeBookmark credentials net channelId bookmarkId =
     await (request credentials net ''bookmarks.remove''
              [(''channel_id'', VStr channelId),
               (''bookmark_id'', VStr bookmarkId)])
       (\<lambda>_. resolve ())"

definition listBookmarks ::
  "TenantCredentials \<Rightarrow> BookmarksResponse network \<Rightarrow> string \<Rightarrow> (json list) async" where
  "listBookmarks credentials net channelId =
     await (request credentials net ''bookmarks.list'' [(''channel_id'', VStr channelId)])
       (\<lambda>result. resolve (bookmarks result))"

subsection \<open>User groups\<close>

record UserGroupsResponse = SlackApiResponse +
  usergroups :: "json list"

record UserGroupResponse = SlackApiResponse +
  usergroup :: json

record UsersResponse = SlackApiResponse +
  users :: "string list"

definition listUserGroups ::
  "TenantCredentials \<Rightarrow> UserGroupsResponse network \<Rightarrow> bool option \<Rightarrow> bool option
     \<Rightarrow> (json list) async" where
  "listUserGroups credentials net includeUsers includeDisabled =
     await (request credentials net ''usergroups.list''
              [(''include_users'', VBool (bool_or includeUsers False)),
               (''include_disabled'', VBool (bool_or includeDisabled False))])
       (\<lambda>result. resolve (usergroups result))"

definition createUserGroup ::
  "TenantCredentials \<Rightarrow> UserGroupResponse network \<Rightarrow> string \<Rightarrow> string option \<Rightarrow> string option
     \<Rightarrow> string list option \<Rightarrow> json async" where
  "createUserGroup credentials net name' handle description channels' =
     await (request credentials net ''usergroups.create''
              [(''name'', VStr name'),
               (''handle'', opt_str handle),
               (''description'', opt_str description),
               (''channels'', opt_str (map_option (join '','') channels'))])
       (\<lambda>result. resolve (usergroup result))"

text \<open>
  \<open>updateUserGroup(userGroupId, updates)\<close>; the four optional members of \<open>updates\<close> are
  passed as four optional arguments.
\<close>

definition updateUserGroup ::
  "TenantCredentials \<Rightarrow> UserGroupResponse network \<Rightarrow> string \<Rightarrow> string option \<Rightarrow> string option
     \<Rightarrow> string option \<Rightarrow> string list option \<Rightarrow> json async" where
  "updateUserGroup credentials net userGroupId name' handle description channels' =
     await (request credentials net ''usergroups.update''
              [(''usergroup'', VStr userGroupId),
               (''name'', opt_str name'),
               (''handle'', opt_str handle),
               (''description'', opt_str description),
               (''channels'', opt_str (map_option (join '','') channels'))])
       (\<lambda>result. resolve (usergroup result))"

definition disableUserGroup ::
  "TenantCredentials \<Rightarrow> UserGroupResponse network \<Rightarrow> string \<Rightarrow> json async" where
  "disableUserGroup credentials net userGroupId =
     await (request credentials net ''usergroups.disable'' [(''usergroup'', VStr userGroupId)])
       (\<lambda>result. resolve (usergroup result))"

definition enableUserGroup ::
  "TenantCredentials \<Rightarrow> UserGroupResponse network \<Rightarrow> string \<Rightarrow> json async" where
  "enableUserGroup credentials net userGroupId =
     await (request credentials net ''usergroups.enable'' [(''usergroup'', VStr userGroupId)])
       (\<lambda>result. resolve (usergroup result))"

definition getUserGroupMembers ::
  "TenantCredentials \<Rightarrow> UsersResponse network \<Rightarrow> string \<Rightarrow> (string list) async" where
  "getUserGroupMembers credentials net userGroupId =
     await (request credentials net ''usergroups.users.list'' [(''usergroup'', VStr userGroupId)])
       (\<lambda>result. resolve (users result))"

definition updateUserGroupMembers ::
  "TenantCredentials \<Rightarrow> UserGroupResponse network \<Rightarrow> string \<Rightarrow> string list \<Rightarrow> json async" where
  "updateUserGroupMembers credentials net userGroupId userIds =
     await (request credentials net ''usergroups.users.update''
              [(''usergroup'', VStr userGroupId),
               (''users'', VStr (join '','' userIds))])
       (\<lambda>result. resolve (usergroup result))"

subsection \<open>Team\<close>

record TeamResponse = SlackApiResponse +
  team :: json

record BillableInfoResponse = SlackApiResponse +
  billable_info :: json

definition getTeamInfo ::
  "TenantCredentials \<Rightarrow> TeamResponse network \<Rightarrow> json async" where
  "getTeamInfo credentials net =
     await (request credentials net ''team.info'' [])
       (\<lambda>result. resolve (TeamResponse.team result))"

definition getBillableInfo ::
  "TenantCredentials \<Rightarrow> BillableInfoResponse network \<Rightarrow> string option \<Rightarrow> json async" where
  "getBillableInfo credentials net userId =
     await (request credentials net ''team.billableInfo'' [(''user'', opt_str userId)])
       (\<lambda>result. resolve (billable_info result))"

subsection \<open>Do not disturb\<close>

record DndStatus =
  dnd_enabled :: bool
  next_dnd_start_ts :: "js_number option"
  next_dnd_end_ts :: "js_number option"
  snooze_enabled :: "bool option"
  snooze_endtime :: "js_number option"
  snooze_remaining :: "js_number option"

record DndInfoResponse = SlackApiResponse +
  dnd_enabled :: bool
  next_dnd_start_ts :: "js_number option"
  next_dnd_end_ts :: "js_number option"
  snooze_enabled :: "bool option"
  snooze_endtime :: "js_number option"
  snooze_remaining :: "js_number option"

record SetSnoozeResponse = SlackApiResponse +
  snooze_enabled :: bool
  snooze_endtime :: js_number
  snooze_remaining :: js_number

record EndSnoozeResponse = SlackApiResponse +
  dnd_enabled :: bool
  next_dnd_start_ts :: "js_number option"
  next_dnd_end_ts :: "js_number option"

definition getDndInfo ::
  "TenantCredentials \<Rightarrow> DndInfoResponse network \<Rightarrow> string option \<Rightarrow> DndStatus async" where
  "getDndInfo credentials net userId =
     await (request credentials net ''dnd.info'' [(''user'', opt_str userId)])
       (\<lambda>result. resolve
          \<lparr> DndStatus.dnd_enabled = DndInfoResponse.dnd_enabled result,
            DndStatus.next_dnd_start_ts = DndInfoResponse.next_dnd_start_ts result,
            DndStatus.next_dnd_end_ts = DndInfoResponse.next_dnd_end_ts result,
            DndStatus.snooze_enabled = DndInfoResponse.snooze_enabled result,
            DndStatus.snooze_endtime = DndInfoResponse.snooze_endtime result,
            DndStatus.snooze_remaining = DndInfoResponse.snooze_remaining result \<rparr>)"

definition setDndSnooze ::
  "TenantCredentials \<Rightarrow> SetSnoozeResponse network \<Rightarrow> js_number \<Rightarrow> DndStatus async" where
  "setDndSnooze credentials net numMinutes =
     await (request credentials net ''dnd.setSnooze'' [(''num_minutes'', VNum numMinutes)])
       (\<lambda>result. resolve
          \<lparr> DndStatus.dnd_enabled = True,
            DndStatus.next_dnd_start_ts = None,
            DndStatus.next_dnd_end_ts = None,
            DndStatus.snooze_enabled = Some (SetSnoozeResponse.snooze_enabled result),
            DndStatus.snooze_endtime = Some (SetSnoozeResponse.snooze_endtime result),
            DndStatus.snooze_remaining = Some (SetSnoozeResponse.snooze_remaining result) \<rparr>)"

definition endDndSnooze ::
  "TenantCredentials \<Rightarrow> EndSnoozeResponse network \<Rightarrow> DndStatus async" where
  "endDndSnooze credentials net =
     await (request credentials net ''dnd.endSnooze'' [])
       (\<lambda>result. resolve
          \<lparr> DndStatus.dnd_enabled = EndSnoozeResponse.dnd_enabled result,
            DndStatus.next_dnd_start_ts = EndSnoozeResponse.next_dnd_start_ts result,
            DndStatus.next_dnd_end_ts = EndSnoozeResponse.next_dnd_end_ts result,
            DndStatus.snooze_enabled = Some False,
            DndStatus.snooze_endtime = None,
            DndStatus.snooze_remaining = None \<rparr>)"

definition setDnd ::
  "TenantCredentials \<Rightarrow> SlackApiResponse network \<Rightarrow> js_number \<Rightarrow> unit async" where
  "setDnd credentials net numMinutes =
     await (request credentials net ''dnd.setSnooze'' [(''num_minutes'', VNum numMinutes)])
       (\<lambda>_. resolve ())"

definition endDnd ::
  "TenantCredentials \<Rightarrow> SlackApiResponse network \<Rightarrow> unit async" where
  "endDnd credentials net =
     await (request credentials net ''dnd.endDnd'' [])
       (\<lambda>_. resolve ())"

subsection \<open>Emoji\<close>

record EmojiList =
  emoji :: json
  cache_ts :: "string option"
  categories_version :: "string option"
  categories :: "json list option"

record EmojiResponse = SlackApiResponse +
  emoji :: json
  cache_ts :: "string option"

definition listEmoji ::
  "TenantCredentials \<Rightarrow> EmojiResponse network \<Rightarrow> EmojiList async" where
  "listEmoji credentials net =
     await (request credentials net ''emoji.list'' [])
       (\<lambda>result. resolve
          \<lparr> EmojiList.emoji = EmojiResponse.emoji result,
            EmojiList.cache_ts = EmojiResponse.cache_ts result,
            categories_version = None,
            categories = None \<rparr>)"

section \<open>List operations of the client\<close>

record ConversationListParams = PaginationParams +
  types :: "string option"
  exclude_archived :: "bool option"
  team_id :: "string option"

record MessageHistoryParams = PaginationParams +
  oldest :: "string option"
  latest :: "string option"
  inclusive :: "bool option"
  include_all_metadata :: "bool option"

record FileListParams = PaginationParams +
  channel :: "string option"
  user :: "string option"
  types :: "string option"
  ts_from :: "js_number option"
  ts_to :: "js_number option"

record Paging =
  count :: int
  total :: int
  page :: int
  pages :: int

text \<open>The response interfaces the list operations declare, each extending the envelope.\<close>

record ChannelsResponse = SlackApiResponse +
  channels :: "json list"

record MessagesResponse = SlackApiResponse +
  messages :: "json list"
  has_more :: bool

record 'a MembersResponse = SlackApiResponse +
  members :: "'a list"

record ScheduledMessagesResponse = SlackApiResponse +
  scheduled_messages :: "json list"

record FilesResponse = SlackApiResponse +
  files :: "json list"
  paging :: Paging

record ItemsResponse = SlackApiResponse +
  items :: "json list"
  paging :: Paging

text \<open>\<open>result.response_metadata?.next_cursor\<close>.\<close>

definition next_cursor_of :: "'a SlackApiResponse_scheme \<Rightarrow> string option" where
  "next_cursor_of result = Option.bind (response_metadata result) next_cursor"

definition listConversations ::
  "TenantCredentials \<Rightarrow> ChannelsResponse network \<Rightarrow> ConversationListParams option
     \<Rightarrow> (json PaginatedResponse) async" where
  "listConversations credentials net params =
     await (request credentials net ''conversations.list''
              [(''types'', VStr (or_else (Option.bind params ConversationListParams.types)
                                   ''public_channel,private_channel'')),
               (''exclude_archived'',
                  VBool (case Option.bind params exclude_archived of None \<Rightarrow> True | Some b \<Rightarrow> b)),
               (''limit'', VNum (limit_or (Option.bind params limit) (Number 100))),
               (''cursor'', opt_str (Option.bind params cursor)),
               (''team_id'', opt_str (Option.bind params team_id))])
       (\<lambda>result. resolve (createPaginatedResponse (channels result)
                    (Some (truthy_str (next_cursor_of result))) (next_cursor_of result)))"

definition getConversationHistory ::
  "TenantCredentials \<Rightarrow> MessagesResponse network \<Rightarrow> string \<Rightarrow> MessageHistoryParams option
     \<Rightarrow> (json PaginatedResponse) async" where
  "getConversationHistory credentials net channelId params =
     await (request credentials net ''conversations.history''
              [(''channel'', VStr channelId),
               (''limit'', VNum (limit_or (Option.bind params limit) (Number 100))),
               (''cursor'', opt_str (Option.bind params cursor)),
               (''oldest'', opt_str (Option.bind params oldest)),
               (''latest'', opt_str (Option.bind params latest)),
               (''inclusive'', opt_bool (Option.bind params inclusive)),
               (''include_all_metadata'', opt_bool (Option.bind params include_all_metadata))])
       (\<lambda>result. resolve (createPaginatedResponse (MessagesResponse.messages result)
                    (Some (has_more result)) (next_cursor_of result)))"

definition getConversationReplies ::
  "TenantCredentials \<Rightarrow> MessagesResponse network \<Rightarrow> string \<Rightarrow> string \<Rightarrow> PaginationParams option
     \<Rightarrow> (json PaginatedResponse) async" where
  "getConversationReplies credentials net channelId threadTs params =
     await (request credentials net ''conversations.replies''
              [(''channel'', VStr channelId),
               (''ts'', VStr threadTs),
               (''limit'', VNum (limit_or (Option.bind params limit) (Number 100))),
               (''cursor'', opt_str (Option.bind params cursor))])
       (\<lambda>result. resolve (createPaginatedResponse (MessagesResponse.messages result)
                    (Some (has_more result)) (next_cursor_of result)))"

definition getConversationMembers ::
  "TenantCredentials \<Rightarrow> (string MembersResponse) network \<Rightarrow> string \<Rightarrow> PaginationParams option
     \<Rightarrow> (string PaginatedResponse) async" where
  "getConversationMembers credentials net channelId params =
     await (request credentials net ''conversations.members''
              [(''channel'', VStr channelId),
               (''limit'', VNum (limit_or (Option.bind params limit) (Number 100))),
               (''cursor'', opt_str (Option.bind params cursor))])
       (\<lambda>result. resolve (createPaginatedResponse (members result)
                    (Some (truthy_str (next_cursor_of result))) (next_cursor_of result)))"

definition listScheduledMessages ::
  "TenantCredentials \<Rightarrow> ScheduledMessagesResponse network \<Rightarrow> string option
     \<Rightarrow> PaginationParams option \<Rightarrow> (json PaginatedResponse) async" where
  "listScheduledMessages credentials net channelId params =
     await (request credentials net ''chat.scheduledMessages.list''
              [(''channel'', opt_str channelId),
               (''limit'', VNum (limit_or (Option.bind params limit) (Number 100))),
               (''cursor'', opt_str (Option.bind params cursor))])
       (\<lambda>result. resolve (createPaginatedResponse (scheduled_messages result)
                    (Some (truthy_str (next_cursor_of result))) (next_cursor_of result)))"

definition listUsers ::
  "TenantCredentials \<Rightarrow> (json MembersResponse) network \<Rightarrow> PaginationParams option
     \<Rightarrow> (json PaginatedResponse) async" where
  "listUsers credentials net params =
     await (request credentials net ''users.list''
              [(''limit'', VNum (limit_or (Option.bind params limit) (Number 100))),
               (''cursor'', opt_str (Option.bind params cursor))])
       (\<lambda>result. resolve (createPaginatedResponse (members result)
                    (Some (truthy_str (next_cursor_of result))) (next_cursor_of result)))"

definition getUserConversations ::
  "TenantCredentials \<Rightarrow> ChannelsResponse network \<Rightarrow> string option
     \<Rightarrow> ConversationListParams option \<Rightarrow> (json PaginatedResponse) async" where
  "getUserConversations credentials net userId params =
     await (request credentials net ''users.conversations''
              [(''user'', opt_str userId),
               (''types'', VStr (or_else (Option.bind params ConversationListParams.types)
                                   ''public_channel,private_channel,mpim,im'')),
               (''exclude_archived'',
                  VBool (case Option.bind params exclude_archived of None \<Rightarrow> True | Some b \<Rightarrow> b)),
               (''limit'', VNum (limit_or (Option.bind params limit) (Number 100))),
               (''cursor'', opt_str (Option.bind params cursor))])
       (\<lambda>result. resolve (createPaginatedResponse (channels result)
                    (Some (truthy_str (next_cursor_of result))) (next_cursor_of result)))"

definition listFiles ::
  "TenantCredentials \<Rightarrow> FilesResponse network \<Rightarrow> FileListParams option
     \<Rightarrow> (json PaginatedResponse) async" where
  "listFiles credentials net params =
     await (request credentials net ''files.list''
              [(''channel'', opt_str (Option.bind params FileListParams.channel)),
               (''user'', opt_str (Option.bind params FileListParams.user)),
               (''types'', opt_str (Option.bind params FileListParams.types)),
               (''ts_from'', opt_num (Option.bind params ts_from)),
               (''ts_to'', opt_num (Option.bind params ts_to)),
               (''count'', VNum (limit_or (Option.bind params limit) (Number 100)))])
       (\<lambda>result. resolve (createPaginatedResponse (FilesResponse.files result)
                    (Some (page (FilesResponse.paging result) < pages (FilesResponse.paging result)))
                    None))"

definition listUserReactions ::
  "TenantCredentials \<Rightarrow> ItemsResponse network \<Rightarrow> string option \<Rightarrow> PaginationParams option
     \<Rightarrow> (json PaginatedResponse) async" where
  "listUserReactions credentials net userId params =
     await (request credentials net ''reactions.list''
              [(''user'', opt_str userId),
               (''count'', VNum (limit_or (Option.bind params limit) (Number 100))),
               (''full'', VBool True)])
       (\<lambda>result. resolve (createPaginatedResponse (ItemsResponse.items result)
                    (Some (page (ItemsResponse.paging result) < pages (ItemsResponse.paging result)))
                    None))"

definition listStars ::
  "TenantCredentials \<Rightarrow> ItemsResponse network \<Rightarrow> PaginationParams option
     \<Rightarrow> (json PaginatedResponse) async" where
  "listStars credentials net params =
     await (request credentials net ''stars.list''
              [(''count'', VNum (limit_or (Option.bind params limit) (Number 100)))])
       (\<lambda>result. resolve (createPaginatedResponse (ItemsResponse.items result)
                    (Some (page (ItemsResponse.paging result) < pages (ItemsResponse.paging result)))
                    None))"

section \<open>Connection test and file upload\<close>

record AuthTestResponse = SlackApiResponse +
  url :: string
  team :: string
  user :: string
  team_id :: string
  user_id :: string
  bot_id :: "string option"
  is_enterprise_install :: "bool option"

record ConnectionResult =
  connected :: bool
  message :: string
  team :: "string option"
  user :: "string option"

text \<open>\<open>error instanceof Error ? error.message : 'Connection failed'\<close>.\<close>

definition error_message :: "thrown \<Rightarrow> string" where
  "error_message e =
     (case e of
        SlackErr err \<Rightarrow> SlackApiError.message err
      | JsError n m \<Rightarrow> m
      | NonError v \<Rightarrow> ''Connection failed'')"

definition testConnection ::
  "TenantCredentials \<Rightarrow> AuthTestResponse network \<Rightarrow> ConnectionResult async" where
  "testConnection credentials net =
     try_catch
       (await (request credentials net ''auth.test'' [])
          (\<lambda>result. resolve \<lparr> connected = True,
                               message = ''Successfully connected to Slack'',
                               team = Some (AuthTestResponse.team result),
                               user = Some (AuthTestResponse.user result) \<rparr>))
       (\<lambda>error. resolve \<lparr> connected = False,
                            message = error_message error,
                            team = None,
                            user = None \<rparr>)"

text \<open>
  \<open>new TextEncoder().encode(content)\<close>: the UTF-8 bytes of a string given by its
  UTF-16 code units. A surrogate pair is one code point of four bytes; a surrogate
  without its partner is encoded as U+FFFD.
\<close>

fun utf8_encode :: "16 word list \<Rightarrow> 8 word list" where
  "utf8_encode [] = []"
| "utf8_encode (u # us) =
     (if u < 0x80 then ucast u # utf8_encode us
      else if u < 0x800 then
        [0xC0 + ucast (drop_bit 6 u), 0x80 + ucast (take_bit 6 u)] @ utf8_encode us
      else if 0xD800 \<le> u \<and> u < 0xDC00 then
        (case us of
           [] \<Rightarrow> [0xEF, 0xBF, 0xBD]
         | l # rest \<Rightarrow>
             if 0xDC00 \<le> l \<and> l < 0xE000 then
               (let cp = (0x10000 :: 32 word) + push_bit 10 (ucast (u - 0xD800)) + ucast (l - 0xDC00)
                in [0xF0 + ucast (drop_bit 18 cp),
                    0x80 + ucast (take_bit 6 (drop_bit 12 cp)),
                    0x80 + ucast (take_bit 6 (drop_bit 6 cp)),
                    0x80 + ucast (take_bit 6 cp)]) @ utf8_encode rest
             else [0xEF, 0xBF, 0xBD] @ utf8_encode us)
      else if 0xDC00 \<le> u \<and> u < 0xE000 then [0xEF, 0xBF, 0xBD] @ utf8_encode us
      else [0xE0 + ucast (drop_bit 12 u),
            0x80 + ucast (take_bit 6 (drop_bit 6 u)),
            0x80 + ucast (take_bit 6 u)] @ utf8_encode us)"

record GetUploadUrlResponse = SlackApiResponse +
  upload_url :: string
  file_id :: string

record CompleteUploadResponse = SlackApiResponse +
  files :: "json list"

text \<open>\<open>xs[i]\<close> on an array: \<open>undefined\<close> (here \<open>None\<close>) when the index is out of range.\<close>

definition js_index :: "'a list \<Rightarrow> nat \<Rightarrow> 'a option" where
  "js_index xs i = (if i < length xs then Some (xs ! i) else None)"

text \<open>
  \<open>uploadFile\<close>: the slot request, the plain POST of the content to the upload URL
  (its response is not looked at), and the completion request. The network's answers
  to the three calls have three types, so they are three parameters.
\<close>

definition uploadFile ::
  "TenantCredentials \<Rightarrow> GetUploadUrlResponse network \<Rightarrow> unit network
     \<Rightarrow> CompleteUploadResponse network
     \<Rightarrow> string \<Rightarrow> 16 word list \<Rightarrow> string \<Rightarrow> string option \<Rightarrow> string option \<Rightarrow> string option
     \<Rightarrow> (json option) async" where
  "uploadFile credentials net1 net2 net3 channels' content filename title initialComment threadTs =
     (let contentBytes = utf8_encode content in
      await (request credentials net1 ''files.getUploadURLExternal''
               [(''filename'', VStr filename),
                (''length'', VNum (Number (of_nat (length contentBytes))))])
        (\<lambda>uploadUrlResult.
           await (fetch net2 \<lparr> http_request.url = upload_url uploadUrlResult,
                               http_method = ''POST'',
                               headers = [],
                               body = TextBody content \<rparr>)
             (\<lambda>_.
                await (request credentials net3 ''files.completeUploadExternal''
                         [(''files'', VArr [VObj [(''id'', VStr (file_id uploadUrlResult)),
                                                  (''title'', VStr (or_else title filename))]]),
                          (''channel_id'', VStr channels'),
                          (''initial_comment'', opt_str initialComment),
                          (''thread_ts'', opt_str threadTs)])
                  (\<lambda>completeResult.
                     resolve (js_index (CompleteUploadResponse.files completeResult) 0)))))"

section \<open>Vocabulary of the statements and fixtures\<close>

text \<open>The HTTP request one call of the dispatcher sends, given the resolved headers.\<close>

definition api_call :: "(string \<times> string) list \<Rightarrow> string \<Rightarrow> (string \<times> jsval) list \<Rightarrow> http_request" where
  "api_call hs method params =
     \<lparr> http_request.url = ''https://slack.com/api/'' @ method,
       http_method = ''POST'',
       headers = hs,
       body = (case JSON_stringify (VObj params) of None \<Rightarrow> NoBody | Some j \<Rightarrow> JsonBody j) \<rparr>"

text \<open>The properties of the JSON object in a request body; empty for any other body.\<close>

definition body_fields :: "body \<Rightarrow> (string \<times> json) list" where
  "body_fields b = (case b of JsonBody (JObj kvs) \<Rightarrow> kvs | _ \<Rightarrow> [])"

text \<open>A network that answers every request with the same response.\<close>

definition answer :: "int \<Rightarrow> (string \<Rightarrow> string option) \<Rightarrow> thrown + 'd \<Rightarrow> 'd network" where
  "answer st hdrs b = (\<lambda>req. Inr \<lparr> status = st, headers_get = hdrs, json_body = b \<rparr>)"

definition no_headers :: "string \<Rightarrow> string option" where
  "no_headers = (\<lambda>h. None)"

definition retry_after :: "string \<Rightarrow> string \<Rightarrow> string option" where
  "retry_after v = (\<lambda>h. if h = ''Retry-After'' then Some v else None)"

definition both_tokens :: TenantCredentials where
  "both_tokens = \<lparr> botToken = Some ''A'', userToken = Some ''B'' \<rparr>"

definition bearer_A :: "(string \<times> string) list" where
  "bearer_A = [(''Authorization'', ''Bearer A''),
               (''Content-Type'', ''application/json; charset=utf-8'')]"

text \<open>Well-formed answers of the remote API, used as concrete inputs.\<close>

definition cursor_metadata :: "string option \<Rightarrow> ResponseMetadata option" where
  "cursor_metadata cur =
     Some \<lparr> next_cursor = cur, ResponseMetadata.messages = None, warnings = None \<rparr>"

definition channels_page :: "string option \<Rightarrow> ChannelsResponse" where
  "channels_page cur =
     \<lparr> ok = True, error = None, warning = None, response_metadata = cursor_metadata cur,
       channels = [JObj [(''id'', JStr ''C1'')], JObj [(''id'', JStr ''C2'')]] \<rparr>"

definition messages_page :: "bool \<Rightarrow> string option \<Rightarrow> MessagesResponse" where
  "messages_page flag cur =
     \<lparr> ok = True, error = None, warning = None, response_metadata = cursor_metadata cur,
       MessagesResponse.messages = [JObj [(''ts'', JStr ''1700000000.000100'')]],
       has_more = flag \<rparr>"

definition members_page :: "'a list \<Rightarrow> string option \<Rightarrow> 'a MembersResponse" where
  "members_page ms cur =
     \<lparr> ok = True, error = None, warning = None, response_metadata = cursor_metadata cur,
       members = ms \<rparr>"

definition scheduled_page :: "string option \<Rightarrow> ScheduledMessagesResponse" where
  "scheduled_page cur =
     \<lparr> ok = True, error = None, warning = None, response_metadata = cursor_metadata cur,
       scheduled_messages = [JObj [(''id'', JStr ''Q1'')]] \<rparr>"

definition files_page :: "int \<Rightarrow> int \<Rightarrow> FilesResponse" where
  "files_page pg pgs =
     \<lparr> ok = True, error = None, warning = None, response_metadata = None,
       FilesResponse.files = [JObj [(''id'', JStr ''F1'')]],
       FilesResponse.paging = \<lparr> Paging.count = 1, total = 3, page = pg, pages = pgs \<rparr> \<rparr>"

definition items_page :: "int \<Rightarrow> int \<Rightarrow> ItemsResponse" where
  "items_page pg pgs =
     \<lparr> ok = True, error = None, warning = None, response_metadata = None,
       ItemsResponse.items = [JObj [(''type'', JStr ''message'')]],
       ItemsResponse.paging = \<lparr> Paging.count = 1, total = 3, page = pg, pages = pgs \<rparr> \<rparr>"

text \<open>The network that answers 200 with the decoded body \<open>d\<close>.\<close>

definition replies_with :: "'d \<Rightarrow> 'd network" where
  "replies_with d = answer 200 no_headers (Inr d)"

definition channel_reply :: ChannelResponse where
  "channel_reply =
     \<lparr> ok = True, error = None, warning = None, response_metadata = None,
       ChannelResponse.channel = JObj [(''id'', JStr ''C1'')] \<rparr>"

definition second_page_of_files :: FileListParams where
  "second_page_of_files =
     \<lparr> limit = Some (Number 50), cursor = Some ''page2'',
       FileListParams.channel = Some ''C1'', FileListParams.user = None,
       FileListParams.types = None, ts_from = None, ts_to = None \<rparr>"

definition second_page :: PaginationParams where
  "second_page = \<lparr> limit = Some (Number 50), cursor = Some ''page2'' \<rparr>"

definition slot_reply :: GetUploadUrlResponse where
  "slot_reply =
     \<lparr> ok = True, error = None, warning = None, response_metadata = None,
       upload_url = ''https://files.slack.com/upload/v1/abc'', file_id = ''F123'' \<rparr>"

definition complete_reply :: "json list \<Rightarrow> CompleteUploadResponse" where
  "complete_reply fs =
     \<lparr> ok = True, error = None, warning = None, response_metadata = None,
       CompleteUploadResponse.files = fs \<rparr>"

text \<open>The ten characters \<open>0123456789\<close>, ten bytes in UTF-8.\<close>

definition ten_bytes :: "16 word list" where
  "ten_bytes = [0x30, 0x31, 0x32, 0x33, 0x34, 0x35, 0x36, 0x37, 0x38, 0x39]"

definition error_envelope :: "string \<Rightarrow> SlackApiResponse" where
  "error_envelope c = \<lparr> ok = False, error = Some c, warning = None, response_metadata = None \<rparr>"

definition auth_test_reply :: AuthTestResponse where
  "auth_test_reply =
     \<lparr> ok = True, error = None, warning = None, response_metadata = None,
       AuthTestResponse.url = ''https://example.slack.com/'', AuthTestResponse.team = ''Example'',
       AuthTestResponse.user = ''bot'', team_id = ''T1'', user_id = ''U1'', bot_id = None,
       is_enterprise_install = None \<rparr>"

definition no_tokens :: TenantCredentials where
  "no_tokens = \<lparr> botToken = None, userToken = None \<rparr>"

text \<open>A network on which every \<open>fetch\<close> is rejected with the error \<open>e\<close>.\<close>

definition unreachable :: "thrown \<Rightarrow> 'd network" where
  "unreachable e = (\<lambda>req. Inl e)"









text \<open>
  An operation \<open>run\<close> relays a call of the dispatcher when it sends the requests of that
  call and no other, ends with the call's error when the call fails, and returns a
  result when the call returns.
\<close>

definition relays :: "'d async \<Rightarrow> 'r async \<Rightarrow> bool" where
  "relays call run =
     (fst run = fst call
      \<and> (case snd call of
           Inl e \<Rightarrow> snd run = Inl e
         | Inr d \<Rightarrow> (case snd run of Inl e \<Rightarrow> False | Inr r \<Rightarrow> True)))"
section \<open>Helper facts about the dispatcher\<close>

lemmas error_ctor_defs = new_AuthenticationError_def new_PermissionError_def
  new_NotFoundError_def new_RateLimitError_def new_SlackApiError_def

lemmas code_family_defs = auth_codes_def permission_codes_def not_found_codes_def












text \<open>
  Above \<open>2 ^ 53\<close> the digits are rounded to the nearest double, and \<open>-0\<close> is the
  negative zero.
\<close>

lemma bit_length_example: "bit_length 9007199254740993 = 54"
  by (simp add: bit_length.simps)

lemma digits_value_example: "digits_value ''9007199254740993'' = 9007199254740993"
  by (simp add: digits_value_def)

lemma round_to_double_example: "round_to_double 9007199254740993 = Number 9007199254740992"
  by (simp add: round_to_double_def bit_length_example Let_def)

lemma parseInt10_rounds: "parseInt10 ''9007199254740993'' = Number 9007199254740992"
  by (simp add: parseInt10_def is_js_whitespace_def is_digit_def digits_value_example
        round_to_double_example)

lemma parseInt10_negative_zero: "parseInt10 ''-0'' = NegZero"
  by (simp add: parseInt10_def is_js_whitespace_def is_digit_def digits_value_def
        round_to_double_def negate_def)

text \<open>The dispatcher, read as one decision tree over what the network answers.\<close>

lemma request_cases:
  "request c net m p =
     (case getAuthHeaders c of
        Inl e \<Rightarrow> ([], Inl e)
      | Inr hs \<Rightarrow>
          ([api_call hs m p],
           case net (api_call hs m p) of
             Inl e \<Rightarrow> Inl e
           | Inr response \<Rightarrow>
               if status response = 429 then
                 Inl (SlackErr (new_RateLimitError ''Rate limit exceeded''
                   (case headers_get response ''Retry-After'' of
                      None \<Rightarrow> Number 60
                    | Some ra \<Rightarrow> if ra \<noteq> [] then parseInt10 ra else Number 60)))
               else
                 (case json_body response of
                    Inl e \<Rightarrow> Inl e
                  | Inr data \<Rightarrow>
                      if ok data then Inr data
                      else Inl (SlackErr (mapSlackError (or_else (error data) ''unknown_error'')
                                                        (error data))))))"
  by (simp add: request_def api_call_def SLACK_API_BASE_URL_def await_def fetch_def reject_def
        resolve_def split: sum.splits)

lemma getAuthHeaders_both_tokens: "getAuthHeaders both_tokens = Inr bearer_A"
  by (simp add: getAuthHeaders_def both_tokens_def bearer_A_def or_opt_def truthy_str_def)

lemma await_rejected: "snd m = Inl e \<Longrightarrow> await m k = (fst m, Inl e)"
  by (cases m) (simp add: await_def)

lemma await_resolve_Inr:
  "snd (await m (\<lambda>x. resolve (f x))) = Inr r \<Longrightarrow> \<exists>x. snd m = Inr x \<and> r = f x"
  by (cases m) (auto simp: await_def resolve_def split: sum.splits)

lemma request_trace:
  "fst (request c net m p) = (case getAuthHeaders c of Inl e \<Rightarrow> [] | Inr hs \<Rightarrow> [api_call hs m p])"
  by (simp add: request_cases split: sum.splits)

lemma fst_await_resolve: "fst (await m (\<lambda>x. resolve (f x))) = fst m"
  by (cases m) (auto simp: await_def resolve_def split: sum.splits)

lemma request_answer:
  "getAuthHeaders c = Inr hs \<Longrightarrow> st \<noteq> 429 \<Longrightarrow> ok d \<Longrightarrow>
     request c (answer st hdrs (Inr d)) m p = ([api_call hs m p], Inr d)"
  by (simp add: request_cases answer_def)

lemma await_Inr:
  "snd (await m k) = Inr r \<Longrightarrow> \<exists>x. snd m = Inr x \<and> snd (k x) = Inr r"
  by (cases m) (auto simp: await_def split: sum.splits prod.splits)

lemma snd_fetch: "snd (fetch net req) = net req"
  by (simp add: fetch_def)

lemma fst_await:
  "fst (await m k) = fst m @ (case snd m of Inl e \<Rightarrow> [] | Inr x \<Rightarrow> fst (k x))"
  by (cases m) (auto simp: await_def split: sum.splits prod.splits)

text \<open>The definitions of the operations that make one call of the dispatcher.\<close>

lemmas operation_defs = listConversations_def getConversationInfo_def getConversationHistory_def
  getConversationReplies_def createConversation_def archiveConversation_def
  unarchiveConversation_def renameConversation_def setConversationTopic_def
  setConversationPurpose_def inviteToConversation_def kickFromConversation_def
  joinConversation_def leaveConversation_def getConversationMembers_def postMessage_def
  updateMessage_def deleteMessage_def scheduleMessage_def deleteScheduledMessage_def
  listScheduledMessages_def getPermalink_def listUsers_def getUserInfo_def getUserByEmail_def
  getUserPresence_def setUserPresence_def getUserConversations_def listFiles_def getFileInfo_def
  deleteFile_def addReaction_def removeReaction_def getReactions_def listUserReactions_def
  searchMessages_def searchFiles_def searchAll_def addPin_def removePin_def listPins_def
  addStar_def removeStar_def listStars_def addReminder_def completeReminder_def
  deleteReminder_def getReminder_def listReminders_def addBookmark_def editBookmark_def
  removeBookmark_def listBookmarks_def listUserGroups_def createUserGroup_def
  updateUserGroup_def disableUserGroup_def enableUserGroup_def getUserGroupMembers_def
  updateUserGroupMembers_def getTeamInfo_def getBillableInfo_def getDndInfo_def setDndSnooze_def
  endDndSnooze_def setDnd_def endDnd_def listEmoji_def

section \<open>The error classifier\<close>

text \<open>
  C1. \<open>mapSlackError\<close> is defined on every code and every optional message, and follows
  the fixed table: the five authentication codes give an \<open>AuthenticationError\<close> with
  status 401, not retryable; the four permission codes a \<open>PermissionError\<close> with 403,
  not retryable; the four not-found codes a \<open>NotFoundError\<close> with 404, not retryable;
  \<open>ratelimited\<close> a retryable \<open>RateLimitError\<close> with \<open>retryAfterSeconds = 60\<close>; any other
  code the base \<open>SlackApiError\<close> without a status, not retryable.
\<close>

theorem mapSlackError_fixed_mapping:
  "(errorCode \<in> set auth_codes \<longrightarrow>
      name (mapSlackError errorCode msg) = ''AuthenticationError''
      \<and> statusCode (mapSlackError errorCode msg) = Some 401
      \<and> \<not> retryable (mapSlackError errorCode msg))
   \<and> (errorCode \<in> set permission_codes \<longrightarrow>
      name (mapSlackError errorCode msg) = ''PermissionError''
      \<and> statusCode (mapSlackError errorCode msg) = Some 403
      \<and> \<not> retryable (mapSlackError errorCode msg))
   \<and> (errorCode \<in> set not_found_codes \<longrightarrow>
      name (mapSlackError errorCode msg) = ''NotFoundError''
      \<and> statusCode (mapSlackError errorCode msg) = Some 404
      \<and> \<not> retryable (mapSlackError errorCode msg))
   \<and> (errorCode = ''ratelimited'' \<longrightarrow>
      name (mapSlackError errorCode msg) = ''RateLimitError''
      \<and> statusCode (mapSlackError errorCode msg) = Some 429
      \<and> retryable (mapSlackError errorCode msg)
      \<and> retryAfterSeconds (mapSlackError errorCode msg) = Some (Number 60))
   \<and> (errorCode \<notin> set auth_codes \<union> set permission_codes \<union> set not_found_codes
                     \<union> {''ratelimited''} \<longrightarrow>
      name (mapSlackError errorCode msg) = ''SlackApiError''
      \<and> statusCode (mapSlackError errorCode msg) = None
      \<and> \<not> retryable (mapSlackError errorCode msg))"
  by (auto simp: mapSlackError_def Let_def error_ctor_defs code_family_defs)

theorem mapSlackError_fixed_mapping_witness:
  "''invalid_auth'' \<in> set auth_codes
   \<and> name (mapSlackError ''invalid_auth'' (Some ''any text'')) = ''AuthenticationError''
   \<and> statusCode (mapSlackError ''invalid_auth'' (Some ''any text'')) = Some 401
   \<and> \<not> retryable (mapSlackError ''invalid_auth'' (Some ''any text''))
   \<and> ''missing_scope'' \<in> set permission_codes
   \<and> statusCode (mapSlackError ''missing_scope'' None) = Some 403
   \<and> ''file_not_found'' \<in> set not_found_codes
   \<and> statusCode (mapSlackError ''file_not_found'' None) = Some 404
   \<and> retryable (mapSlackError ''ratelimited'' None)
   \<and> retryAfterSeconds (mapSlackError ''ratelimited'' None) = Some (Number 60)
   \<and> ''channel_is_archived'' \<notin> set auth_codes \<union> set permission_codes \<union> set not_found_codes
                                 \<union> {''ratelimited''}
   \<and> name (mapSlackError ''channel_is_archived'' None) = ''SlackApiError''
   \<and> \<not> retryable (mapSlackError ''channel_is_archived'' None)"
  using mapSlackError_fixed_mapping [of "''invalid_auth''" "Some ''any text''"]
    mapSlackError_fixed_mapping [of "''missing_scope''" None]
    mapSlackError_fixed_mapping [of "''file_not_found''" None]
    mapSlackError_fixed_mapping [of "''ratelimited''" None]
    mapSlackError_fixed_mapping [of "''channel_is_archived''" None]
  by (simp add: code_family_defs)

text \<open>
  C9. For each of the four not-found codes and every message, the message of the
  classified error is \<open>resource with ID '<code>' not found\<close>, built from the code; the
  message that came with the code is dropped. For every other code a non-empty
  message is kept as it is.
\<close>

theorem not_found_message_built_from_code:
  "(errorCode \<in> set not_found_codes \<longrightarrow>
      SlackApiError.message (mapSlackError errorCode msg)
        = ''resource with ID '' @ [CHR 0x27] @ errorCode @ [CHR 0x27] @ '' not found'')
   \<and> (errorCode \<notin> set not_found_codes \<and> msg = Some m \<and> m \<noteq> [] \<longrightarrow>
      SlackApiError.message (mapSlackError errorCode msg) = m)"
  by (auto simp: mapSlackError_def Let_def error_ctor_defs or_else_def code_family_defs)

theorem not_found_message_built_from_code_witness:
  "''channel_not_found'' \<in> set not_found_codes
   \<and> SlackApiError.message (mapSlackError ''channel_not_found'' (Some ''remote text''))
       = ''resource with ID '' @ [CHR 0x27] @ ''channel_not_found'' @ [CHR 0x27] @ '' not found''
   \<and> ''invalid_auth'' \<notin> set not_found_codes
   \<and> SlackApiError.message (mapSlackError ''invalid_auth'' (Some ''remote text'')) = ''remote text''"
  using not_found_message_built_from_code
          [of "''channel_not_found''" "Some ''remote text''" "''remote text''"]
    not_found_message_built_from_code
          [of "''invalid_auth''" "Some ''remote text''" "''remote text''"]
  by (simp add: not_found_codes_def)

section \<open>Credential resolution\<close>

text \<open>
  C5. \<open>getAuthHeaders\<close> picks one token, the bot token first: with a non-empty bot token
  the header is \<open>Bearer\<close> followed by it, whatever the user token is; with the bot token
  absent or empty and a non-empty user token, the user token is used; with both absent or
  empty no header is produced and the call fails with the \<open>No credentials provided\<close>
  error.
\<close>

theorem getAuthHeaders_prefers_bot_token:
  "(botToken c = Some a \<and> a \<noteq> [] \<longrightarrow>
      getAuthHeaders c = Inr [(''Authorization'', ''Bearer '' @ a),
                              (''Content-Type'', ''application/json; charset=utf-8'')])
   \<and> ((botToken c = None \<or> botToken c = Some []) \<and> userToken c = Some b \<and> b \<noteq> [] \<longrightarrow>
      getAuthHeaders c = Inr [(''Authorization'', ''Bearer '' @ b),
                              (''Content-Type'', ''application/json; charset=utf-8'')])
   \<and> ((botToken c = None \<or> botToken c = Some [])
        \<and> (userToken c = None \<or> userToken c = Some []) \<longrightarrow>
      getAuthHeaders c = Inl (SlackErr (new_AuthenticationError
        ''No credentials provided. Include X-Slack-Bot-Token or X-Slack-User-Token header.'')))"
  by (auto simp: getAuthHeaders_def or_opt_def truthy_str_def Let_def)

theorem getAuthHeaders_prefers_bot_token_witness:
  "getAuthHeaders \<lparr> botToken = Some ''A'', userToken = Some ''B'' \<rparr>
     = Inr [(''Authorization'', ''Bearer A''),
            (''Content-Type'', ''application/json; charset=utf-8'')]
   \<and> getAuthHeaders \<lparr> botToken = None, userToken = Some ''B'' \<rparr>
     = Inr [(''Authorization'', ''Bearer B''),
            (''Content-Type'', ''application/json; charset=utf-8'')]
   \<and> getAuthHeaders \<lparr> botToken = None, userToken = None \<rparr>
     = Inl (SlackErr (new_AuthenticationError
        ''No credentials provided. Include X-Slack-Bot-Token or X-Slack-User-Token header.''))
   \<and> getAuthHeaders \<lparr> botToken = Some '''', userToken = Some '''' \<rparr>
     = Inl (SlackErr (new_AuthenticationError
        ''No credentials provided. Include X-Slack-Bot-Token or X-Slack-User-Token header.''))"
  using getAuthHeaders_prefers_bot_token
          [of "\<lparr> botToken = Some ''A'', userToken = Some ''B'' \<rparr>" "''A''" "''B''"]
    getAuthHeaders_prefers_bot_token
          [of "\<lparr> botToken = None, userToken = Some ''B'' \<rparr>" "''A''" "''B''"]
    getAuthHeaders_prefers_bot_token
          [of "\<lparr> botToken = None, userToken = None \<rparr>" "''A''" "''B''"]
    getAuthHeaders_prefers_bot_token
          [of "\<lparr> botToken = Some '''', userToken = Some '''' \<rparr>" "''A''" "''B''"]
  by simp

section \<open>Rate limiting\<close>










section \<open>Helper facts about the list operations\<close>

lemma request_replies_with:
  "ok d \<Longrightarrow> request both_tokens (replies_with d) m p = ([api_call bearer_A m p], Inr d)"
  by (simp add: request_cases getAuthHeaders_both_tokens replies_with_def answer_def)

lemma await_replies_with:
  "ok d \<Longrightarrow> await (request both_tokens (replies_with d) m p) (\<lambda>x. resolve (f x))
     = ([api_call bearer_A m p], Inr (f d))"
  by (simp add: request_replies_with await_def resolve_def)

lemma page_count_length:
  "r = createPaginatedResponse its h cur \<Longrightarrow>
     PaginatedResponse.count r = length (PaginatedResponse.items r)"
  by (simp add: createPaginatedResponse_def)

lemma listConversations_page:
  "snd (listConversations c net p) = Inr r \<Longrightarrow>
     \<exists>result :: ChannelsResponse. r = createPaginatedResponse (channels result)
                  (Some (truthy_str (next_cursor_of result))) (next_cursor_of result)"
  unfolding listConversations_def by (drule await_resolve_Inr) blast

lemma getConversationHistory_page:
  "snd (getConversationHistory c net ch p) = Inr r \<Longrightarrow>
     \<exists>result :: MessagesResponse. r = createPaginatedResponse (MessagesResponse.messages result)
                  (Some (has_more result)) (next_cursor_of result)"
  unfolding getConversationHistory_def by (drule await_resolve_Inr) blast

lemma getConversationReplies_page:
  "snd (getConversationReplies c net ch tts p) = Inr r \<Longrightarrow>
     \<exists>result :: MessagesResponse. r = createPaginatedResponse (MessagesResponse.messages result)
                  (Some (has_more result)) (next_cursor_of result)"
  unfolding getConversationReplies_def by (drule await_resolve_Inr) blast

lemma getConversationMembers_page:
  "snd (getConversationMembers c net ch p) = Inr r \<Longrightarrow>
     \<exists>result :: string MembersResponse. r = createPaginatedResponse (members result)
                  (Some (truthy_str (next_cursor_of result))) (next_cursor_of result)"
  unfolding getConversationMembers_def by (drule await_resolve_Inr) blast

lemma listScheduledMessages_page:
  "snd (listScheduledMessages c net ch p) = Inr r \<Longrightarrow>
     \<exists>result :: ScheduledMessagesResponse. r = createPaginatedResponse (scheduled_messages result)
                  (Some (truthy_str (next_cursor_of result))) (next_cursor_of result)"
  unfolding listScheduledMessages_def by (drule await_resolve_Inr) blast

lemma listUsers_page:
  "snd (listUsers c net p) = Inr r \<Longrightarrow>
     \<exists>result :: json MembersResponse. r = createPaginatedResponse (members result)
                  (Some (truthy_str (next_cursor_of result))) (next_cursor_of result)"
  unfolding listUsers_def by (drule await_resolve_Inr) blast

lemma getUserConversations_page:
  "snd (getUserConversations c net u p) = Inr r \<Longrightarrow>
     \<exists>result :: ChannelsResponse. r = createPaginatedResponse (channels result)
                  (Some (truthy_str (next_cursor_of result))) (next_cursor_of result)"
  unfolding getUserConversations_def by (drule await_resolve_Inr) blast

lemma listFiles_page:
  "snd (listFiles c net p) = Inr r \<Longrightarrow>
     \<exists>result :: FilesResponse. r = createPaginatedResponse (FilesResponse.files result)
        (Some (page (FilesResponse.paging result) < pages (FilesResponse.paging result))) None"
  unfolding listFiles_def by (drule await_resolve_Inr) blast

lemma listUserReactions_page:
  "snd (listUserReactions c net u p) = Inr r \<Longrightarrow>
     \<exists>result :: ItemsResponse. r = createPaginatedResponse (ItemsResponse.items result)
        (Some (page (ItemsResponse.paging result) < pages (ItemsResponse.paging result))) None"
  unfolding listUserReactions_def by (drule await_resolve_Inr) blast

lemma listStars_page:
  "snd (listStars c net p) = Inr r \<Longrightarrow>
     \<exists>result :: ItemsResponse. r = createPaginatedResponse (ItemsResponse.items result)
        (Some (page (ItemsResponse.paging result) < pages (ItemsResponse.paging result))) None"
  unfolding listStars_def by (drule await_resolve_Inr) blast

lemma eval_listConversations:
  "snd (listConversations both_tokens (replies_with (channels_page cur)) None)
     = Inr (createPaginatedResponse [JObj [(''id'', JStr ''C1'')], JObj [(''id'', JStr ''C2'')]]
              (Some (truthy_str cur)) cur)"
  by (simp add: listConversations_def await_replies_with channels_page_def cursor_metadata_def
        next_cursor_of_def)

lemma eval_getConversationHistory:
  "snd (getConversationHistory both_tokens (replies_with (messages_page flag cur)) ''C1'' None)
     = Inr (createPaginatedResponse [JObj [(''ts'', JStr ''1700000000.000100'')]] (Some flag) cur)"
  by (simp add: getConversationHistory_def await_replies_with messages_page_def
        cursor_metadata_def next_cursor_of_def)


lemma eval_getConversationReplies:
  "snd (getConversationReplies both_tokens (replies_with (messages_page flag cur)) ''C1'' ''1700000000.000100'' None)
     = Inr (createPaginatedResponse [JObj [(''ts'', JStr ''1700000000.000100'')]] (Some flag) cur)"
  by (simp add: getConversationReplies_def await_replies_with messages_page_def
        cursor_metadata_def next_cursor_of_def)

lemma eval_getConversationMembers:
  "snd (getConversationMembers both_tokens (replies_with (members_page ms cur)) ''C1'' None)
     = Inr (createPaginatedResponse ms (Some (truthy_str cur)) cur)"
  by (simp add: getConversationMembers_def await_replies_with members_page_def
        cursor_metadata_def next_cursor_of_def)

lemma eval_listScheduledMessages:
  "snd (listScheduledMessages both_tokens (replies_with (scheduled_page cur)) None None)
     = Inr (createPaginatedResponse [JObj [(''id'', JStr ''Q1'')]] (Some (truthy_str cur)) cur)"
  by (simp add: listScheduledMessages_def await_replies_with scheduled_page_def
        cursor_metadata_def next_cursor_of_def)

lemma eval_listUsers:
  "snd (listUsers both_tokens (replies_with (members_page ms cur)) None)
     = Inr (createPaginatedResponse ms (Some (truthy_str cur)) cur)"
  by (simp add: listUsers_def await_replies_with members_page_def
        cursor_metadata_def next_cursor_of_def)

lemma eval_getUserConversations:
  "snd (getUserConversations both_tokens (replies_with (channels_page cur)) None None)
     = Inr (createPaginatedResponse [JObj [(''id'', JStr ''C1'')], JObj [(''id'', JStr ''C2'')]]
              (Some (truthy_str cur)) cur)"
  by (simp add: getUserConversations_def await_replies_with channels_page_def cursor_metadata_def
        next_cursor_of_def)

lemma eval_listFiles:
  "snd (listFiles both_tokens (replies_with (files_page pg pgs)) None)
     = Inr (createPaginatedResponse [JObj [(''id'', JStr ''F1'')]] (Some (pg < pgs)) None)"
  by (simp add: listFiles_def await_replies_with files_page_def)

lemma eval_listUserReactions:
  "snd (listUserReactions both_tokens (replies_with (items_page pg pgs)) None None)
     = Inr (createPaginatedResponse [JObj [(''type'', JStr ''message'')]] (Some (pg < pgs)) None)"
  by (simp add: listUserReactions_def await_replies_with items_page_def)

lemma eval_listStars:
  "snd (listStars both_tokens (replies_with (items_page pg pgs)) None)
     = Inr (createPaginatedResponse [JObj [(''type'', JStr ''message'')]] (Some (pg < pgs)) None)"
  by (simp add: listStars_def await_replies_with items_page_def)

lemmas eval_list_ops = eval_listConversations eval_getConversationHistory
  eval_getConversationReplies eval_getConversationMembers eval_listScheduledMessages
  eval_listUsers eval_getUserConversations eval_listFiles eval_listUserReactions eval_listStars

section \<open>Pagination\<close>

text \<open>
  C3. Every \<open>PaginatedResponse\<close> that \<open>createPaginatedResponse\<close> builds, for any items
  and any options, has \<open>count\<close> equal to the number of its items, and its items are the ones
  given; so has the empty response. Every list operation of the client that returns does
  so with a response built by \<open>createPaginatedResponse\<close>, so its \<open>count\<close> is the length
  of its \<open>items\<close>.
\<close>

theorem paginated_count_is_length:
  "PaginatedResponse.count (createPaginatedResponse its h cur)
       = length (PaginatedResponse.items (createPaginatedResponse its h cur))
   \<and> PaginatedResponse.items (createPaginatedResponse its h cur) = its
   \<and> (snd (listConversations c nC pC) = Inr rConv \<longrightarrow>
        PaginatedResponse.count rConv = length (PaginatedResponse.items rConv))
   \<and> (snd (getConversationHistory c nM ch pH) = Inr rHist \<longrightarrow>
        PaginatedResponse.count rHist = length (PaginatedResponse.items rHist))
   \<and> (snd (getConversationReplies c nM ch tts pP) = Inr rRepl \<longrightarrow>
        PaginatedResponse.count rRepl = length (PaginatedResponse.items rRepl))
   \<and> (snd (getConversationMembers c nI ch pP) = Inr rMemb \<longrightarrow>
        PaginatedResponse.count rMemb = length (PaginatedResponse.items rMemb))
   \<and> (snd (listScheduledMessages c nS och pP) = Inr rSched \<longrightarrow>
        PaginatedResponse.count rSched = length (PaginatedResponse.items rSched))
   \<and> (snd (listUsers c nU pP) = Inr rUsers \<longrightarrow>
        PaginatedResponse.count rUsers = length (PaginatedResponse.items rUsers))
   \<and> (snd (getUserConversations c nC ou pC) = Inr rUConv \<longrightarrow>
        PaginatedResponse.count rUConv = length (PaginatedResponse.items rUConv))
   \<and> (snd (listFiles c nF pF) = Inr rFiles \<longrightarrow>
        PaginatedResponse.count rFiles = length (PaginatedResponse.items rFiles))
   \<and> (snd (listUserReactions c nR ou pP) = Inr rReact \<longrightarrow>
        PaginatedResponse.count rReact = length (PaginatedResponse.items rReact))
   \<and> (snd (listStars c nR pP) = Inr rStars \<longrightarrow>
        PaginatedResponse.count rStars = length (PaginatedResponse.items rStars))
   \<and> PaginatedResponse.count (emptyPaginatedResponse :: json PaginatedResponse)
       = length (PaginatedResponse.items (emptyPaginatedResponse :: json PaginatedResponse))"
proof (intro conjI impI)
  show "PaginatedResponse.count (createPaginatedResponse its h cur)
       = length (PaginatedResponse.items (createPaginatedResponse its h cur))"
    by (simp add: createPaginatedResponse_def)
  show "PaginatedResponse.items (createPaginatedResponse its h cur) = its"
    by (simp add: createPaginatedResponse_def)
next
  assume "snd (listConversations c nC pC) = Inr rConv"
  then show "PaginatedResponse.count rConv = length (PaginatedResponse.items rConv)"
    by (blast dest: listConversations_page page_count_length)
next
  assume "snd (getConversationHistory c nM ch pH) = Inr rHist"
  then show "PaginatedResponse.count rHist = length (PaginatedResponse.items rHist)"
    by (blast dest: getConversationHistory_page page_count_length)
next
  assume "snd (getConversationReplies c nM ch tts pP) = Inr rRepl"
  then show "PaginatedResponse.count rRepl = length (PaginatedResponse.items rRepl)"
    by (blast dest: getConversationReplies_page page_count_length)
next
  assume "snd (getConversationMembers c nI ch pP) = Inr rMemb"
  then show "PaginatedResponse.count rMemb = length (PaginatedResponse.items rMemb)"
    by (blast dest: getConversationMembers_page page_count_length)
next
  assume "snd (listScheduledMessages c nS och pP) = Inr rSched"
  then show "PaginatedResponse.count rSched = length (PaginatedResponse.items rSched)"
    by (blast dest: listScheduledMessages_page page_count_length)
next
  assume "snd (listUsers c nU pP) = Inr rUsers"
  then show "PaginatedResponse.count rUsers = length (PaginatedResponse.items rUsers)"
    by (blast dest: listUsers_page page_count_length)
next
  assume "snd (getUserConversations c nC ou pC) = Inr rUConv"
  then show "PaginatedResponse.count rUConv = length (PaginatedResponse.items rUConv)"
    by (blast dest: getUserConversations_page page_count_length)
next
  assume "snd (listFiles c nF pF) = Inr rFiles"
  then show "PaginatedResponse.count rFiles = length (PaginatedResponse.items rFiles)"
    by (blast dest: listFiles_page page_count_length)
next
  assume "snd (listUserReactions c nR ou pP) = Inr rReact"
  then show "PaginatedResponse.count rReact = length (PaginatedResponse.items rReact)"
    by (blast dest: listUserReactions_page page_count_length)
next
  assume "snd (listStars c nR pP) = Inr rStars"
  then show "PaginatedResponse.count rStars = length (PaginatedResponse.items rStars)"
    by (blast dest: listStars_page page_count_length)
next
  show "PaginatedResponse.count (emptyPaginatedResponse :: json PaginatedResponse)
       = length (PaginatedResponse.items (emptyPaginatedResponse :: json PaginatedResponse))"
    by (simp add: emptyPaginatedResponse_def)
qed

theorem paginated_count_is_length_witness:
  "snd (listConversations both_tokens (replies_with (channels_page (Some ''abc''))) None)
     = Inr \<lparr> PaginatedResponse.items = [JObj [(''id'', JStr ''C1'')], JObj [(''id'', JStr ''C2'')]],
             PaginatedResponse.count = 2, hasMore = True, nextCursor = Some ''abc'' \<rparr>
   \<and> PaginatedResponse.count (createPaginatedResponse [JObj [(''id'', JStr ''C1'')], JObj [(''id'', JStr ''C2'')]] (Some True) (Some ''abc''))
       = length (PaginatedResponse.items (createPaginatedResponse [JObj [(''id'', JStr ''C1'')], JObj [(''id'', JStr ''C2'')]] (Some True) (Some ''abc'')))
   \<and> snd (getConversationHistory both_tokens (replies_with (messages_page True None)) ''C1'' None)
     = Inr \<lparr> PaginatedResponse.items = [JObj [(''ts'', JStr ''1700000000.000100'')]],
             PaginatedResponse.count = 1, hasMore = True, nextCursor = None \<rparr>
   \<and> snd (getConversationReplies both_tokens (replies_with (messages_page True None)) ''C1'' ''1700000000.000100'' None)
     = Inr \<lparr> PaginatedResponse.items = [JObj [(''ts'', JStr ''1700000000.000100'')]],
             PaginatedResponse.count = 1, hasMore = True, nextCursor = None \<rparr>
   \<and> snd (getConversationMembers both_tokens (replies_with (members_page [''U1'', ''U2'', ''U3''] None)) ''C1'' None)
     = Inr \<lparr> PaginatedResponse.items = [''U1'', ''U2'', ''U3''],
             PaginatedResponse.count = 3, hasMore = False, nextCursor = None \<rparr>
   \<and> snd (listScheduledMessages both_tokens (replies_with (scheduled_page None)) None None)
     = Inr \<lparr> PaginatedResponse.items = [JObj [(''id'', JStr ''Q1'')]],
             PaginatedResponse.count = 1, hasMore = False, nextCursor = None \<rparr>
   \<and> snd (listUsers both_tokens (replies_with (members_page [] (Some ''next''))) None)
     = Inr \<lparr> PaginatedResponse.items = [],
             PaginatedResponse.count = 0, hasMore = True, nextCursor = Some ''next'' \<rparr>
   \<and> snd (getUserConversations both_tokens (replies_with (channels_page (Some ''abc''))) None None)
     = Inr \<lparr> PaginatedResponse.items = [JObj [(''id'', JStr ''C1'')], JObj [(''id'', JStr ''C2'')]],
             PaginatedResponse.count = 2, hasMore = True, nextCursor = Some ''abc'' \<rparr>
   \<and> snd (listFiles both_tokens (replies_with (files_page 1 3)) None)
     = Inr \<lparr> PaginatedResponse.items = [JObj [(''id'', JStr ''F1'')]],
             PaginatedResponse.count = 1, hasMore = True, nextCursor = None \<rparr>
   \<and> snd (listUserReactions both_tokens (replies_with (items_page 1 3)) None None)
     = Inr \<lparr> PaginatedResponse.items = [JObj [(''type'', JStr ''message'')]],
             PaginatedResponse.count = 1, hasMore = True, nextCursor = None \<rparr>
   \<and> snd (listStars both_tokens (replies_with (items_page 1 3)) None)
     = Inr \<lparr> PaginatedResponse.items = [JObj [(''type'', JStr ''message'')]],
             PaginatedResponse.count = 1, hasMore = True, nextCursor = None \<rparr>"
  using paginated_count_is_length
    [where its = "[JObj [(''id'', JStr ''C1'')], JObj [(''id'', JStr ''C2'')]]"
       and h = "Some True" and cur = "Some ''abc''" and c = both_tokens
       and nC = "replies_with (channels_page (Some ''abc''))" and pC = None
       and nM = "replies_with (messages_page True None)" and ch = "''C1''" and pH = None
       and tts = "''1700000000.000100''" and pP = None
       and nI = "replies_with (members_page [''U1'', ''U2'', ''U3''] None)"
       and nS = "replies_with (scheduled_page None)" and och = None
       and nU = "replies_with (members_page [] (Some ''next''))" and ou = None
       and nF = "replies_with (files_page 1 3)" and pF = None
       and nR = "replies_with (items_page 1 3)"
       and rConv = "\<lparr> PaginatedResponse.items = [JObj [(''id'', JStr ''C1'')], JObj [(''id'', JStr ''C2'')]],
             PaginatedResponse.count = 2, hasMore = True, nextCursor = Some ''abc'' \<rparr>"
       and rHist = "\<lparr> PaginatedResponse.items = [JObj [(''ts'', JStr ''1700000000.000100'')]],
             PaginatedResponse.count = 1, hasMore = True, nextCursor = None \<rparr>"
       and rRepl = "\<lparr> PaginatedResponse.items = [JObj [(''ts'', JStr ''1700000000.000100'')]],
             PaginatedResponse.count = 1, hasMore = True, nextCursor = None \<rparr>"
       and rMemb = "\<lparr> PaginatedResponse.items = [''U1'', ''U2'', ''U3''],
             PaginatedResponse.count = 3, hasMore = False, nextCursor = None \<rparr>"
       and rSched = "\<lparr> PaginatedResponse.items = [JObj [(''id'', JStr ''Q1'')]],
             PaginatedResponse.count = 1, hasMore = False, nextCursor = None \<rparr>"
       and rUsers = "\<lparr> PaginatedResponse.items = [],
             PaginatedResponse.count = 0, hasMore = True, nextCursor = Some ''next'' \<rparr>"
       and rUConv = "\<lparr> PaginatedResponse.items = [JObj [(''id'', JStr ''C1'')], JObj [(''id'', JStr ''C2'')]],
             PaginatedResponse.count = 2, hasMore = True, nextCursor = Some ''abc'' \<rparr>"
       and rFiles = "\<lparr> PaginatedResponse.items = [JObj [(''id'', JStr ''F1'')]],
             PaginatedResponse.count = 1, hasMore = True, nextCursor = None \<rparr>"
       and rReact = "\<lparr> PaginatedResponse.items = [JObj [(''type'', JStr ''message'')]],
             PaginatedResponse.count = 1, hasMore = True, nextCursor = None \<rparr>"
       and rStars = "\<lparr> PaginatedResponse.items = [JObj [(''type'', JStr ''message'')]],
             PaginatedResponse.count = 1, hasMore = True, nextCursor = None \<rparr>"]
  by (simp add: eval_list_ops createPaginatedResponse_def truthy_str_def)

section \<open>Helper facts about request bodies\<close>

lemma body_fields_api_call:
  "body_fields (body (api_call hs m kvs))
     = concat (map (\<lambda>kv. case JSON_stringify (snd kv) of
                              None \<Rightarrow> [] | Some j \<Rightarrow> [(fst kv, j)]) kvs)"
  by (simp add: api_call_def body_fields_def)

lemma stringify_None: "JSON_stringify v = None \<longleftrightarrow> v = VUndefined"
  by (cases v rule: JSON_stringify.cases) simp_all

lemma field_member:
  "(k, j) \<in> set (case JSON_stringify v of None \<Rightarrow> [] | Some j' \<Rightarrow> [(k', j')])
     \<longleftrightarrow> k = k' \<and> JSON_stringify v = Some j"
  by (cases "JSON_stringify v") auto

lemma body_fields_member:
  "(k, j) \<in> set (body_fields (body (api_call hs m kvs)))
     \<longleftrightarrow> (\<exists>v. (k, v) \<in> set kvs \<and> JSON_stringify v = Some j)"
  unfolding body_fields_api_call
proof (induction kvs)
  case Nil
  show ?case by simp
next
  case (Cons kv kvs)
  obtain k' v' where kv: "kv = (k', v')" by (cases kv)
  show ?case
    using Cons.IH by (auto simp: kv field_member)
qed

lemma body_fields_keys:
  "k \<in> fst ` set (body_fields (body (api_call hs m kvs)))
     \<longleftrightarrow> (\<exists>v. (k, v) \<in> set kvs \<and> v \<noteq> VUndefined)"
proof -
  have "k \<in> fst ` set (body_fields (body (api_call hs m kvs)))
          \<longleftrightarrow> (\<exists>j. (k, j) \<in> set (body_fields (body (api_call hs m kvs))))"
    by force
  also have "\<dots> \<longleftrightarrow> (\<exists>v j. (k, v) \<in> set kvs \<and> JSON_stringify v = Some j)"
    by (auto simp: body_fields_member)
  also have "\<dots> \<longleftrightarrow> (\<exists>v. (k, v) \<in> set kvs \<and> v \<noteq> VUndefined)"
    using stringify_None by (metis not_Some_eq)
  finally show ?thesis .
qed

section \<open>Serialization of the parameters\<close>

text \<open>
  C6, as the code has it. In every request body the dispatcher builds, a parameter whose
  value is \<open>undefined\<close> is left out: its key is not in the body, with \<open>null\<close> or with any
  other value. A parameter given as a string is sent as that string, also when the string
  is empty: the key stays in the body.
\<close>

theorem undefined_omitted_empty_string_sent:
  assumes "getAuthHeaders credentials = Inr hs"
  shows "fst (request credentials net method params) = [api_call hs method params]
       \<and> ((\<forall>v. (k, v) \<in> set params \<longrightarrow> v = VUndefined) \<longrightarrow>
             k \<notin> fst ` set (body_fields (body (api_call hs method params)))
             \<and> (k, JNull) \<notin> set (body_fields (body (api_call hs method params))))
       \<and> ((k, VStr s) \<in> set params \<longrightarrow>
             (k, JStr s) \<in> set (body_fields (body (api_call hs method params))))"
proof (intro conjI impI)
  show "fst (request credentials net method params) = [api_call hs method params]"
    by (simp add: request_trace assms)
  show k: "k \<notin> fst ` set (body_fields (body (api_call hs method params)))"
    if "\<forall>v. (k, v) \<in> set params \<longrightarrow> v = VUndefined"
    using that by (auto simp: body_fields_keys)
  show "(k, JNull) \<notin> set (body_fields (body (api_call hs method params)))"
    if "\<forall>v. (k, v) \<in> set params \<longrightarrow> v = VUndefined"
    using k [OF that] by force
  show "(k, JStr s) \<in> set (body_fields (body (api_call hs method params)))"
    if "(k, VStr s) \<in> set params"
    using that by (auto simp: body_fields_member)
qed

theorem undefined_omitted_empty_string_sent_witness:
  "getAuthHeaders both_tokens = Inr bearer_A
   \<and> fst (request both_tokens (replies_with channel_reply) ''conversations.setTopic''
             [(''channel'', VStr ''C1''), (''topic'', VUndefined)])
       = [api_call bearer_A ''conversations.setTopic''
             [(''channel'', VStr ''C1''), (''topic'', VUndefined)]]
   \<and> ''topic'' \<notin> fst ` set (body_fields (body (api_call bearer_A ''conversations.setTopic''
             [(''channel'', VStr ''C1''), (''topic'', VUndefined)])))
   \<and> (''topic'', JNull) \<notin> set (body_fields (body (api_call bearer_A ''conversations.setTopic''
             [(''channel'', VStr ''C1''), (''topic'', VUndefined)])))
   \<and> (''topic'', JStr []) \<in> set (body_fields (body (api_call bearer_A ''conversations.setTopic''
             [(''channel'', VStr ''C1''), (''topic'', VStr [])])))"
  using getAuthHeaders_both_tokens
    undefined_omitted_empty_string_sent [OF getAuthHeaders_both_tokens,
      of "replies_with channel_reply" "''conversations.setTopic''"
         "[(''channel'', VStr ''C1''), (''topic'', VUndefined)]" "''topic''" "[]"]
    undefined_omitted_empty_string_sent [OF getAuthHeaders_both_tokens,
      of "replies_with channel_reply" "''conversations.setTopic''"
         "[(''channel'', VStr ''C1''), (''topic'', VStr [])]" "''topic''" "[]"]
  by (simp add: body_fields_api_call)

text \<open>
  The claim as written fails: setting the topic to the empty string sends the key
  \<open>topic\<close> with the empty string as its value, and that body is not the body of the
  call with the topic left out.
\<close>

theorem empty_topic_is_sent_counterexample:
  "map body (fst (setConversationTopic both_tokens (replies_with channel_reply) ''C1'' []))
     = [JsonBody (JObj [(''channel'', JStr ''C1''), (''topic'', JStr [])])]
   \<and> map body (fst (request both_tokens (replies_with channel_reply) ''conversations.setTopic''
                      [(''channel'', VStr ''C1''), (''topic'', VUndefined)]))
     = [JsonBody (JObj [(''channel'', JStr ''C1'')])]
   \<and> JsonBody (JObj [(''channel'', JStr ''C1''), (''topic'', JStr [])])
       \<noteq> JsonBody (JObj [(''channel'', JStr ''C1'')])"
  by (simp add: setConversationTopic_def fst_await_resolve request_trace
        getAuthHeaders_both_tokens api_call_def)

section \<open>Page-counted list operations\<close>

lemma trace_cases:
  "req \<in> set (fst (request c net m p)) \<Longrightarrow> \<exists>hs. req = api_call hs m p"
  by (cases "getAuthHeaders c") (auto simp: request_trace)

lemma trace_keys:
  assumes "req \<in> set (fst (request c net m p))"
  shows "fst ` set (body_fields (body req)) \<subseteq> set (map fst p)"
proof
  fix k assume k: "k \<in> fst ` set (body_fields (body req))"
  obtain hs where "req = api_call hs m p" using trace_cases [OF assms] ..
  with k obtain v where "(k, v) \<in> set p" by (auto simp: body_fields_keys)
  then show "k \<in> set (map fst p)" by force
qed

text \<open>
  C10. \<open>listFiles\<close>, \<open>listStars\<close> and \<open>listUserReactions\<close> never send the caller's
  cursor: changing the \<open>cursor\<close> of the parameters changes neither the request nor the
  result, and the body of the request holds no key other than \<open>count\<close> and the filters
  of the operation (\<open>channel\<close>, \<open>user\<close>, \<open>types\<close>, \<open>ts_from\<close>, \<open>ts_to\<close> for files;
  \<open>user\<close> and \<open>full\<close> for reactions).
\<close>

theorem page_counted_lists_ignore_cursor:
  "listFiles c nF (Some (pF\<lparr>cursor := x\<rparr>)) = listFiles c nF (Some pF)
   \<and> listStars c nR (Some (pP\<lparr>cursor := x\<rparr>)) = listStars c nR (Some pP)
   \<and> listUserReactions c nR u (Some (pP\<lparr>cursor := x\<rparr>)) = listUserReactions c nR u (Some pP)
   \<and> (\<forall>req \<in> set (fst (listFiles c nF oF)).
         fst ` set (body_fields (body req))
           \<subseteq> {''channel'', ''user'', ''types'', ''ts_from'', ''ts_to'', ''count''})
   \<and> (\<forall>req \<in> set (fst (listStars c nR oP)).
         fst ` set (body_fields (body req)) \<subseteq> {''count''})
   \<and> (\<forall>req \<in> set (fst (listUserReactions c nR u oP)).
         fst ` set (body_fields (body req)) \<subseteq> {''user'', ''count'', ''full''})"
proof (intro conjI ballI)
  show "listFiles c nF (Some (pF\<lparr>cursor := x\<rparr>)) = listFiles c nF (Some pF)"
    by (simp add: listFiles_def)
  show "listStars c nR (Some (pP\<lparr>cursor := x\<rparr>)) = listStars c nR (Some pP)"
    by (simp add: listStars_def)
  show "listUserReactions c nR u (Some (pP\<lparr>cursor := x\<rparr>)) = listUserReactions c nR u (Some pP)"
    by (simp add: listUserReactions_def)
next
  fix req assume a: "req \<in> set (fst (listFiles c nF oF))"
  show "fst ` set (body_fields (body req))
           \<subseteq> {''channel'', ''user'', ''types'', ''ts_from'', ''ts_to'', ''count''}"
    using a [unfolded listFiles_def fst_await_resolve, THEN trace_keys] by simp
next
  fix req assume a: "req \<in> set (fst (listStars c nR oP))"
  show "fst ` set (body_fields (body req)) \<subseteq> {''count''}"
    using a [unfolded listStars_def fst_await_resolve, THEN trace_keys] by simp
next
  fix req assume a: "req \<in> set (fst (listUserReactions c nR u oP))"
  show "fst ` set (body_fields (body req)) \<subseteq> {''user'', ''count'', ''full''}"
    using a [unfolded listUserReactions_def fst_await_resolve, THEN trace_keys] by simp
qed


theorem page_counted_lists_ignore_cursor_witness:
  "fst (listFiles both_tokens (replies_with (files_page 1 3)) (Some second_page_of_files))
     = [\<lparr> http_request.url = ''https://slack.com/api/files.list'', http_method = ''POST'',
          headers = bearer_A,
          body = JsonBody (JObj [(''channel'', JStr ''C1''), (''count'', JNum 50)]) \<rparr>]
   \<and> fst ` set (body_fields (JsonBody (JObj [(''channel'', JStr ''C1''), (''count'', JNum 50)])))
       \<subseteq> {''channel'', ''user'', ''types'', ''ts_from'', ''ts_to'', ''count''}
   \<and> listFiles both_tokens (replies_with (files_page 1 3)) (Some (second_page_of_files\<lparr>cursor := None\<rparr>))
       = listFiles both_tokens (replies_with (files_page 1 3)) (Some second_page_of_files)
   \<and> fst (listStars both_tokens (replies_with (items_page 1 3)) (Some second_page))
     = [\<lparr> http_request.url = ''https://slack.com/api/stars.list'', http_method = ''POST'',
          headers = bearer_A,
          body = JsonBody (JObj [(''count'', JNum 50)]) \<rparr>]
   \<and> fst ` set (body_fields (JsonBody (JObj [(''count'', JNum 50)]))) \<subseteq> {''count''}
   \<and> listStars both_tokens (replies_with (items_page 1 3)) (Some (second_page\<lparr>cursor := None\<rparr>))
       = listStars both_tokens (replies_with (items_page 1 3)) (Some second_page)
   \<and> fst (listUserReactions both_tokens (replies_with (items_page 1 3)) (Some ''U1'') (Some second_page))
     = [\<lparr> http_request.url = ''https://slack.com/api/reactions.list'', http_method = ''POST'',
          headers = bearer_A,
          body = JsonBody (JObj [(''user'', JStr ''U1''), (''count'', JNum 50), (''full'', JBool True)]) \<rparr>]
   \<and> fst ` set (body_fields (JsonBody (JObj [(''user'', JStr ''U1''), (''count'', JNum 50), (''full'', JBool True)])))
       \<subseteq> {''user'', ''count'', ''full''}
   \<and> listUserReactions both_tokens (replies_with (items_page 1 3)) (Some ''U1'') (Some (second_page\<lparr>cursor := None\<rparr>))
       = listUserReactions both_tokens (replies_with (items_page 1 3)) (Some ''U1'') (Some second_page)"
proof -
  have f: "fst (listFiles both_tokens (replies_with (files_page 1 3)) (Some second_page_of_files))
     = [\<lparr> http_request.url = ''https://slack.com/api/files.list'', http_method = ''POST'',
          headers = bearer_A,
          body = JsonBody (JObj [(''channel'', JStr ''C1''), (''count'', JNum 50)]) \<rparr>]"
    by (simp add: listFiles_def fst_await_resolve request_trace getAuthHeaders_both_tokens
          api_call_def second_page_of_files_def opt_str_def opt_num_def limit_or_def)
  have s: "fst (listStars both_tokens (replies_with (items_page 1 3)) (Some second_page))
     = [\<lparr> http_request.url = ''https://slack.com/api/stars.list'', http_method = ''POST'',
          headers = bearer_A,
          body = JsonBody (JObj [(''count'', JNum 50)]) \<rparr>]"
    by (simp add: listStars_def fst_await_resolve request_trace getAuthHeaders_both_tokens
          api_call_def second_page_def limit_or_def)
  have r: "fst (listUserReactions both_tokens (replies_with (items_page 1 3)) (Some ''U1'') (Some second_page))
     = [\<lparr> http_request.url = ''https://slack.com/api/reactions.list'', http_method = ''POST'',
          headers = bearer_A,
          body = JsonBody (JObj [(''user'', JStr ''U1''), (''count'', JNum 50), (''full'', JBool True)]) \<rparr>]"
    by (simp add: listUserReactions_def fst_await_resolve request_trace getAuthHeaders_both_tokens
          api_call_def second_page_def opt_str_def limit_or_def)
  show ?thesis
    using page_counted_lists_ignore_cursor
      [where c = both_tokens and nF = "replies_with (files_page 1 3)"
         and nR = "replies_with (items_page 1 3)" and pF = second_page_of_files
         and pP = second_page and x = None and u = "Some ''U1''"
         and oF = "Some second_page_of_files" and oP = "Some second_page"]
    by (simp add: f s r)
qed

section \<open>More pages and the next cursor\<close>

lemma truthy_str_iff: "truthy_str v \<longleftrightarrow> v \<noteq> None \<and> v \<noteq> Some []"
  by (cases v) (simp_all add: truthy_str_def)

lemma cursor_style_page:
  "r = createPaginatedResponse its (Some (truthy_str cur)) cur \<Longrightarrow>
     hasMore r = (nextCursor r \<noteq> None \<and> nextCursor r \<noteq> Some [])"
  by (simp add: createPaginatedResponse_def truthy_str_iff)

lemma page_counted_page:
  "r = createPaginatedResponse its h None \<Longrightarrow> nextCursor r = None"
  by (simp add: createPaginatedResponse_def)

text \<open>
  C4, as the code has it. \<open>createPaginatedResponse\<close> sets \<open>hasMore\<close> from the flag it is given
  (false without one) and copies \<open>nextCursor\<close> as it is, with no check between the two.
  For the cursor-style list operations \<open>hasMore\<close> is true exactly when \<open>nextCursor\<close> is a
  non-empty string, so with \<open>hasMore\<close> false the cursor is absent or the empty string.
  For the page-counted operations \<open>nextCursor\<close> is always absent. For conversation
  history and replies \<open>hasMore\<close> is the remote \<open>has_more\<close> flag and \<open>nextCursor\<close> the
  remote \<open>next_cursor\<close>, each copied independently of the other.

  The last eight conjuncts give the page of each of the other list operations in terms of
  the remote answer \<open>d\<close> (any status but 429, \<open>ok\<close> true): for the five cursor-style
  operations \<open>nextCursor\<close> is the remote \<open>response_metadata.next_cursor\<close> and \<open>hasMore\<close>
  holds exactly when that cursor is a non-empty string; for the three page-counted
  operations \<open>hasMore\<close> is \<open>paging.page < paging.pages\<close> and \<open>nextCursor\<close> is absent.
\<close>

theorem hasMore_and_nextCursor_by_endpoint:
  "hasMore (createPaginatedResponse its h cur) = (h = Some True)
   \<and> nextCursor (createPaginatedResponse its h cur) = cur
   \<and> (snd (listConversations c nC pC) = Inr rConv \<longrightarrow>
        hasMore rConv = (nextCursor rConv \<noteq> None \<and> nextCursor rConv \<noteq> Some []))
   \<and> (snd (getConversationMembers c nI ch pP) = Inr rMemb \<longrightarrow>
        hasMore rMemb = (nextCursor rMemb \<noteq> None \<and> nextCursor rMemb \<noteq> Some []))
   \<and> (snd (listScheduledMessages c nS och pP) = Inr rSched \<longrightarrow>
        hasMore rSched = (nextCursor rSched \<noteq> None \<and> nextCursor rSched \<noteq> Some []))
   \<and> (snd (listUsers c nU pP) = Inr rUsers \<longrightarrow>
        hasMore rUsers = (nextCursor rUsers \<noteq> None \<and> nextCursor rUsers \<noteq> Some []))
   \<and> (snd (getUserConversations c nC ou pC) = Inr rUConv \<longrightarrow>
        hasMore rUConv = (nextCursor rUConv \<noteq> None \<and> nextCursor rUConv \<noteq> Some []))
   \<and> (snd (listFiles c nF pF) = Inr rFiles \<longrightarrow> nextCursor rFiles = None)
   \<and> (snd (listUserReactions c nR ou pP) = Inr rReact \<longrightarrow> nextCursor rReact = None)
   \<and> (snd (listStars c nR pP) = Inr rStars \<longrightarrow> nextCursor rStars = None)
   \<and> (getAuthHeaders c = Inr hs \<and> st \<noteq> 429 \<and> ok d \<longrightarrow>
        snd (getConversationHistory c (answer st hdrs (Inr d)) ch pH)
          = Inr \<lparr> PaginatedResponse.items = MessagesResponse.messages d,
                  PaginatedResponse.count = length (MessagesResponse.messages d),
                  hasMore = has_more d,
                  nextCursor = Option.bind (response_metadata d) next_cursor \<rparr>)
   \<and> (getAuthHeaders c = Inr hs \<and> st \<noteq> 429 \<and> ok d \<longrightarrow>
        snd (getConversationReplies c (answer st hdrs (Inr d)) ch tts pP)
          = Inr \<lparr> PaginatedResponse.items = MessagesResponse.messages d,
                  PaginatedResponse.count = length (MessagesResponse.messages d),
                  hasMore = has_more d,
                  nextCursor = Option.bind (response_metadata d) next_cursor \<rparr>)
   \<and> (getAuthHeaders c = Inr hs \<and> st \<noteq> 429 \<and> ok dC \<longrightarrow>
        snd (listConversations c (answer st hdrs (Inr dC)) pC)
          = Inr \<lparr> PaginatedResponse.items = ChannelsResponse.channels dC,
                  PaginatedResponse.count = length (ChannelsResponse.channels dC),
                  hasMore = (Option.bind (response_metadata dC) next_cursor \<noteq> None
                             \<and> Option.bind (response_metadata dC) next_cursor \<noteq> Some []),
                  nextCursor = Option.bind (response_metadata dC) next_cursor \<rparr>)
   \<and> (getAuthHeaders c = Inr hs \<and> st \<noteq> 429 \<and> ok dI \<longrightarrow>
        snd (getConversationMembers c (answer st hdrs (Inr dI)) ch pP)
          = Inr \<lparr> PaginatedResponse.items = members dI,
                  PaginatedResponse.count = length (members dI),
                  hasMore = (Option.bind (response_metadata dI) next_cursor \<noteq> None
                             \<and> Option.bind (response_metadata dI) next_cursor \<noteq> Some []),
                  nextCursor = Option.bind (response_metadata dI) next_cursor \<rparr>)
   \<and> (getAuthHeaders c = Inr hs \<and> st \<noteq> 429 \<and> ok dS \<longrightarrow>
        snd (listScheduledMessages c (answer st hdrs (Inr dS)) och pP)
          = Inr \<lparr> PaginatedResponse.items = scheduled_messages dS,
                  PaginatedResponse.count = length (scheduled_messages dS),
                  hasMore = (Option.bind (response_metadata dS) next_cursor \<noteq> None
                             \<and> Option.bind (response_metadata dS) next_cursor \<noteq> Some []),
                  nextCursor = Option.bind (response_metadata dS) next_cursor \<rparr>)
   \<and> (getAuthHeaders c = Inr hs \<and> st \<noteq> 429 \<and> ok dU \<longrightarrow>
        snd (listUsers c (answer st hdrs (Inr dU)) pP)
          = Inr \<lparr> PaginatedResponse.items = members dU,
                  PaginatedResponse.count = length (members dU),
                  hasMore = (Option.bind (response_metadata dU) next_cursor \<noteq> None
                             \<and> Option.bind (response_metadata dU) next_cursor \<noteq> Some []),
                  nextCursor = Option.bind (response_metadata dU) next_cursor \<rparr>)
   \<and> (getAuthHeaders c = Inr hs \<and> st \<noteq> 429 \<and> ok dC \<longrightarrow>
        snd (getUserConversations c (answer st hdrs (Inr dC)) ou pC)
          = Inr \<lparr> PaginatedResponse.items = ChannelsResponse.channels dC,
                  PaginatedResponse.count = length (ChannelsResponse.channels dC),
                  hasMore = (Option.bind (response_metadata dC) next_cursor \<noteq> None
                             \<and> Option.bind (response_metadata dC) next_cursor \<noteq> Some []),
                  nextCursor = Option.bind (response_metadata dC) next_cursor \<rparr>)
   \<and> (getAuthHeaders c = Inr hs \<and> st \<noteq> 429 \<and> ok dF \<longrightarrow>
        snd (listFiles c (answer st hdrs (Inr dF)) pF)
          = Inr \<lparr> PaginatedResponse.items = FilesResponse.files dF,
                  PaginatedResponse.count = length (FilesResponse.files dF),
                  hasMore = (page (FilesResponse.paging dF) < pages (FilesResponse.paging dF)),
                  nextCursor = None \<rparr>)
   \<and> (getAuthHeaders c = Inr hs \<and> st \<noteq> 429 \<and> ok dR \<longrightarrow>
        snd (listUserReactions c (answer st hdrs (Inr dR)) ou pP)
          = Inr \<lparr> PaginatedResponse.items = ItemsResponse.items dR,
                  PaginatedResponse.count = length (ItemsResponse.items dR),
                  hasMore = (page (ItemsResponse.paging dR) < pages (ItemsResponse.paging dR)),
                  nextCursor = None \<rparr>)
   \<and> (getAuthHeaders c = Inr hs \<and> st \<noteq> 429 \<and> ok dR \<longrightarrow>
        snd (listStars c (answer st hdrs (Inr dR)) pP)
          = Inr \<lparr> PaginatedResponse.items = ItemsResponse.items dR,
                  PaginatedResponse.count = length (ItemsResponse.items dR),
                  hasMore = (page (ItemsResponse.paging dR) < pages (ItemsResponse.paging dR)),
                  nextCursor = None \<rparr>)"
proof (intro conjI impI)
  show "hasMore (createPaginatedResponse its h cur) = (h = Some True)"
    by (cases h) (simp_all add: createPaginatedResponse_def)
  show "nextCursor (createPaginatedResponse its h cur) = cur"
    by (simp add: createPaginatedResponse_def)
next
  assume "snd (listConversations c nC pC) = Inr rConv"
  then show "hasMore rConv = (nextCursor rConv \<noteq> None \<and> nextCursor rConv \<noteq> Some [])"
    by (blast dest: listConversations_page cursor_style_page)
next
  assume "snd (getConversationMembers c nI ch pP) = Inr rMemb"
  then show "hasMore rMemb = (nextCursor rMemb \<noteq> None \<and> nextCursor rMemb \<noteq> Some [])"
    by (blast dest: getConversationMembers_page cursor_style_page)
next
  assume "snd (listScheduledMessages c nS och pP) = Inr rSched"
  then show "hasMore rSched = (nextCursor rSched \<noteq> None \<and> nextCursor rSched \<noteq> Some [])"
    by (blast dest: listScheduledMessages_page cursor_style_page)
next
  assume "snd (listUsers c nU pP) = Inr rUsers"
  then show "hasMore rUsers = (nextCursor rUsers \<noteq> None \<and> nextCursor rUsers \<noteq> Some [])"
    by (blast dest: listUsers_page cursor_style_page)
next
  assume "snd (getUserConversations c nC ou pC) = Inr rUConv"
  then show "hasMore rUConv = (nextCursor rUConv \<noteq> None \<and> nextCursor rUConv \<noteq> Some [])"
    by (blast dest: getUserConversations_page cursor_style_page)
next
  assume "snd (listFiles c nF pF) = Inr rFiles"
  then obtain result :: FilesResponse where "rFiles = createPaginatedResponse (FilesResponse.files result)
        (Some (page (FilesResponse.paging result) < pages (FilesResponse.paging result))) None"
    by (blast dest: listFiles_page)
  then show "nextCursor rFiles = None"
    by (rule page_counted_page)
next
  assume "snd (listUserReactions c nR ou pP) = Inr rReact"
  then obtain result :: ItemsResponse where "rReact = createPaginatedResponse (ItemsResponse.items result)
        (Some (page (ItemsResponse.paging result) < pages (ItemsResponse.paging result))) None"
    by (blast dest: listUserReactions_page)
  then show "nextCursor rReact = None"
    by (rule page_counted_page)
next
  assume "snd (listStars c nR pP) = Inr rStars"
  then obtain result :: ItemsResponse where "rStars = createPaginatedResponse (ItemsResponse.items result)
        (Some (page (ItemsResponse.paging result) < pages (ItemsResponse.paging result))) None"
    by (blast dest: listStars_page)
  then show "nextCursor rStars = None"
    by (rule page_counted_page)
next
  assume "getAuthHeaders c = Inr hs \<and> st \<noteq> 429 \<and> ok d"
  then show "snd (getConversationHistory c (answer st hdrs (Inr d)) ch pH)
          = Inr \<lparr> PaginatedResponse.items = MessagesResponse.messages d,
                  PaginatedResponse.count = length (MessagesResponse.messages d),
                  hasMore = has_more d,
                  nextCursor = Option.bind (response_metadata d) next_cursor \<rparr>"
    by (simp add: getConversationHistory_def request_answer await_def resolve_def
          createPaginatedResponse_def next_cursor_of_def)
next
  assume "getAuthHeaders c = Inr hs \<and> st \<noteq> 429 \<and> ok d"
  then show "snd (getConversationReplies c (answer st hdrs (Inr d)) ch tts pP)
          = Inr \<lparr> PaginatedResponse.items = MessagesResponse.messages d,
                  PaginatedResponse.count = length (MessagesResponse.messages d),
                  hasMore = has_more d,
                  nextCursor = Option.bind (response_metadata d) next_cursor \<rparr>"
    by (simp add: getConversationReplies_def request_answer await_def resolve_def
          createPaginatedResponse_def next_cursor_of_def)
next
  assume "getAuthHeaders c = Inr hs \<and> st \<noteq> 429 \<and> ok dC"
  then show "snd (listConversations c (answer st hdrs (Inr dC)) pC)
          = Inr \<lparr> PaginatedResponse.items = ChannelsResponse.channels dC,
                  PaginatedResponse.count = length (ChannelsResponse.channels dC),
                  hasMore = (Option.bind (response_metadata dC) next_cursor \<noteq> None
                             \<and> Option.bind (response_metadata dC) next_cursor \<noteq> Some []),
                  nextCursor = Option.bind (response_metadata dC) next_cursor \<rparr>"
    by (simp add: listConversations_def request_answer await_def resolve_def
          createPaginatedResponse_def next_cursor_of_def truthy_str_iff)
next
  assume "getAuthHeaders c = Inr hs \<and> st \<noteq> 429 \<and> ok dI"
  then show "snd (getConversationMembers c (answer st hdrs (Inr dI)) ch pP)
          = Inr \<lparr> PaginatedResponse.items = members dI,
                  PaginatedResponse.count = length (members dI),
                  hasMore = (Option.bind (response_metadata dI) next_cursor \<noteq> None
                             \<and> Option.bind (response_metadata dI) next_cursor \<noteq> Some []),
                  nextCursor = Option.bind (response_metadata dI) next_cursor \<rparr>"
    by (simp add: getConversationMembers_def request_answer await_def resolve_def
          createPaginatedResponse_def next_cursor_of_def truthy_str_iff)
next
  assume "getAuthHeaders c = Inr hs \<and> st \<noteq> 429 \<and> ok dS"
  then show "snd (listScheduledMessages c (answer st hdrs (Inr dS)) och pP)
          = Inr \<lparr> PaginatedResponse.items = scheduled_messages dS,
                  PaginatedResponse.count = length (scheduled_messages dS),
                  hasMore = (Option.bind (response_metadata dS) next_cursor \<noteq> None
                             \<and> Option.bind (response_metadata dS) next_cursor \<noteq> Some []),
                  nextCursor = Option.bind (response_metadata dS) next_cursor \<rparr>"
    by (simp add: listScheduledMessages_def request_answer await_def resolve_def
          createPaginatedResponse_def next_cursor_of_def truthy_str_iff)
next
  assume "getAuthHeaders c = Inr hs \<and> st \<noteq> 429 \<and> ok dU"
  then show "snd (listUsers c (answer st hdrs (Inr dU)) pP)
          = Inr \<lparr> PaginatedResponse.items = members dU,
                  PaginatedResponse.count = length (members dU),
                  hasMore = (Option.bind (response_metadata dU) next_cursor \<noteq> None
                             \<and> Option.bind (response_metadata dU) next_cursor \<noteq> Some []),
                  nextCursor = Option.bind (response_metadata dU) next_cursor \<rparr>"
    by (simp add: listUsers_def request_answer await_def resolve_def
          createPaginatedResponse_def next_cursor_of_def truthy_str_iff)
next
  assume "getAuthHeaders c = Inr hs \<and> st \<noteq> 429 \<and> ok dC"
  then show "snd (getUserConversations c (answer st hdrs (Inr dC)) ou pC)
          = Inr \<lparr> PaginatedResponse.items = ChannelsResponse.channels dC,
                  PaginatedResponse.count = length (ChannelsResponse.channels dC),
                  hasMore = (Option.bind (response_metadata dC) next_cursor \<noteq> None
                             \<and> Option.bind (response_metadata dC) next_cursor \<noteq> Some []),
                  nextCursor = Option.bind (response_metadata dC) next_cursor \<rparr>"
    by (simp add: getUserConversations_def request_answer await_def resolve_def
          createPaginatedResponse_def next_cursor_of_def truthy_str_iff)
next
  assume "getAuthHeaders c = Inr hs \<and> st \<noteq> 429 \<and> ok dF"
  then show "snd (listFiles c (answer st hdrs (Inr dF)) pF)
          = Inr \<lparr> PaginatedResponse.items = FilesResponse.files dF,
                  PaginatedResponse.count = length (FilesResponse.files dF),
                  hasMore = (page (FilesResponse.paging dF) < pages (FilesResponse.paging dF)),
                  nextCursor = None \<rparr>"
    by (simp add: listFiles_def request_answer await_def resolve_def
          createPaginatedResponse_def)
next
  assume "getAuthHeaders c = Inr hs \<and> st \<noteq> 429 \<and> ok dR"
  then show "snd (listUserReactions c (answer st hdrs (Inr dR)) ou pP)
          = Inr \<lparr> PaginatedResponse.items = ItemsResponse.items dR,
                  PaginatedResponse.count = length (ItemsResponse.items dR),
                  hasMore = (page (ItemsResponse.paging dR) < pages (ItemsResponse.paging dR)),
                  nextCursor = None \<rparr>"
    by (simp add: listUserReactions_def request_answer await_def resolve_def
          createPaginatedResponse_def)
next
  assume "getAuthHeaders c = Inr hs \<and> st \<noteq> 429 \<and> ok dR"
  then show "snd (listStars c (answer st hdrs (Inr dR)) pP)
          = Inr \<lparr> PaginatedResponse.items = ItemsResponse.items dR,
                  PaginatedResponse.count = length (ItemsResponse.items dR),
                  hasMore = (page (ItemsResponse.paging dR) < pages (ItemsResponse.paging dR)),
                  nextCursor = None \<rparr>"
    by (simp add: listStars_def request_answer await_def resolve_def
          createPaginatedResponse_def)
qed

theorem hasMore_and_nextCursor_by_endpoint_witness:
  "snd (listConversations both_tokens (replies_with (channels_page (Some []))) None)
     = Inr \<lparr> PaginatedResponse.items = [JObj [(''id'', JStr ''C1'')], JObj [(''id'', JStr ''C2'')]],
             PaginatedResponse.count = 2, hasMore = False, nextCursor = Some [] \<rparr>
   \<and> snd (getConversationMembers both_tokens (replies_with (members_page [''U1''] (Some ''next''))) ''C1'' None)
     = Inr \<lparr> PaginatedResponse.items = [''U1''],
             PaginatedResponse.count = 1, hasMore = True, nextCursor = Some ''next'' \<rparr>
   \<and> snd (listScheduledMessages both_tokens (replies_with (scheduled_page None)) None None)
     = Inr \<lparr> PaginatedResponse.items = [JObj [(''id'', JStr ''Q1'')]],
             PaginatedResponse.count = 1, hasMore = False, nextCursor = None \<rparr>
   \<and> snd (listUsers both_tokens (replies_with (members_page [] (Some ''next''))) None)
     = Inr \<lparr> PaginatedResponse.items = [],
             PaginatedResponse.count = 0, hasMore = True, nextCursor = Some ''next'' \<rparr>
   \<and> snd (getUserConversations both_tokens (replies_with (channels_page (Some []))) None None)
     = Inr \<lparr> PaginatedResponse.items = [JObj [(''id'', JStr ''C1'')], JObj [(''id'', JStr ''C2'')]],
             PaginatedResponse.count = 2, hasMore = False, nextCursor = Some [] \<rparr>
   \<and> snd (listFiles both_tokens (replies_with (files_page 1 3)) None)
     = Inr \<lparr> PaginatedResponse.items = [JObj [(''id'', JStr ''F1'')]],
             PaginatedResponse.count = 1, hasMore = True, nextCursor = None \<rparr>
   \<and> snd (listUserReactions both_tokens (replies_with (items_page 1 3)) None None)
     = Inr \<lparr> PaginatedResponse.items = [JObj [(''type'', JStr ''message'')]],
             PaginatedResponse.count = 1, hasMore = True, nextCursor = None \<rparr>
   \<and> snd (listStars both_tokens (replies_with (items_page 1 3)) None)
     = Inr \<lparr> PaginatedResponse.items = [JObj [(''type'', JStr ''message'')]],
             PaginatedResponse.count = 1, hasMore = True, nextCursor = None \<rparr>
   \<and> getAuthHeaders both_tokens = Inr bearer_A \<and> (200 :: int) \<noteq> 429
   \<and> ok (messages_page False (Some ''abc''))
   \<and> snd (getConversationHistory both_tokens
            (answer 200 no_headers (Inr (messages_page False (Some ''abc'')))) ''C1'' None)
     = Inr \<lparr> PaginatedResponse.items = [JObj [(''ts'', JStr ''1700000000.000100'')]],
             PaginatedResponse.count = 1, hasMore = False, nextCursor = Some ''abc'' \<rparr>
   \<and> snd (getConversationReplies both_tokens
            (answer 200 no_headers (Inr (messages_page False (Some ''abc''))))
            ''C1'' ''1700000000.000100'' None)
     = Inr \<lparr> PaginatedResponse.items = [JObj [(''ts'', JStr ''1700000000.000100'')]],
             PaginatedResponse.count = 1, hasMore = False, nextCursor = Some ''abc'' \<rparr>
   \<and> ok (channels_page (Some ''next'')) \<and> ok (members_page [''U1'', ''U2''] (Some []))
   \<and> ok (scheduled_page (Some ''next'')) \<and> ok (members_page [JNull] None)
   \<and> ok (files_page 3 3) \<and> ok (items_page 2 3)
   \<and> snd (listConversations both_tokens
            (answer 200 no_headers (Inr (channels_page (Some ''next'')))) None)
     = Inr \<lparr> PaginatedResponse.items = [JObj [(''id'', JStr ''C1'')], JObj [(''id'', JStr ''C2'')]],
             PaginatedResponse.count = 2, hasMore = True, nextCursor = Some ''next'' \<rparr>
   \<and> snd (getConversationMembers both_tokens
            (answer 200 no_headers (Inr (members_page [''U1'', ''U2''] (Some [])))) ''C1'' None)
     = Inr \<lparr> PaginatedResponse.items = [''U1'', ''U2''],
             PaginatedResponse.count = 2, hasMore = False, nextCursor = Some [] \<rparr>
   \<and> snd (listScheduledMessages both_tokens
            (answer 200 no_headers (Inr (scheduled_page (Some ''next'')))) None None)
     = Inr \<lparr> PaginatedResponse.items = [JObj [(''id'', JStr ''Q1'')]],
             PaginatedResponse.count = 1, hasMore = True, nextCursor = Some ''next'' \<rparr>
   \<and> snd (listUsers both_tokens (answer 200 no_headers (Inr (members_page [JNull] None))) None)
     = Inr \<lparr> PaginatedResponse.items = [JNull],
             PaginatedResponse.count = 1, hasMore = False, nextCursor = None \<rparr>
   \<and> snd (getUserConversations both_tokens
            (answer 200 no_headers (Inr (channels_page (Some ''next'')))) None None)
     = Inr \<lparr> PaginatedResponse.items = [JObj [(''id'', JStr ''C1'')], JObj [(''id'', JStr ''C2'')]],
             PaginatedResponse.count = 2, hasMore = True, nextCursor = Some ''next'' \<rparr>
   \<and> snd (listFiles both_tokens (answer 200 no_headers (Inr (files_page 3 3))) None)
     = Inr \<lparr> PaginatedResponse.items = [JObj [(''id'', JStr ''F1'')]],
             PaginatedResponse.count = 1, hasMore = False, nextCursor = None \<rparr>
   \<and> snd (listUserReactions both_tokens (answer 200 no_headers (Inr (items_page 2 3))) None None)
     = Inr \<lparr> PaginatedResponse.items = [JObj [(''type'', JStr ''message'')]],
             PaginatedResponse.count = 1, hasMore = True, nextCursor = None \<rparr>
   \<and> snd (listStars both_tokens (answer 200 no_headers (Inr (items_page 2 3))) None)
     = Inr \<lparr> PaginatedResponse.items = [JObj [(''type'', JStr ''message'')]],
             PaginatedResponse.count = 1, hasMore = True, nextCursor = None \<rparr>"
proof -
  have a: "snd (listConversations both_tokens (replies_with (channels_page (Some []))) None)
     = Inr \<lparr> PaginatedResponse.items = [JObj [(''id'', JStr ''C1'')], JObj [(''id'', JStr ''C2'')]],
             PaginatedResponse.count = 2, hasMore = False, nextCursor = Some [] \<rparr>
   \<and> snd (getConversationMembers both_tokens (replies_with (members_page [''U1''] (Some ''next''))) ''C1'' None)
     = Inr \<lparr> PaginatedResponse.items = [''U1''],
             PaginatedResponse.count = 1, hasMore = True, nextCursor = Some ''next'' \<rparr>
   \<and> snd (listScheduledMessages both_tokens (replies_with (scheduled_page None)) None None)
     = Inr \<lparr> PaginatedResponse.items = [JObj [(''id'', JStr ''Q1'')]],
             PaginatedResponse.count = 1, hasMore = False, nextCursor = None \<rparr>
   \<and> snd (listUsers both_tokens (replies_with (members_page [] (Some ''next''))) None)
     = Inr \<lparr> PaginatedResponse.items = [],
             PaginatedResponse.count = 0, hasMore = True, nextCursor = Some ''next'' \<rparr>
   \<and> snd (getUserConversations both_tokens (replies_with (channels_page (Some []))) None None)
     = Inr \<lparr> PaginatedResponse.items = [JObj [(''id'', JStr ''C1'')], JObj [(''id'', JStr ''C2'')]],
             PaginatedResponse.count = 2, hasMore = False, nextCursor = Some [] \<rparr>
   \<and> snd (listFiles both_tokens (replies_with (files_page 1 3)) None)
     = Inr \<lparr> PaginatedResponse.items = [JObj [(''id'', JStr ''F1'')]],
             PaginatedResponse.count = 1, hasMore = True, nextCursor = None \<rparr>
   \<and> snd (listUserReactions both_tokens (replies_with (items_page 1 3)) None None)
     = Inr \<lparr> PaginatedResponse.items = [JObj [(''type'', JStr ''message'')]],
             PaginatedResponse.count = 1, hasMore = True, nextCursor = None \<rparr>
   \<and> snd (listStars both_tokens (replies_with (items_page 1 3)) None)
     = Inr \<lparr> PaginatedResponse.items = [JObj [(''type'', JStr ''message'')]],
             PaginatedResponse.count = 1, hasMore = True, nextCursor = None \<rparr>
   \<and> getAuthHeaders both_tokens = Inr bearer_A \<and> (200 :: int) \<noteq> 429
   \<and> ok (messages_page False (Some ''abc''))
   \<and> snd (getConversationHistory both_tokens
            (answer 200 no_headers (Inr (messages_page False (Some ''abc'')))) ''C1'' None)
     = Inr \<lparr> PaginatedResponse.items = [JObj [(''ts'', JStr ''1700000000.000100'')]],
             PaginatedResponse.count = 1, hasMore = False, nextCursor = Some ''abc'' \<rparr>
   \<and> snd (getConversationReplies both_tokens
            (answer 200 no_headers (Inr (messages_page False (Some ''abc''))))
            ''C1'' ''1700000000.000100'' None)
     = Inr \<lparr> PaginatedResponse.items = [JObj [(''ts'', JStr ''1700000000.000100'')]],
             PaginatedResponse.count = 1, hasMore = False, nextCursor = Some ''abc'' \<rparr>"
    using getAuthHeaders_both_tokens
    hasMore_and_nextCursor_by_endpoint
    [where its = "[JNull]" and h = "Some False" and cur = "Some ''abc''" and c = both_tokens
       and nC = "replies_with (channels_page (Some []))" and pC = None
       and ch = "''C1''" and pH = None and tts = "''1700000000.000100''" and pP = None
       and nI = "replies_with (members_page [''U1''] (Some ''next''))"
       and nS = "replies_with (scheduled_page None)" and och = None
       and nU = "replies_with (members_page [] (Some ''next''))" and ou = None
       and nF = "replies_with (files_page 1 3)" and pF = None
       and nR = "replies_with (items_page 1 3)"
       and hs = bearer_A and st = 200 and hdrs = no_headers
       and d = "messages_page False (Some ''abc'')"
       and dC = "channels_page (Some ''next'')"
       and dI = "members_page [''U1'', ''U2''] (Some [])"
       and dS = "scheduled_page (Some ''next'')"
       and dU = "members_page [JNull] None"
       and dF = "files_page 3 3" and dR = "items_page 2 3"
       and rConv = "\<lparr> PaginatedResponse.items = [JObj [(''id'', JStr ''C1'')], JObj [(''id'', JStr ''C2'')]],
             PaginatedResponse.count = 2, hasMore = False, nextCursor = Some [] \<rparr>"
       and rMemb = "\<lparr> PaginatedResponse.items = [''U1''],
             PaginatedResponse.count = 1, hasMore = True, nextCursor = Some ''next'' \<rparr>"
       and rSched = "\<lparr> PaginatedResponse.items = [JObj [(''id'', JStr ''Q1'')]],
             PaginatedResponse.count = 1, hasMore = False, nextCursor = None \<rparr>"
       and rUsers = "\<lparr> PaginatedResponse.items = [],
             PaginatedResponse.count = 0, hasMore = True, nextCursor = Some ''next'' \<rparr>"
       and rUConv = "\<lparr> PaginatedResponse.items = [JObj [(''id'', JStr ''C1'')], JObj [(''id'', JStr ''C2'')]],
             PaginatedResponse.count = 2, hasMore = False, nextCursor = Some [] \<rparr>"
       and rFiles = "\<lparr> PaginatedResponse.items = [JObj [(''id'', JStr ''F1'')]],
             PaginatedResponse.count = 1, hasMore = True, nextCursor = None \<rparr>"
       and rReact = "\<lparr> PaginatedResponse.items = [JObj [(''type'', JStr ''message'')]],
             PaginatedResponse.count = 1, hasMore = True, nextCursor = None \<rparr>"
       and rStars = "\<lparr> PaginatedResponse.items = [JObj [(''type'', JStr ''message'')]],
             PaginatedResponse.count = 1, hasMore = True, nextCursor = None \<rparr>"]
    by (simp add: eval_list_ops createPaginatedResponse_def truthy_str_def messages_page_def
          cursor_metadata_def)
  have b: "ok (channels_page (Some ''next'')) \<and> ok (members_page [''U1'', ''U2''] (Some []))
   \<and> ok (scheduled_page (Some ''next'')) \<and> ok (members_page [JNull] None)
   \<and> ok (files_page 3 3) \<and> ok (items_page 2 3)
   \<and> snd (listConversations both_tokens
            (answer 200 no_headers (Inr (channels_page (Some ''next'')))) None)
     = Inr \<lparr> PaginatedResponse.items = [JObj [(''id'', JStr ''C1'')], JObj [(''id'', JStr ''C2'')]],
             PaginatedResponse.count = 2, hasMore = True, nextCursor = Some ''next'' \<rparr>
   \<and> snd (getConversationMembers both_tokens
            (answer 200 no_headers (Inr (members_page [''U1'', ''U2''] (Some [])))) ''C1'' None)
     = Inr \<lparr> PaginatedResponse.items = [''U1'', ''U2''],
             PaginatedResponse.count = 2, hasMore = False, nextCursor = Some [] \<rparr>
   \<and> snd (listScheduledMessages both_tokens
            (answer 200 no_headers (Inr (scheduled_page (Some ''next'')))) None None)
     = Inr \<lparr> PaginatedResponse.items = [JObj [(''id'', JStr ''Q1'')]],
             PaginatedResponse.count = 1, hasMore = True, nextCursor = Some ''next'' \<rparr>
   \<and> snd (listUsers both_tokens (answer 200 no_headers (Inr (members_page [JNull] None))) None)
     = Inr \<lparr> PaginatedResponse.items = [JNull],
             PaginatedResponse.count = 1, hasMore = False, nextCursor = None \<rparr>
   \<and> snd (getUserConversations both_tokens
            (answer 200 no_headers (Inr (channels_page (Some ''next'')))) None None)
     = Inr \<lparr> PaginatedResponse.items = [JObj [(''id'', JStr ''C1'')], JObj [(''id'', JStr ''C2'')]],
             PaginatedResponse.count = 2, hasMore = True, nextCursor = Some ''next'' \<rparr>
   \<and> snd (listFiles both_tokens (answer 200 no_headers (Inr (files_page 3 3))) None)
     = Inr \<lparr> PaginatedResponse.items = [JObj [(''id'', JStr ''F1'')]],
             PaginatedResponse.count = 1, hasMore = False, nextCursor = None \<rparr>
   \<and> snd (listUserReactions both_tokens (answer 200 no_headers (Inr (items_page 2 3))) None None)
     = Inr \<lparr> PaginatedResponse.items = [JObj [(''type'', JStr ''message'')]],
             PaginatedResponse.count = 1, hasMore = True, nextCursor = None \<rparr>
   \<and> snd (listStars both_tokens (answer 200 no_headers (Inr (items_page 2 3))) None)
     = Inr \<lparr> PaginatedResponse.items = [JObj [(''type'', JStr ''message'')]],
             PaginatedResponse.count = 1, hasMore = True, nextCursor = None \<rparr>"
    using getAuthHeaders_both_tokens
    hasMore_and_nextCursor_by_endpoint
    [where its = "[JNull]" and h = "Some False" and cur = "Some ''abc''" and c = both_tokens
       and nC = "replies_with (channels_page (Some []))" and pC = None
       and ch = "''C1''" and pH = None and tts = "''1700000000.000100''" and pP = None
       and nI = "replies_with (members_page [''U1''] (Some ''next''))"
       and nS = "replies_with (scheduled_page None)" and och = None
       and nU = "replies_with (members_page [] (Some ''next''))" and ou = None
       and nF = "replies_with (files_page 1 3)" and pF = None
       and nR = "replies_with (items_page 1 3)"
       and hs = bearer_A and st = 200 and hdrs = no_headers
       and d = "messages_page False (Some ''abc'')"
       and dC = "channels_page (Some ''next'')"
       and dI = "members_page [''U1'', ''U2''] (Some [])"
       and dS = "scheduled_page (Some ''next'')"
       and dU = "members_page [JNull] None"
       and dF = "files_page 3 3" and dR = "items_page 2 3"
       and rConv = "\<lparr> PaginatedResponse.items = [JObj [(''id'', JStr ''C1'')], JObj [(''id'', JStr ''C2'')]],
             PaginatedResponse.count = 2, hasMore = False, nextCursor = Some [] \<rparr>"
       and rMemb = "\<lparr> PaginatedResponse.items = [''U1''],
             PaginatedResponse.count = 1, hasMore = True, nextCursor = Some ''next'' \<rparr>"
       and rSched = "\<lparr> PaginatedResponse.items = [JObj [(''id'', JStr ''Q1'')]],
             PaginatedResponse.count = 1, hasMore = False, nextCursor = None \<rparr>"
       and rUsers = "\<lparr> PaginatedResponse.items = [],
             PaginatedResponse.count = 0, hasMore = True, nextCursor = Some ''next'' \<rparr>"
       and rUConv = "\<lparr> PaginatedResponse.items = [JObj [(''id'', JStr ''C1'')], JObj [(''id'', JStr ''C2'')]],
             PaginatedResponse.count = 2, hasMore = False, nextCursor = Some [] \<rparr>"
       and rFiles = "\<lparr> PaginatedResponse.items = [JObj [(''id'', JStr ''F1'')]],
             PaginatedResponse.count = 1, hasMore = True, nextCursor = None \<rparr>"
       and rReact = "\<lparr> PaginatedResponse.items = [JObj [(''type'', JStr ''message'')]],
             PaginatedResponse.count = 1, hasMore = True, nextCursor = None \<rparr>"
       and rStars = "\<lparr> PaginatedResponse.items = [JObj [(''type'', JStr ''message'')]],
             PaginatedResponse.count = 1, hasMore = True, nextCursor = None \<rparr>"]
    by (simp add: channels_page_def members_page_def scheduled_page_def files_page_def
          items_page_def cursor_metadata_def)
  show ?thesis
    by (simp only: a b simp_thms)
qed

text \<open>
  The claim as written fails: a history answer with \<open>has_more = false\<close> and a cursor
  gives a page with \<open>hasMore\<close> false and that cursor; an empty-string cursor of a
  cursor-style endpoint is copied too; and the normalizer itself pairs \<open>hasMore = false\<close>
  with any cursor it is handed.
\<close>

theorem cursor_without_more_counterexample:
  "snd (getConversationHistory both_tokens (replies_with (messages_page False (Some ''abc''))) ''C1'' None)
     = Inr \<lparr> PaginatedResponse.items = [JObj [(''ts'', JStr ''1700000000.000100'')]],
             PaginatedResponse.count = 1, hasMore = False, nextCursor = Some ''abc'' \<rparr>
   \<and> snd (listConversations both_tokens (replies_with (channels_page (Some []))) None)
     = Inr \<lparr> PaginatedResponse.items = [JObj [(''id'', JStr ''C1'')], JObj [(''id'', JStr ''C2'')]],
             PaginatedResponse.count = 2, hasMore = False, nextCursor = Some [] \<rparr>
   \<and> createPaginatedResponse [JNull] (Some False) (Some ''abc'')
     = \<lparr> PaginatedResponse.items = [JNull], PaginatedResponse.count = 1,
         hasMore = False, nextCursor = Some ''abc'' \<rparr>"
  by (simp add: eval_list_ops createPaginatedResponse_def truthy_str_def)

section \<open>File upload\<close>

lemma uploadFile_three_steps:
  assumes "getAuthHeaders c = Inr hs"
    and "net1 (api_call hs ''files.getUploadURLExternal''
                 [(''filename'', VStr filename),
                  (''length'', VNum (Number (of_nat (length (utf8_encode content)))))])
           = Inr \<lparr> status = s1, headers_get = h1, json_body = Inr u \<rparr>"
    and "s1 \<noteq> 429" and "ok u"
    and "net2 \<lparr> http_request.url = upload_url u, http_method = ''POST'', headers = [],
                 body = TextBody content \<rparr> = Inr r2"
    and "net3 (api_call hs ''files.completeUploadExternal''
                 [(''files'', VArr [VObj [(''id'', VStr (file_id u)),
                                          (''title'', VStr (or_else title filename))]]),
                  (''channel_id'', VStr chs),
                  (''initial_comment'', opt_str ic),
                  (''thread_ts'', opt_str tts)])
           = Inr \<lparr> status = s3, headers_get = h3, json_body = Inr d \<rparr>"
    and "s3 \<noteq> 429" and "ok d"
  shows "uploadFile c net1 net2 net3 chs content filename title ic tts
           = ([api_call hs ''files.getUploadURLExternal''
                 [(''filename'', VStr filename),
                  (''length'', VNum (Number (of_nat (length (utf8_encode content)))))],
               \<lparr> http_request.url = upload_url u, http_method = ''POST'', headers = [],
                 body = TextBody content \<rparr>,
               api_call hs ''files.completeUploadExternal''
                 [(''files'', VArr [VObj [(''id'', VStr (file_id u)),
                                          (''title'', VStr (or_else title filename))]]),
                  (''channel_id'', VStr chs),
                  (''initial_comment'', opt_str ic),
                  (''thread_ts'', opt_str tts)]],
              Inr (js_index (CompleteUploadResponse.files d) 0))"
  using assms
  by (simp add: uploadFile_def Let_def request_cases await_def fetch_def resolve_def)

text \<open>
  C7. The three steps of an upload run in order and the slot is requested with the
  UTF-8 byte length of the content (10 for the ten characters \<open>0123456789\<close>). When the
  completion call answers with an empty \<open>files\<close> array the operation does not fail:
  \<open>completeResult.files[0]\<close> is \<open>undefined\<close>, and that is what it returns.
\<close>

theorem uploadFile_zero_files_returns_undefined:
  "uploadFile both_tokens (replies_with slot_reply) (replies_with ()) (replies_with (complete_reply []))
      ''C1'' ten_bytes ''a.txt'' None None None
     = ([\<lparr> http_request.url = ''https://slack.com/api/files.getUploadURLExternal'',
           http_method = ''POST'', headers = bearer_A,
           body = JsonBody (JObj [(''filename'', JStr ''a.txt''), (''length'', JNum 10)]) \<rparr>,
         \<lparr> http_request.url = ''https://files.slack.com/upload/v1/abc'',
           http_method = ''POST'', headers = [], body = TextBody ten_bytes \<rparr>,
         \<lparr> http_request.url = ''https://slack.com/api/files.completeUploadExternal'',
           http_method = ''POST'', headers = bearer_A,
           body = JsonBody (JObj [(''files'', JArr [JObj [(''id'', JStr ''F123''),
                                                         (''title'', JStr ''a.txt'')]]),
                                  (''channel_id'', JStr ''C1'')]) \<rparr>],
        Inr None)"
proof -
  have len: "length (utf8_encode ten_bytes) = 10"
    by (simp add: ten_bytes_def)
  show ?thesis
    by (simp add: uploadFile_def Let_def len request_cases getAuthHeaders_both_tokens
          replies_with_def answer_def no_headers_def await_def fetch_def resolve_def
          slot_reply_def complete_reply_def api_call_def or_else_def opt_str_def js_index_def)
qed

section \<open>Propagation of failures\<close>

lemma uploadFile_returns_only_after_all_steps:
  assumes "snd (uploadFile c net1 net2 net3 chs content filename title ic tts) = Inr f"
  shows "\<exists>u r d.
           snd (request c net1 ''files.getUploadURLExternal''
                  [(''filename'', VStr filename),
                   (''length'', VNum (Number (of_nat (length (utf8_encode content)))))]) = Inr u
         \<and> net2 \<lparr> http_request.url = upload_url u, http_method = ''POST'', headers = [],
                   body = TextBody content \<rparr> = Inr r
         \<and> snd (request c net3 ''files.completeUploadExternal''
                  [(''files'', VArr [VObj [(''id'', VStr (file_id u)),
                                           (''title'', VStr (or_else title filename))]]),
                   (''channel_id'', VStr chs),
                   (''initial_comment'', opt_str ic),
                   (''thread_ts'', opt_str tts)]) = Inr d
         \<and> f = js_index (CompleteUploadResponse.files d) 0"
proof -
  from assms obtain u where u: "snd (request c net1 ''files.getUploadURLExternal''
                  [(''filename'', VStr filename),
                   (''length'', VNum (Number (of_nat (length (utf8_encode content)))))]) = Inr u"
    and s2: "snd (await (fetch net2 \<lparr> http_request.url = upload_url u, http_method = ''POST'',
                                      headers = [], body = TextBody content \<rparr>)
             (\<lambda>_. await (request c net3 ''files.completeUploadExternal''
                  [(''files'', VArr [VObj [(''id'', VStr (file_id u)),
                                           (''title'', VStr (or_else title filename))]]),
                   (''channel_id'', VStr chs),
                   (''initial_comment'', opt_str ic),
                   (''thread_ts'', opt_str tts)])
                  (\<lambda>completeResult.
                     resolve (js_index (CompleteUploadResponse.files completeResult) 0)))) = Inr f"
    unfolding uploadFile_def Let_def by (blast dest: await_Inr)
  from await_Inr [OF s2, unfolded snd_fetch] obtain r where r: "net2 \<lparr> http_request.url = upload_url u, http_method = ''POST'',
                                      headers = [], body = TextBody content \<rparr> = Inr r"
    and s3: "snd (await (request c net3 ''files.completeUploadExternal''
                  [(''files'', VArr [VObj [(''id'', VStr (file_id u)),
                                           (''title'', VStr (or_else title filename))]]),
                   (''channel_id'', VStr chs),
                   (''initial_comment'', opt_str ic),
                   (''thread_ts'', opt_str tts)])
                  (\<lambda>completeResult.
                     resolve (js_index (CompleteUploadResponse.files completeResult) 0))) = Inr f"
    by blast
  from await_resolve_Inr [OF s3] obtain d where "snd (request c net3 ''files.completeUploadExternal''
                  [(''files'', VArr [VObj [(''id'', VStr (file_id u)),
                                           (''title'', VStr (or_else title filename))]]),
                   (''channel_id'', VStr chs),
                   (''initial_comment'', opt_str ic),
                   (''thread_ts'', opt_str tts)]) = Inr d"
    and "f = js_index (CompleteUploadResponse.files d) 0"
    by blast
  with u r show ?thesis by blast
qed

lemma testConnection_catches:
  assumes "snd (request c net ''auth.test'' []) = Inl e"
  shows "testConnection c net
           = (fst (request c net ''auth.test'' []),
              Inr \<lparr> connected = False, message = error_message e, team = None, user = None \<rparr>)"
  using assms
  by (simp add: testConnection_def await_rejected try_catch_def resolve_def)

lemma uploadFile_at_most_three_requests:
  "length (fst (uploadFile c net1 net2 net3 chs content filename title ic tts)) \<le> 3"
  unfolding uploadFile_def Let_def fst_await
  by (simp add: request_trace fetch_def resolve_def split: sum.splits)

lemma request_429_rate_limit:
  assumes "getAuthHeaders c = Inr hs" and "net (api_call hs m p) = Inr resp" and "status resp = 429"
  shows "\<exists>secs. request c net m p
           = ([api_call hs m p],
              Inl (SlackErr \<lparr> name = ''RateLimitError'', message = ''Rate limit exceeded'',
                               code = ''RATE_LIMITED'', statusCode = Some 429, retryable = True,
                               retryAfterSeconds = Some secs \<rparr>))"
  using assms by (simp add: request_cases error_ctor_defs or_else_def)

lemma relays_request:
  "\<exists>method fields. relays (request c net method fields)
                      (await (request c net m p) (\<lambda>x. resolve (f x)))"
proof (intro exI)
  show "relays (request c net m p) (await (request c net m p) (\<lambda>x. resolve (f x)))"
    by (cases "request c net m p")
       (auto simp: relays_def await_def resolve_def split: sum.splits)
qed

lemma uploadFile_first_failure:
  assumes "snd (request c net1 ''files.getUploadURLExternal''
                  [(''filename'', VStr filename),
                   (''length'', VNum (Number (of_nat (length (utf8_encode content)))))]) = Inl e"
  shows "uploadFile c net1 net2 net3 chs content filename title ic tts
          = (fst (request c net1 ''files.getUploadURLExternal''
                  [(''filename'', VStr filename),
                   (''length'', VNum (Number (of_nat (length (utf8_encode content)))))]), Inl e)"
  unfolding uploadFile_def Let_def using assms by (rule await_rejected)

lemma uploadFile_post_failure:
  assumes "snd (request c net1 ''files.getUploadURLExternal''
                  [(''filename'', VStr filename),
                   (''length'', VNum (Number (of_nat (length (utf8_encode content)))))]) = Inr u"
    and "net2 \<lparr> http_request.url = upload_url u, http_method = ''POST'', headers = [],
                   body = TextBody content \<rparr> = Inl e"
  shows "snd (uploadFile c net1 net2 net3 chs content filename title ic tts) = Inl e"
  using assms
  by (cases "request c net1 ''files.getUploadURLExternal''
                  [(''filename'', VStr filename),
                   (''length'', VNum (Number (of_nat (length (utf8_encode content)))))]")
     (simp add: uploadFile_def Let_def await_def fetch_def)

lemma uploadFile_last_failure:
  assumes "snd (request c net1 ''files.getUploadURLExternal''
                  [(''filename'', VStr filename),
                   (''length'', VNum (Number (of_nat (length (utf8_encode content)))))]) = Inr u"
    and "net2 \<lparr> http_request.url = upload_url u, http_method = ''POST'', headers = [],
                   body = TextBody content \<rparr> = Inr r"
    and "snd (request c net3 ''files.completeUploadExternal''
                  [(''files'', VArr [VObj [(''id'', VStr (file_id u)),
                                           (''title'', VStr (or_else title filename))]]),
                   (''channel_id'', VStr chs),
                   (''initial_comment'', opt_str ic),
                   (''thread_ts'', opt_str tts)]) = Inl e"
  shows "snd (uploadFile c net1 net2 net3 chs content filename title ic tts) = Inl e"
  using assms
  by (cases "request c net1 ''files.getUploadURLExternal''
                  [(''filename'', VStr filename),
                   (''length'', VNum (Number (of_nat (length (utf8_encode content)))))]";
      cases "request c net3 ''files.completeUploadExternal''
                  [(''files'', VArr [VObj [(''id'', VStr (file_id u)),
                                           (''title'', VStr (or_else title filename))]]),
                   (''channel_id'', VStr chs),
                   (''initial_comment'', opt_str ic),
                   (''thread_ts'', opt_str tts)]")
     (simp add: uploadFile_def Let_def await_def fetch_def)

text \<open>
  C8, as the code has it. The dispatcher issues at most one HTTP request per call and
  never retries. Each of its failures is thrown to its caller: missing credentials (before
  any request), a rejected \<open>fetch\<close> (the transport error itself), status 429 (a
  \<open>RateLimitError\<close>), a body that cannot be decoded (the decoding error itself), and an
  envelope with \<open>ok = false\<close> (the error \<open>mapSlackError\<close> makes of its code: a subclass of
  \<open>SlackApiError\<close> for the classified codes, the base class for any other).
  \<open>testConnection\<close> is the exception among the operations: it catches every failure and
  returns \<open>{connected: false, message}\<close>. \<open>uploadFile\<close> returns a value only when both of
  its dispatcher calls returned and its upload POST was answered, ends with the error of
  the first of its three steps that fails, and issues at most three requests. Each of the
  other sixty-eight operations relays one call of the dispatcher: it sends the request
  of that call and no other, ends with the error of the call when the call fails, and
  returns a result only when the call returned.
\<close>

theorem dispatcher_failures_surface:
  "length (fst (request c net m p)) \<le> 1
   \<and> (getAuthHeaders c = Inl e \<longrightarrow> request c net m p = ([], Inl e))
   \<and> (getAuthHeaders c = Inr hs \<and> net (api_call hs m p) = Inl e \<longrightarrow>
        request c net m p = ([api_call hs m p], Inl e))
   \<and> (getAuthHeaders c = Inr hs \<and> net (api_call hs m p) = Inr resp \<and> status resp = 429 \<longrightarrow>
        (\<exists>secs. request c net m p
           = ([api_call hs m p],
              Inl (SlackErr \<lparr> name = ''RateLimitError'', message = ''Rate limit exceeded'',
                               code = ''RATE_LIMITED'', statusCode = Some 429, retryable = True,
                               retryAfterSeconds = Some secs \<rparr>))))
   \<and> (getAuthHeaders c = Inr hs \<and> net (api_call hs m p) = Inr resp \<and> status resp \<noteq> 429
        \<and> json_body resp = Inl e \<longrightarrow>
        request c net m p = ([api_call hs m p], Inl e))
   \<and> (getAuthHeaders c = Inr hs \<and> net (api_call hs m p) = Inr resp \<and> status resp \<noteq> 429
        \<and> json_body resp = Inr d \<and> \<not> ok d \<longrightarrow>
        request c net m p
          = ([api_call hs m p],
             Inl (SlackErr (mapSlackError (or_else (error d) ''unknown_error'') (error d)))))
   \<and> (snd (request c netT ''auth.test'' []) = Inl e \<longrightarrow>
        testConnection c netT
          = (fst (request c netT ''auth.test'' []),
             Inr \<lparr> connected = False, message = error_message e, team = None, user = None \<rparr>))
   \<and> (snd (uploadFile c net1 net2 net3 chs content filename title ic tts) = Inr f \<longrightarrow>
        (\<exists>u r d.
           snd (request c net1 ''files.getUploadURLExternal''
                  [(''filename'', VStr filename),
                   (''length'', VNum (Number (of_nat (length (utf8_encode content)))))]) = Inr u
         \<and> net2 \<lparr> http_request.url = upload_url u, http_method = ''POST'', headers = [],
                   body = TextBody content \<rparr> = Inr r
         \<and> snd (request c net3 ''files.completeUploadExternal''
                  [(''files'', VArr [VObj [(''id'', VStr (file_id u)),
                                           (''title'', VStr (or_else title filename))]]),
                   (''channel_id'', VStr chs),
                   (''initial_comment'', opt_str ic),
                   (''thread_ts'', opt_str tts)]) = Inr d
         \<and> f = js_index (CompleteUploadResponse.files d) 0))
   \<and> (snd (request c net1 ''files.getUploadURLExternal''
                  [(''filename'', VStr filename),
                   (''length'', VNum (Number (of_nat (length (utf8_encode content)))))]) = Inl e \<longrightarrow>
        uploadFile c net1 net2 net3 chs content filename title ic tts
          = (fst (request c net1 ''files.getUploadURLExternal''
                  [(''filename'', VStr filename),
                   (''length'', VNum (Number (of_nat (length (utf8_encode content)))))]), Inl e))
   \<and> (snd (request c net1 ''files.getUploadURLExternal''
                  [(''filename'', VStr filename),
                   (''length'', VNum (Number (of_nat (length (utf8_encode content)))))]) = Inr u
        \<and> net2 \<lparr> http_request.url = upload_url u, http_method = ''POST'', headers = [],
                   body = TextBody content \<rparr> = Inl e \<longrightarrow>
        snd (uploadFile c net1 net2 net3 chs content filename title ic tts) = Inl e)
   \<and> (snd (request c net1 ''files.getUploadURLExternal''
                  [(''filename'', VStr filename),
                   (''length'', VNum (Number (of_nat (length (utf8_encode content)))))]) = Inr u
        \<and> net2 \<lparr> http_request.url = upload_url u, http_method = ''POST'', headers = [],
                   body = TextBody content \<rparr> = Inr r
        \<and> snd (request c net3 ''files.completeUploadExternal''
                  [(''files'', VArr [VObj [(''id'', VStr (file_id u)),
                                           (''title'', VStr (or_else title filename))]]),
                   (''channel_id'', VStr chs),
                   (''initial_comment'', opt_str ic),
                   (''thread_ts'', opt_str tts)]) = Inl e \<longrightarrow>
        snd (uploadFile c net1 net2 net3 chs content filename title ic tts) = Inl e)
   \<and> length (fst (uploadFile c net1 net2 net3 chs content filename title ic tts)) \<le> 3
   \<and> (\<forall>net' params. \<exists>method fields.
         relays (request c net' method fields)
           (listConversations c net' params))
   \<and> (\<forall>net' channelId. \<exists>method fields.
         relays (request c net' method fields)
           (getConversationInfo c net' channelId))
   \<and> (\<forall>net' channelId params. \<exists>method fields.
         relays (request c net' method fields)
           (getConversationHistory c net' channelId params))
   \<and> (\<forall>net' channelId threadTs params. \<exists>method fields.
         relays (request c net' method fields)
           (getConversationReplies c net' channelId threadTs params))
   \<and> (\<forall>net' name' isPrivate. \<exists>method fields.
         relays (request c net' method fields)
           (createConversation c net' name' isPrivate))
   \<and> (\<forall>net' channelId. \<exists>method fields.
         relays (request c net' method fields)
           (archiveConversation c net' channelId))
   \<and> (\<forall>net' channelId. \<exists>method fields.
         relays (request c net' method fields)
           (unarchiveConversation c net' channelId))
   \<and> (\<forall>net' channelId name'. \<exists>method fields.
         relays (request c net' method fields)
           (renameConversation c net' channelId name'))
   \<and> (\<forall>net' channelId topic. \<exists>method fields.
         relays (request c net' method fields)
           (setConversationTopic c net' channelId topic))
   \<and> (\<forall>net' channelId purpose. \<exists>method fields.
         relays (request c net' method fields)
           (setConversationPurpose c net' channelId purpose))
   \<and> (\<forall>net' channelId userIds. \<exists>method fields.
         relays (request c net' method fields)
           (inviteToConversation c net' channelId userIds))
   \<and> (\<forall>net' channelId userId. \<exists>method fields.
         relays (request c net' method fields)
           (kickFromConversation c net' channelId userId))
   \<and> (\<forall>net' channelId. \<exists>method fields.
         relays (request c net' method fields)
           (joinConversation c net' channelId))
   \<and> (\<forall>net' channelId. \<exists>method fields.
         relays (request c net' method fields)
           (leaveConversation c net' channelId))
   \<and> (\<forall>net' channelId params. \<exists>method fields.
         relays (request c net' method fields)
           (getConversationMembers c net' channelId params))
   \<and> (\<forall>net' params. \<exists>method fields.
         relays (request c net' method fields)
           (postMessage c net' params))
   \<and> (\<forall>net' params. \<exists>method fields.
         relays (request c net' method fields)
           (updateMessage c net' params))
   \<and> (\<forall>net' channelId ts'. \<exists>method fields.
         relays (request c net' method fields)
           (deleteMessage c net' channelId ts'))
   \<and> (\<forall>net' now params. \<exists>method fields.
         relays (request c net' method fields)
           (scheduleMessage c net' now params))
   \<and> (\<forall>net' channelId scheduledMessageId. \<exists>method fields.
         relays (request c net' method fields)
           (deleteScheduledMessage c net' channelId scheduledMessageId))
   \<and> (\<forall>net' channelId params. \<exists>method fields.
         relays (request c net' method fields)
           (listScheduledMessages c net' channelId params))
   \<and> (\<forall>net' channelId messageTs. \<exists>method fields.
         relays (request c net' method fields)
           (getPermalink c net' channelId messageTs))
   \<and> (\<forall>net' params. \<exists>method fields.
         relays (request c net' method fields)
           (listUsers c net' params))
   \<and> (\<forall>net' userId. \<exists>method fields.
         relays (request c net' method fields)
           (getUserInfo c net' userId))
   \<and> (\<forall>net' email. \<exists>method fields.
         relays (request c net' method fields)
           (getUserByEmail c net' email))
   \<and> (\<forall>net' userId. \<exists>method fields.
         relays (request c net' method fields)
           (getUserPresence c net' userId))
   \<and> (\<forall>net' presence'. \<exists>method fields.
         relays (request c net' method fields)
           (setUserPresence c net' presence'))
   \<and> (\<forall>net' userId params. \<exists>method fields.
         relays (request c net' method fields)
           (getUserConversations c net' userId params))
   \<and> (\<forall>net' params. \<exists>method fields.
         relays (request c net' method fields)
           (listFiles c net' params))
   \<and> (\<forall>net' fileId. \<exists>method fields.
         relays (request c net' method fields)
           (getFileInfo c net' fileId))
   \<and> (\<forall>net' fileId. \<exists>method fields.
         relays (request c net' method fields)
           (deleteFile c net' fileId))
   \<and> (\<forall>net' channelId timestamp name'. \<exists>method fields.
         relays (request c net' method fields)
           (addReaction c net' channelId timestamp name'))
   \<and> (\<forall>net' channelId timestamp name'. \<exists>method fields.
         relays (request c net' method fields)
           (removeReaction c net' channelId timestamp name'))
   \<and> (\<forall>net' channelId timestamp. \<exists>method fields.
         relays (request c net' method fields)
           (getReactions c net' channelId timestamp))
   \<and> (\<forall>net' userId params. \<exists>method fields.
         relays (request c net' method fields)
           (listUserReactions c net' userId params))
   \<and> (\<forall>net' params. \<exists>method fields.
         relays (request c net' method fields)
           (searchMessages c net' params))
   \<and> (\<forall>net' params. \<exists>method fields.
         relays (request c net' method fields)
           (searchFiles c net' params))
   \<and> (\<forall>net' params. \<exists>method fields.
         relays (request c net' method fields)
           (searchAll c net' params))
   \<and> (\<forall>net' channelId timestamp. \<exists>method fields.
         relays (request c net' method fields)
           (addPin c net' channelId timestamp))
   \<and> (\<forall>net' channelId timestamp. \<exists>method fields.
         relays (request c net' method fields)
           (removePin c net' channelId timestamp))
   \<and> (\<forall>net' channelId. \<exists>method fields.
         relays (request c net' method fields)
           (listPins c net' channelId))
   \<and> (\<forall>net' channelId timestamp fileId. \<exists>method fields.
         relays (request c net' method fields)
           (addStar c net' channelId timestamp fileId))
   \<and> (\<forall>net' channelId timestamp fileId. \<exists>method fields.
         relays (request c net' method fields)
           (removeStar c net' channelId timestamp fileId))
   \<and> (\<forall>net' params. \<exists>method fields.
         relays (request c net' method fields)
           (listStars c net' params))
   \<and> (\<forall>net' text0 time userId. \<exists>method fields.
         relays (request c net' method fields)
           (addReminder c net' text0 time userId))
   \<and> (\<forall>net' reminderId. \<exists>method fields.
         relays (request c net' method fields)
           (completeReminder c net' reminderId))
   \<and> (\<forall>net' reminderId. \<exists>method fields.
         relays (request c net' method fields)
           (deleteReminder c net' reminderId))
   \<and> (\<forall>net' reminderId. \<exists>method fields.
         relays (request c net' method fields)
           (getReminder c net' reminderId))
   \<and> (\<forall>net'. \<exists>method fields.
         relays (request c net' method fields)
           (listReminders c net'))
   \<and> (\<forall>net' channelId title' type' link emoji'. \<exists>method fields.
         relays (request c net' method fields)
           (addBookmark c net' channelId title' type' link emoji'))
   \<and> (\<forall>net' channelId bookmarkId title' link emoji'. \<exists>method fields.
         relays (request c net' method fields)
           (editBookmark c net' channelId bookmarkId title' link emoji'))
   \<and> (\<forall>net' channelId bookmarkId. \<exists>method fields.
         relays (request c net' method fields)
           (removeBookmark c net' channelId bookmarkId))
   \<and> (\<forall>net' channelId. \<exists>method fields.
         relays (request c net' method fields)
           (listBookmarks c net' channelId))
   \<and> (\<forall>net' includeUsers includeDisabled. \<exists>method fields.
         relays (request c net' method fields)
           (listUserGroups c net' includeUsers includeDisabled))
   \<and> (\<forall>net' name' handle description channels'. \<exists>method fields.
         relays (request c net' method fields)
           (createUserGroup c net' name' handle description channels'))
   \<and> (\<forall>net' userGroupId name' handle description channels'. \<exists>method fields.
         relays (request c net' method fields)
           (updateUserGroup c net' userGroupId name' handle description channels'))
   \<and> (\<forall>net' userGroupId. \<exists>method fields.
         relays (request c net' method fields)
           (disableUserGroup c net' userGroupId))
   \<and> (\<forall>net' userGroupId. \<exists>method fields.
         relays (request c net' method fields)
           (enableUserGroup c net' userGroupId))
   \<and> (\<forall>net' userGroupId. \<exists>method fields.
         relays (request c net' method fields)
           (getUserGroupMembers c net' userGroupId))
   \<and> (\<forall>net' userGroupId userIds. \<exists>method fields.
         relays (request c net' method fields)
           (updateUserGroupMembers c net' userGroupId userIds))
   \<and> (\<forall>net'. \<exists>method fields.
         relays (request c net' method fields)
           (getTeamInfo c net'))
   \<and> (\<forall>net' userId. \<exists>method fields.
         relays (request c net' method fields)
           (getBillableInfo c net' userId))
   \<and> (\<forall>net' userId. \<exists>method fields.
         relays (request c net' method fields)
           (getDndInfo c net' userId))
   \<and> (\<forall>net' numMinutes. \<exists>method fields.
         relays (request c net' method fields)
           (setDndSnooze c net' numMinutes))
   \<and> (\<forall>net'. \<exists>method fields.
         relays (request c net' method fields)
           (endDndSnooze c net'))
   \<and> (\<forall>net' numMinutes. \<exists>method fields.
         relays (request c net' method fields)
           (setDnd c net' numMinutes))
   \<and> (\<forall>net'. \<exists>method fields.
         relays (request c net' method fields)
           (endDnd c net'))
   \<and> (\<forall>net'. \<exists>method fields.
         relays (request c net' method fields)
           (listEmoji c net'))"
proof -
  have c1: "length (fst (request c net m p)) \<le> 1"
    by (cases "getAuthHeaders c") (simp_all add: request_trace)
  have c2: "getAuthHeaders c = Inl e \<longrightarrow> request c net m p = ([], Inl e)"
    by (simp add: request_cases)
  have c3: "getAuthHeaders c = Inr hs \<and> net (api_call hs m p) = Inl e \<longrightarrow>
        request c net m p = ([api_call hs m p], Inl e)"
    by (simp add: request_cases)
  have c4: "getAuthHeaders c = Inr hs \<and> net (api_call hs m p) = Inr resp \<and> status resp = 429 \<longrightarrow>
        (\<exists>secs. request c net m p
           = ([api_call hs m p],
              Inl (SlackErr \<lparr> name = ''RateLimitError'', message = ''Rate limit exceeded'',
                               code = ''RATE_LIMITED'', statusCode = Some 429, retryable = True,
                               retryAfterSeconds = Some secs \<rparr>)))"
    using request_429_rate_limit by blast
  have c5: "getAuthHeaders c = Inr hs \<and> net (api_call hs m p) = Inr resp \<and> status resp \<noteq> 429
        \<and> json_body resp = Inl e \<longrightarrow>
        request c net m p = ([api_call hs m p], Inl e)"
    by (simp add: request_cases)
  have c6: "getAuthHeaders c = Inr hs \<and> net (api_call hs m p) = Inr resp \<and> status resp \<noteq> 429
        \<and> json_body resp = Inr d \<and> \<not> ok d \<longrightarrow>
        request c net m p
          = ([api_call hs m p],
             Inl (SlackErr (mapSlackError (or_else (error d) ''unknown_error'') (error d))))"
    by (simp add: request_cases)
  have c7: "snd (request c netT ''auth.test'' []) = Inl e \<longrightarrow>
        testConnection c netT
          = (fst (request c netT ''auth.test'' []),
             Inr \<lparr> connected = False, message = error_message e, team = None, user = None \<rparr>)"
    using testConnection_catches by blast
  have c8: "snd (uploadFile c net1 net2 net3 chs content filename title ic tts) = Inr f \<longrightarrow>
        (\<exists>u r d.
           snd (request c net1 ''files.getUploadURLExternal''
                  [(''filename'', VStr filename),
                   (''length'', VNum (Number (of_nat (length (utf8_encode content)))))]) = Inr u
         \<and> net2 \<lparr> http_request.url = upload_url u, http_method = ''POST'', headers = [],
                   body = TextBody content \<rparr> = Inr r
         \<and> snd (request c net3 ''files.completeUploadExternal''
                  [(''files'', VArr [VObj [(''id'', VStr (file_id u)),
                                           (''title'', VStr (or_else title filename))]]),
                   (''channel_id'', VStr chs),
                   (''initial_comment'', opt_str ic),
                   (''thread_ts'', opt_str tts)]) = Inr d
         \<and> f = js_index (CompleteUploadResponse.files d) 0)"
    using uploadFile_returns_only_after_all_steps by blast
  have c9: "snd (request c net1 ''files.getUploadURLExternal''
                  [(''filename'', VStr filename),
                   (''length'', VNum (Number (of_nat (length (utf8_encode content)))))]) = Inl e \<longrightarrow>
        uploadFile c net1 net2 net3 chs content filename title ic tts
          = (fst (request c net1 ''files.getUploadURLExternal''
                  [(''filename'', VStr filename),
                   (''length'', VNum (Number (of_nat (length (utf8_encode content)))))]), Inl e)"
    using uploadFile_first_failure by blast
  have c10: "snd (request c net1 ''files.getUploadURLExternal''
                  [(''filename'', VStr filename),
                   (''length'', VNum (Number (of_nat (length (utf8_encode content)))))]) = Inr u
        \<and> net2 \<lparr> http_request.url = upload_url u, http_method = ''POST'', headers = [],
                   body = TextBody content \<rparr> = Inl e \<longrightarrow>
        snd (uploadFile c net1 net2 net3 chs content filename title ic tts) = Inl e"
    using uploadFile_post_failure by blast
  have c11: "snd (request c net1 ''files.getUploadURLExternal''
                  [(''filename'', VStr filename),
                   (''length'', VNum (Number (of_nat (length (utf8_encode content)))))]) = Inr u
        \<and> net2 \<lparr> http_request.url = upload_url u, http_method = ''POST'', headers = [],
                   body = TextBody content \<rparr> = Inr r
        \<and> snd (request c net3 ''files.completeUploadExternal''
                  [(''files'', VArr [VObj [(''id'', VStr (file_id u)),
                                           (''title'', VStr (or_else title filename))]]),
                   (''channel_id'', VStr chs),
                   (''initial_comment'', opt_str ic),
                   (''thread_ts'', opt_str tts)]) = Inl e \<longrightarrow>
        snd (uploadFile c net1 net2 net3 chs content filename title ic tts) = Inl e"
    using uploadFile_last_failure by blast
  note c12 = uploadFile_at_most_three_requests
  show ?thesis
    unfolding operation_defs
    by (intro conjI allI c1 c2 c3 c4 c5 c6 c7 c8 c9 c10 c11 c12 relays_request)
qed

theorem dispatcher_failures_surface_witness:
  "request no_tokens (replies_with (error_envelope ''channel_not_found'')) ''conversations.info'' []
     = ([], Inl (SlackErr (new_AuthenticationError
          ''No credentials provided. Include X-Slack-Bot-Token or X-Slack-User-Token header.'')))
   \<and> request both_tokens (unreachable (JsError ''TypeError'' ''fetch failed'') :: SlackApiResponse network)
         ''conversations.info'' []
     = ([api_call bearer_A ''conversations.info'' []], Inl (JsError ''TypeError'' ''fetch failed''))
   \<and> request both_tokens (answer 429 no_headers (Inr (error_envelope ''ratelimited'')))
         ''conversations.info'' []
     = ([api_call bearer_A ''conversations.info'' []],
        Inl (SlackErr \<lparr> name = ''RateLimitError'', message = ''Rate limit exceeded'',
                         code = ''RATE_LIMITED'', statusCode = Some 429, retryable = True,
                         retryAfterSeconds = Some (Number 60) \<rparr>))
   \<and> request both_tokens
         (answer 502 no_headers (Inl (JsError ''SyntaxError'' ''Unexpected token'')) :: SlackApiResponse network)
         ''conversations.info'' []
     = ([api_call bearer_A ''conversations.info'' []], Inl (JsError ''SyntaxError'' ''Unexpected token''))
   \<and> request both_tokens (replies_with (error_envelope ''channel_not_found'')) ''conversations.info'' []
     = ([api_call bearer_A ''conversations.info'' []],
        Inl (SlackErr (mapSlackError ''channel_not_found'' (Some ''channel_not_found''))))
   \<and> testConnection both_tokens (unreachable (JsError ''TypeError'' ''fetch failed''))
     = ([api_call bearer_A ''auth.test'' []],
        Inr \<lparr> connected = False, message = ''fetch failed'', team = None, user = None \<rparr>)
   \<and> snd (uploadFile both_tokens (replies_with slot_reply) (replies_with ())
              (replies_with (complete_reply [JObj [(''id'', JStr ''F123'')]]))
              ''C1'' ten_bytes ''a.txt'' None None None)
     = Inr (Some (JObj [(''id'', JStr ''F123'')]))
   \<and> snd (request both_tokens (replies_with slot_reply) ''files.getUploadURLExternal''
              [(''filename'', VStr ''a.txt''), (''length'', VNum (Number 10))]) = Inr slot_reply
   \<and> uploadFile both_tokens
         (replies_with (slot_reply \<lparr> ok := False, error := Some ''invalid_auth'' \<rparr>))
         (replies_with ()) (replies_with (complete_reply []))
         ''C1'' ten_bytes ''a.txt'' None None None
     = ([api_call bearer_A ''files.getUploadURLExternal''
           [(''filename'', VStr ''a.txt''), (''length'', VNum (Number 10))]],
        Inl (SlackErr (mapSlackError ''invalid_auth'' (Some ''invalid_auth''))))
   \<and> snd (uploadFile both_tokens (replies_with slot_reply)
              (unreachable (JsError ''TypeError'' ''fetch failed''))
              (replies_with (complete_reply []))
              ''C1'' ten_bytes ''a.txt'' None None None)
     = Inl (JsError ''TypeError'' ''fetch failed'')
   \<and> snd (uploadFile both_tokens (replies_with slot_reply) (replies_with ())
              (replies_with (complete_reply [] \<lparr> ok := False, error := Some ''channel_not_found'' \<rparr>))
              ''C1'' ten_bytes ''a.txt'' None None None)
     = Inl (SlackErr (mapSlackError ''channel_not_found'' (Some ''channel_not_found'')))
   \<and> length (fst (uploadFile both_tokens (replies_with slot_reply) (replies_with ())
              (replies_with (complete_reply [JObj [(''id'', JStr ''F123'')]]))
              ''C1'' ten_bytes ''a.txt'' None None None)) \<le> 3
   \<and> snd (listConversations both_tokens (unreachable (JsError ''TypeError'' ''fetch failed'')) None)
     = Inl (JsError ''TypeError'' ''fetch failed'')
   \<and> snd (deleteMessage both_tokens (replies_with (error_envelope ''message_not_found''))
              ''C1'' ''1700000000.000100'')
     = Inl (SlackErr (mapSlackError ''message_not_found'' (Some ''message_not_found'')))
   \<and> snd (listEmoji no_tokens (unreachable (JsError ''TypeError'' ''fetch failed'')))
     = Inl (SlackErr (new_AuthenticationError
          ''No credentials provided. Include X-Slack-Bot-Token or X-Slack-User-Token header.''))"
proof -
  note hA = getAuthHeaders_both_tokens
  have hN: "getAuthHeaders no_tokens = Inl (SlackErr (new_AuthenticationError
        ''No credentials provided. Include X-Slack-Bot-Token or X-Slack-User-Token header.''))"
    by (simp add: getAuthHeaders_def no_tokens_def or_opt_def truthy_str_def)
  have len: "length (utf8_encode ten_bytes) = 10"
    by (simp add: ten_bytes_def)
  have slot: "request both_tokens (replies_with slot_reply) ''files.getUploadURLExternal''
                [(''filename'', VStr ''a.txt''),
                 (''length'', VNum (Number (of_nat (length (utf8_encode ten_bytes)))))]
              = ([api_call bearer_A ''files.getUploadURLExternal''
                    [(''filename'', VStr ''a.txt''), (''length'', VNum (Number 10))]],
                 Inr slot_reply)"
    by (simp add: len request_cases hA replies_with_def answer_def slot_reply_def)
  have up: "snd (uploadFile both_tokens (replies_with slot_reply) (replies_with ())
              (replies_with (complete_reply [JObj [(''id'', JStr ''F123'')]]))
              ''C1'' ten_bytes ''a.txt'' None None None)
     = Inr (Some (JObj [(''id'', JStr ''F123'')]))"
    by (simp add: uploadFile_def Let_def len request_cases hA
          replies_with_def answer_def no_headers_def await_def fetch_def resolve_def
          slot_reply_def complete_reply_def js_index_def)
  have w1: "request no_tokens (replies_with (error_envelope ''channel_not_found'')) ''conversations.info'' []
     = ([], Inl (SlackErr (new_AuthenticationError
          ''No credentials provided. Include X-Slack-Bot-Token or X-Slack-User-Token header.'')))"
    using hN dispatcher_failures_surface
      [where c = no_tokens and net = "replies_with (error_envelope ''channel_not_found'')"
         and m = "''conversations.info''" and p = "[]"
         and e = "SlackErr (new_AuthenticationError
          ''No credentials provided. Include X-Slack-Bot-Token or X-Slack-User-Token header.'')",
         THEN conjunct2, THEN conjunct1]
    by blast
  have w2: "request both_tokens (unreachable (JsError ''TypeError'' ''fetch failed'') :: SlackApiResponse network)
         ''conversations.info'' []
     = ([api_call bearer_A ''conversations.info'' []], Inl (JsError ''TypeError'' ''fetch failed''))"
    using hA dispatcher_failures_surface
      [where c = both_tokens and hs = bearer_A
         and net = "unreachable (JsError ''TypeError'' ''fetch failed'') :: SlackApiResponse network"
         and m = "''conversations.info''" and p = "[]"
         and e = "JsError ''TypeError'' ''fetch failed''",
         THEN conjunct2, THEN conjunct2, THEN conjunct1]
    by (simp add: unreachable_def)
  have w3: "request both_tokens (answer 429 no_headers (Inr (error_envelope ''ratelimited'')))
         ''conversations.info'' []
     = ([api_call bearer_A ''conversations.info'' []],
        Inl (SlackErr \<lparr> name = ''RateLimitError'', message = ''Rate limit exceeded'',
                         code = ''RATE_LIMITED'', statusCode = Some 429, retryable = True,
                         retryAfterSeconds = Some (Number 60) \<rparr>))"
    using hA dispatcher_failures_surface
      [where c = both_tokens and hs = bearer_A
         and net = "answer 429 no_headers (Inr (error_envelope ''ratelimited''))"
         and m = "''conversations.info''" and p = "[]"
         and resp = "\<lparr> status = 429, headers_get = no_headers,
                        json_body = Inr (error_envelope ''ratelimited'') \<rparr>",
         THEN conjunct2, THEN conjunct2, THEN conjunct2, THEN conjunct1]
    by (auto simp: answer_def no_headers_def request_cases error_ctor_defs or_else_def)
  have w4: "request both_tokens
         (answer 502 no_headers (Inl (JsError ''SyntaxError'' ''Unexpected token'')) :: SlackApiResponse network)
         ''conversations.info'' []
     = ([api_call bearer_A ''conversations.info'' []], Inl (JsError ''SyntaxError'' ''Unexpected token''))"
    using hA dispatcher_failures_surface
      [where c = both_tokens and hs = bearer_A
         and net = "answer 502 no_headers (Inl (JsError ''SyntaxError'' ''Unexpected token''))
                      :: SlackApiResponse network"
         and m = "''conversations.info''" and p = "[]"
         and resp = "\<lparr> status = 502, headers_get = no_headers,
                        json_body = Inl (JsError ''SyntaxError'' ''Unexpected token'') \<rparr>"
         and e = "JsError ''SyntaxError'' ''Unexpected token''",
         THEN conjunct2, THEN conjunct2, THEN conjunct2, THEN conjunct2, THEN conjunct1]
    by (simp add: answer_def)
  have w5: "request both_tokens (replies_with (error_envelope ''channel_not_found'')) ''conversations.info'' []
     = ([api_call bearer_A ''conversations.info'' []],
        Inl (SlackErr (mapSlackError ''channel_not_found'' (Some ''channel_not_found''))))"
    using hA dispatcher_failures_surface
      [where c = both_tokens and hs = bearer_A
         and net = "replies_with (error_envelope ''channel_not_found'')"
         and m = "''conversations.info''" and p = "[]"
         and resp = "\<lparr> status = 200, headers_get = no_headers,
                        json_body = Inr (error_envelope ''channel_not_found'') \<rparr>"
         and d = "error_envelope ''channel_not_found''",
         THEN conjunct2, THEN conjunct2, THEN conjunct2, THEN conjunct2, THEN conjunct2,
         THEN conjunct1]
    by (simp add: replies_with_def answer_def error_envelope_def or_else_def)
  have w6: "testConnection both_tokens (unreachable (JsError ''TypeError'' ''fetch failed''))
     = ([api_call bearer_A ''auth.test'' []],
        Inr \<lparr> connected = False, message = ''fetch failed'', team = None, user = None \<rparr>)"
    using dispatcher_failures_surface
      [where c = both_tokens
         and netT = "unreachable (JsError ''TypeError'' ''fetch failed'')"
         and e = "JsError ''TypeError'' ''fetch failed''",
         THEN conjunct2, THEN conjunct2, THEN conjunct2, THEN conjunct2, THEN conjunct2,
         THEN conjunct2, THEN conjunct1]
    by (simp add: request_cases hA unreachable_def error_message_def)
  have w7: "snd (request both_tokens (replies_with slot_reply) ''files.getUploadURLExternal''
              [(''filename'', VStr ''a.txt''), (''length'', VNum (Number 10))]) = Inr slot_reply"
    using up dispatcher_failures_surface
      [where c = both_tokens and ?net1.0 = "replies_with slot_reply"
         and ?net2.0 = "replies_with ()"
         and ?net3.0 = "replies_with (complete_reply [JObj [(''id'', JStr ''F123'')]])"
         and chs = "''C1''" and content = ten_bytes and filename = "''a.txt''"
         and title = None and ic = None and tts = None
         and f = "Some (JObj [(''id'', JStr ''F123'')])",
         THEN conjunct2, THEN conjunct2, THEN conjunct2, THEN conjunct2, THEN conjunct2,
         THEN conjunct2, THEN conjunct2, THEN conjunct1]
    by (auto simp: len request_cases hA replies_with_def answer_def slot_reply_def)
  have w8: "uploadFile both_tokens
         (replies_with (slot_reply \<lparr> ok := False, error := Some ''invalid_auth'' \<rparr>))
         (replies_with ()) (replies_with (complete_reply []))
         ''C1'' ten_bytes ''a.txt'' None None None
     = ([api_call bearer_A ''files.getUploadURLExternal''
           [(''filename'', VStr ''a.txt''), (''length'', VNum (Number 10))]],
        Inl (SlackErr (mapSlackError ''invalid_auth'' (Some ''invalid_auth''))))"
    using dispatcher_failures_surface
      [where c = both_tokens
         and ?net1.0 = "replies_with (slot_reply \<lparr> ok := False, error := Some ''invalid_auth'' \<rparr>)"
         and ?net2.0 = "replies_with ()"
         and ?net3.0 = "replies_with (complete_reply [])"
         and chs = "''C1''" and content = ten_bytes and filename = "''a.txt''"
         and title = None and ic = None and tts = None
         and e = "SlackErr (mapSlackError ''invalid_auth'' (Some ''invalid_auth''))",
         THEN conjunct2, THEN conjunct2, THEN conjunct2, THEN conjunct2, THEN conjunct2,
         THEN conjunct2, THEN conjunct2, THEN conjunct2, THEN conjunct1]
    by (simp add: len request_cases hA replies_with_def answer_def slot_reply_def or_else_def)
  have w9: "snd (uploadFile both_tokens (replies_with slot_reply)
              (unreachable (JsError ''TypeError'' ''fetch failed''))
              (replies_with (complete_reply []))
              ''C1'' ten_bytes ''a.txt'' None None None)
     = Inl (JsError ''TypeError'' ''fetch failed'')"
    using slot dispatcher_failures_surface
      [where c = both_tokens
         and ?net1.0 = "replies_with slot_reply"
         and ?net2.0 = "unreachable (JsError ''TypeError'' ''fetch failed'')"
         and ?net3.0 = "replies_with (complete_reply [])"
         and chs = "''C1''" and content = ten_bytes and filename = "''a.txt''"
         and title = None and ic = None and tts = None
         and u = slot_reply
         and e = "JsError ''TypeError'' ''fetch failed''",
         THEN conjunct2, THEN conjunct2, THEN conjunct2, THEN conjunct2, THEN conjunct2,
         THEN conjunct2, THEN conjunct2, THEN conjunct2, THEN conjunct2, THEN conjunct1]
    by (simp add: unreachable_def)
  have w10: "snd (uploadFile both_tokens (replies_with slot_reply) (replies_with ())
              (replies_with (complete_reply [] \<lparr> ok := False, error := Some ''channel_not_found'' \<rparr>))
              ''C1'' ten_bytes ''a.txt'' None None None)
     = Inl (SlackErr (mapSlackError ''channel_not_found'' (Some ''channel_not_found'')))"
    using slot dispatcher_failures_surface
      [where c = both_tokens
         and ?net1.0 = "replies_with slot_reply"
         and ?net2.0 = "replies_with ()"
         and ?net3.0 = "replies_with (complete_reply [] \<lparr> ok := False, error := Some ''channel_not_found'' \<rparr>)"
         and chs = "''C1''" and content = ten_bytes and filename = "''a.txt''"
         and title = None and ic = None and tts = None
         and u = slot_reply
         and r = "\<lparr> status = 200, headers_get = no_headers, json_body = Inr () \<rparr>"
         and e = "SlackErr (mapSlackError ''channel_not_found'' (Some ''channel_not_found''))",
         THEN conjunct2, THEN conjunct2, THEN conjunct2, THEN conjunct2, THEN conjunct2,
         THEN conjunct2, THEN conjunct2, THEN conjunct2, THEN conjunct2, THEN conjunct2,
         THEN conjunct1]
    by (simp add: request_cases hA replies_with_def answer_def complete_reply_def or_else_def)
  have w11: "length (fst (uploadFile both_tokens (replies_with slot_reply) (replies_with ())
              (replies_with (complete_reply [JObj [(''id'', JStr ''F123'')]]))
              ''C1'' ten_bytes ''a.txt'' None None None)) \<le> 3"
    using dispatcher_failures_surface
      [where c = both_tokens and ?net1.0 = "replies_with slot_reply"
         and ?net2.0 = "replies_with ()"
         and ?net3.0 = "replies_with (complete_reply [JObj [(''id'', JStr ''F123'')]])"
         and chs = "''C1''" and content = ten_bytes and filename = "''a.txt''"
         and title = None and ic = None and tts = None,
         THEN conjunct2, THEN conjunct2, THEN conjunct2, THEN conjunct2, THEN conjunct2,
         THEN conjunct2, THEN conjunct2, THEN conjunct2, THEN conjunct2, THEN conjunct2,
         THEN conjunct2, THEN conjunct1]
    by simp
  have w12: "snd (listConversations both_tokens (unreachable (JsError ''TypeError'' ''fetch failed'')) None)
     = Inl (JsError ''TypeError'' ''fetch failed'')"
    using dispatcher_failures_surface
      [where c = both_tokens,
         THEN conjunct2, THEN conjunct2, THEN conjunct2, THEN conjunct2, THEN conjunct2,
         THEN conjunct2, THEN conjunct2, THEN conjunct2, THEN conjunct2, THEN conjunct2,
         THEN conjunct2, THEN conjunct2, THEN conjunct1,
         THEN spec, THEN spec,
         of "unreachable (JsError ''TypeError'' ''fetch failed'')" None]
    by (auto simp: relays_def request_cases hA unreachable_def)
  have w13: "snd (deleteMessage both_tokens (replies_with (error_envelope ''message_not_found''))
              ''C1'' ''1700000000.000100'')
     = Inl (SlackErr (mapSlackError ''message_not_found'' (Some ''message_not_found'')))"
    using dispatcher_failures_surface
      [where c = both_tokens,
         THEN conjunct2, THEN conjunct2, THEN conjunct2, THEN conjunct2, THEN conjunct2,
         THEN conjunct2, THEN conjunct2, THEN conjunct2, THEN conjunct2, THEN conjunct2,
         THEN conjunct2, THEN conjunct2, THEN conjunct2, THEN conjunct2, THEN conjunct2,
         THEN conjunct2, THEN conjunct2, THEN conjunct2, THEN conjunct2, THEN conjunct2,
         THEN conjunct2, THEN conjunct2, THEN conjunct2, THEN conjunct2, THEN conjunct2,
         THEN conjunct2, THEN conjunct2, THEN conjunct2, THEN conjunct2, THEN conjunct1,
         THEN spec, THEN spec, THEN spec,
         of "replies_with (error_envelope ''message_not_found'')" "''C1''" "''1700000000.000100''"]
    by (auto simp: relays_def request_cases hA replies_with_def answer_def error_envelope_def
          or_else_def)
  have w14: "snd (listEmoji no_tokens (unreachable (JsError ''TypeError'' ''fetch failed'')))
     = Inl (SlackErr (new_AuthenticationError
          ''No credentials provided. Include X-Slack-Bot-Token or X-Slack-User-Token header.''))"
    using dispatcher_failures_surface
      [where c = no_tokens,
         THEN conjunct2, THEN conjunct2, THEN conjunct2, THEN conjunct2, THEN conjunct2,
         THEN conjunct2, THEN conjunct2, THEN conjunct2, THEN conjunct2, THEN conjunct2,
         THEN conjunct2, THEN conjunct2, THEN conjunct2, THEN conjunct2, THEN conjunct2,
         THEN conjunct2, THEN conjunct2, THEN conjunct2, THEN conjunct2, THEN conjunct2,
         THEN conjunct2, THEN conjunct2, THEN conjunct2, THEN conjunct2, THEN conjunct2,
         THEN conjunct2, THEN conjunct2, THEN conjunct2, THEN conjunct2, THEN conjunct2,
         THEN conjunct2, THEN conjunct2, THEN conjunct2, THEN conjunct2, THEN conjunct2,
         THEN conjunct2, THEN conjunct2, THEN conjunct2, THEN conjunct2, THEN conjunct2,
         THEN conjunct2, THEN conjunct2, THEN conjunct2, THEN conjunct2, THEN conjunct2,
         THEN conjunct2, THEN conjunct2, THEN conjunct2, THEN conjunct2, THEN conjunct2,
         THEN conjunct2, THEN conjunct2, THEN conjunct2, THEN conjunct2, THEN conjunct2,
         THEN conjunct2, THEN conjunct2, THEN conjunct2, THEN conjunct2, THEN conjunct2,
         THEN conjunct2, THEN conjunct2, THEN conjunct2, THEN conjunct2, THEN conjunct2,
         THEN conjunct2, THEN conjunct2, THEN conjunct2, THEN conjunct2, THEN conjunct2,
         THEN conjunct2, THEN conjunct2, THEN conjunct2, THEN conjunct2, THEN conjunct2,
         THEN conjunct2, THEN conjunct2, THEN conjunct2, THEN conjunct2,
         THEN spec, of "unreachable (JsError ''TypeError'' ''fetch failed'')"]
    by (auto simp: relays_def request_cases hN)
  show ?thesis
    using w1 w2 w3 w4 w5 w6 up w7 w8 w9 w10 w11 w12 w13 w14 by simp
qed

text \<open>
  The claim as written fails for the connection test: on a 429, on a rejected
  \<open>fetch\<close> and without credentials the dispatcher throws, and \<open>testConnection\<close> returns a
  normal result.
\<close>

theorem testConnection_swallows_failure_counterexample:
  "request both_tokens (answer 429 (retry_after ''30'') (Inr auth_test_reply)) ''auth.test'' []
     = ([api_call bearer_A ''auth.test'' []],
        Inl (SlackErr \<lparr> name = ''RateLimitError'', message = ''Rate limit exceeded'',
                         code = ''RATE_LIMITED'', statusCode = Some 429, retryable = True,
                         retryAfterSeconds = Some (Number 30) \<rparr>))
   \<and> testConnection both_tokens (answer 429 (retry_after ''30'') (Inr auth_test_reply))
     = ([api_call bearer_A ''auth.test'' []],
        Inr \<lparr> connected = False, message = ''Rate limit exceeded'', team = None, user = None \<rparr>)
   \<and> testConnection both_tokens (unreachable (JsError ''TypeError'' ''fetch failed''))
     = ([api_call bearer_A ''auth.test'' []],
        Inr \<lparr> connected = False, message = ''fetch failed'', team = None, user = None \<rparr>)
   \<and> testConnection no_tokens (replies_with auth_test_reply)
     = ([],
        Inr \<lparr> connected = False,
               message = ''No credentials provided. Include X-Slack-Bot-Token or X-Slack-User-Token header.'',
               team = None, user = None \<rparr>)"
proof -
  have p: "parseInt10 ''30'' = Number 30"
    by (simp add: parseInt10_def is_js_whitespace_def is_digit_def digits_value_def
          round_to_double_def)
  have n: "getAuthHeaders no_tokens = Inl (SlackErr (new_AuthenticationError
        ''No credentials provided. Include X-Slack-Bot-Token or X-Slack-User-Token header.''))"
    by (simp add: getAuthHeaders_def no_tokens_def or_opt_def truthy_str_def)
  show ?thesis
    by (simp add: testConnection_def try_catch_def await_def resolve_def request_cases
          getAuthHeaders_both_tokens n p answer_def retry_after_def unreachable_def
          error_ctor_defs or_else_def error_message_def)
qed

end
